theory Spec2Isabelle
  imports Complex_Main "HOL-Library.Log_Nat"
begin

unbundle bit_operations_syntax

section \<open>The DigitalID contract (blockchain/contracts/DigitalID.sol)\<close>

text \<open>
  Addresses are represented by their canonical text form; \<open>address(0)\<close> is the
  all-zero address. \<open>uint256\<close> values are natural numbers; the only arithmetic
  that can leave the range is \<open>_idCounter++\<close>, whose overflow check (Solidity 0.8)
  is written out. A transaction either reverts, leaving the storage as it was, or
  returns the new storage; the events it emits are appended to a log.
\<close>

type_synonym address = string

definition address0 :: address where
  "address0 = ''0x0000000000000000000000000000000000000000''"

record Identity =
  id' :: nat
  name :: string
  email :: string
  nationality :: string
  aadhaarHash :: string
  passportHash :: string
  emergencyContact :: string
  createdAt :: nat
  updatedAt :: nat
  isActive :: bool
  isVerified :: bool
  walletAddress :: address
  roles :: "string list"

datatype Event =
    IdentityCreated nat address string string nat
  | IdentityUpdated nat address nat
  | IdentityVerified nat address nat
  | IdentityDeactivated nat address nat
  | RoleAdded nat string nat
  | RoleRemoved nat string nat

text \<open>
  A failed \<open>require\<close> reverts with its message; a failed built-in check
  (arithmetic overflow \<open>0x11\<close>, array index out of bounds \<open>0x32\<close>) panics
  with its code.
\<close>

datatype revert = Revert string | Panic nat

record Contract =
  owner :: address
  idCounter :: nat
  walletToIdentity :: "address \<Rightarrow> nat"
  identities :: "nat \<Rightarrow> Identity"
  emailToIdentity :: "string \<Rightarrow> nat"
  aadhaarToIdentity :: "string \<Rightarrow> nat"
  passportToIdentity :: "string \<Rightarrow> nat"
  events :: "Event list"

text \<open>Storage that was never written reads as zero.\<close>

definition empty_Identity :: Identity where
  "empty_Identity = \<lparr>id' = 0, name = [], email = [], nationality = [], aadhaarHash = [],
     passportHash = [], emergencyContact = [], createdAt = 0, updatedAt = 0,
     isActive = False, isVerified = False, walletAddress = address0, roles = []\<rparr>"

definition constructor' :: "address \<Rightarrow> Contract" where
  "constructor' sender = \<lparr>owner = sender, idCounter = 0,
     walletToIdentity = (\<lambda>_. 0), identities = (\<lambda>_. empty_Identity),
     emailToIdentity = (\<lambda>_. 0), aadhaarToIdentity = (\<lambda>_. 0),
     passportToIdentity = (\<lambda>_. 0), events = []\<rparr>"

definition uint256_max :: nat where
  "uint256_max = 2 ^ 256 - 1"

text \<open>The three modifiers, as the checks they run before the body.\<close>

definition onlyOwner :: "Contract \<Rightarrow> address \<Rightarrow> revert option" where
  "onlyOwner s sender = (if sender = owner s then None else Some (Revert ''Not the owner''))"

definition onlyIdentityOwner :: "Contract \<Rightarrow> address \<Rightarrow> nat \<Rightarrow> revert option" where
  "onlyIdentityOwner s sender i =
     (if walletAddress (identities s i) = sender then None
      else Some (Revert ''Not identity owner''))"

definition identityExists :: "Contract \<Rightarrow> nat \<Rightarrow> revert option" where
  "identityExists s i =
     (if walletAddress (identities s i) \<noteq> address0 then None
      else Some (Revert ''Identity does not exist''))"

definition createIdentity ::
  "Contract \<Rightarrow> address \<Rightarrow> nat \<Rightarrow> string \<Rightarrow> string \<Rightarrow> string \<Rightarrow> string \<Rightarrow> string \<Rightarrow> string
     \<Rightarrow> string list \<Rightarrow> revert + Contract" where
  "createIdentity s sender now n e nat' aadhaar passport emergency rs =
     (if walletToIdentity s sender \<noteq> 0 then Inl (Revert ''Identity already exists'')
      else if emailToIdentity s e \<noteq> 0 then Inl (Revert ''Email already registered'')
      else if \<not> length n > 0 then Inl (Revert ''Name cannot be empty'')
      else if \<not> length e > 0 then Inl (Revert ''Email cannot be empty'')
      else if idCounter s = uint256_max then Inl (Panic 0x11)
      else
        let newId = idCounter s + 1;
            newIdentity = (identities s newId)\<lparr>id' := newId, name := n, email := e,
              nationality := nat', aadhaarHash := aadhaar, passportHash := passport,
              emergencyContact := emergency, createdAt := now, updatedAt := now,
              isActive := True, isVerified := False, walletAddress := sender,
              roles := roles (identities s newId) @ rs\<rparr>
        in Inr (s\<lparr>idCounter := newId,
                  identities := (identities s)(newId := newIdentity),
                  walletToIdentity := (walletToIdentity s)(sender := newId),
                  emailToIdentity := (emailToIdentity s)(e := newId),
                  aadhaarToIdentity :=
                    (if length aadhaar > 0 then (aadhaarToIdentity s)(aadhaar := newId)
                     else aadhaarToIdentity s),
                  passportToIdentity :=
                    (if length passport > 0 then (passportToIdentity s)(passport := newId)
                     else passportToIdentity s),
                  events := events s @ [IdentityCreated newId sender n e now]\<rparr>))"

text \<open>
  \<open>updateIdentity\<close> compares the stored and the new email through their
  \<open>keccak256\<close> digests; the model compares the strings.
\<close>

definition updateIdentity ::
  "Contract \<Rightarrow> address \<Rightarrow> nat \<Rightarrow> nat \<Rightarrow> string \<Rightarrow> string \<Rightarrow> string \<Rightarrow> string
     \<Rightarrow> revert + Contract" where
  "updateIdentity s sender now i n e nat' emergency =
     (case onlyIdentityOwner s sender i of Some r \<Rightarrow> Inl r | None \<Rightarrow>
      case identityExists s i of Some r \<Rightarrow> Inl r | None \<Rightarrow>
        let identity = identities s i in
        if email identity \<noteq> e \<and> emailToIdentity s e \<noteq> 0
        then Inl (Revert ''Email already registered'')
        else
          Inr (s\<lparr>emailToIdentity :=
                    (if email identity \<noteq> e
                     then ((emailToIdentity s)(email identity := 0))(e := i)
                     else emailToIdentity s),
                  identities := (identities s)(i := identity\<lparr>name := n, email := e,
                     nationality := nat', emergencyContact := emergency, updatedAt := now\<rparr>),
                  events := events s @ [IdentityUpdated i sender now]\<rparr>))"

definition verifyIdentity :: "Contract \<Rightarrow> address \<Rightarrow> nat \<Rightarrow> nat \<Rightarrow> revert + Contract" where
  "verifyIdentity s sender now i =
     (case onlyOwner s sender of Some r \<Rightarrow> Inl r | None \<Rightarrow>
      case identityExists s i of Some r \<Rightarrow> Inl r | None \<Rightarrow>
        Inr (s\<lparr>identities := (identities s)(i := (identities s i)\<lparr>isVerified := True\<rparr>),
                events := events s @ [IdentityVerified i sender now]\<rparr>))"

definition deactivateIdentity :: "Contract \<Rightarrow> address \<Rightarrow> nat \<Rightarrow> nat \<Rightarrow> revert + Contract" where
  "deactivateIdentity s sender now i =
     (case onlyIdentityOwner s sender i of Some r \<Rightarrow> Inl r | None \<Rightarrow>
      case identityExists s i of Some r \<Rightarrow> Inl r | None \<Rightarrow>
        Inr (s\<lparr>identities := (identities s)(i := (identities s i)\<lparr>isActive := False\<rparr>),
                events := events s @ [IdentityDeactivated i sender now]\<rparr>))"

definition addRole :: "Contract \<Rightarrow> address \<Rightarrow> nat \<Rightarrow> nat \<Rightarrow> string \<Rightarrow> revert + Contract" where
  "addRole s sender now i r =
     (case onlyIdentityOwner s sender i of Some e \<Rightarrow> Inl e | None \<Rightarrow>
      case identityExists s i of Some e \<Rightarrow> Inl e | None \<Rightarrow>
        Inr (s\<lparr>identities :=
                  (identities s)(i := (identities s i)\<lparr>roles := roles (identities s i) @ [r]\<rparr>),
                events := events s @ [RoleAdded i r now]\<rparr>))"

text \<open>
  \<open>removeRole\<close> overwrites position \<open>_roleIndex\<close> with the last element, pops,
  and only then reads \<open>roles[_roleIndex]\<close> for the event. That read is bounds-checked:
  when \<open>_roleIndex\<close> was the last position it is out of range after the pop, and the
  whole call reverts with panic \<open>0x32\<close>.
\<close>

definition removeRole :: "Contract \<Rightarrow> address \<Rightarrow> nat \<Rightarrow> nat \<Rightarrow> nat \<Rightarrow> revert + Contract" where
  "removeRole s sender now i roleIndex =
     (case onlyIdentityOwner s sender i of Some e \<Rightarrow> Inl e | None \<Rightarrow>
      case identityExists s i of Some e \<Rightarrow> Inl e | None \<Rightarrow>
        let rs = roles (identities s i) in
        if \<not> roleIndex < length rs then Inl (Revert ''Invalid role index'')
        else
          let rs' = butlast (rs[roleIndex := rs ! (length rs - 1)]) in
          if \<not> roleIndex < length rs' then Inl (Panic 0x32)
          else
            Inr (s\<lparr>identities := (identities s)(i := (identities s i)\<lparr>roles := rs'\<rparr>),
                    events := events s @ [RoleRemoved i (rs' ! roleIndex) now]\<rparr>))"

definition getIdentityByWallet :: "Contract \<Rightarrow> address \<Rightarrow> revert + Identity" where
  "getIdentityByWallet s w =
     (let i = walletToIdentity s w in
      if \<not> i \<noteq> 0 then Inl (Revert ''Identity not found'') else Inr (identities s i))"

definition getIdentityById :: "Contract \<Rightarrow> nat \<Rightarrow> revert + Identity" where
  "getIdentityById s i =
     (case identityExists s i of Some e \<Rightarrow> Inl e | None \<Rightarrow> Inr (identities s i))"

text \<open>
  The storages that a deployed contract can reach: the constructor's, and whatever a
  successful transaction makes of a reachable one.
\<close>

inductive reachable :: "Contract \<Rightarrow> bool" where
  deployed: "reachable (constructor' sender)"
| created: "reachable s \<Longrightarrow> createIdentity s sender now n e c a p ec rs = Inr s' \<Longrightarrow> reachable s'"
| updated: "reachable s \<Longrightarrow> updateIdentity s sender now i n e c ec = Inr s' \<Longrightarrow> reachable s'"
| verified: "reachable s \<Longrightarrow> verifyIdentity s sender now i = Inr s' \<Longrightarrow> reachable s'"
| deactivated: "reachable s \<Longrightarrow> deactivateIdentity s sender now i = Inr s' \<Longrightarrow> reachable s'"
| role_added: "reachable s \<Longrightarrow> addRole s sender now i r = Inr s' \<Longrightarrow> reachable s'"
| role_removed: "reachable s \<Longrightarrow> removeRole s sender now i k = Inr s' \<Longrightarrow> reachable s'"

text \<open>
  A wallet or an email is registered when one of the identities created so far holds it.
\<close>

definition wallet_registered :: "Contract \<Rightarrow> address \<Rightarrow> bool" where
  "wallet_registered s w = (\<exists>j \<in> {1..idCounter s}. walletAddress (identities s j) = w)"

definition email_registered :: "Contract \<Rightarrow> string \<Rightarrow> bool" where
  "email_registered s e = (\<exists>j \<in> {1..idCounter s}. email (identities s j) = e)"

text \<open>
  The index mappings and the identity records agree: every identity created so far is found
  under its wallet and under its email, every index entry points at the identity that holds
  the key, and no identity exists outside \<open>1.._idCounter\<close>.
\<close>

definition registry_inv :: "Contract \<Rightarrow> bool" where
  "registry_inv s \<longleftrightarrow>
     (\<forall>j. 1 \<le> j \<and> j \<le> idCounter s \<longrightarrow>
        walletToIdentity s (walletAddress (identities s j)) = j \<and>
        emailToIdentity s (email (identities s j)) = j) \<and>
     (\<forall>w. walletToIdentity s w \<noteq> 0 \<longrightarrow>
        walletToIdentity s w \<le> idCounter s \<and>
        walletAddress (identities s (walletToIdentity s w)) = w) \<and>
     (\<forall>e. emailToIdentity s e \<noteq> 0 \<longrightarrow>
        emailToIdentity s e \<le> idCounter s \<and>
        email (identities s (emailToIdentity s e)) = e) \<and>
     (\<forall>j. j = 0 \<or> idCounter s < j \<longrightarrow> walletAddress (identities s j) = address0)"

text \<open>Example storage: an identity created by one wallet, then deactivated by it.\<close>

definition wallet_A :: address where
  "wallet_A = ''0xAAAAAAAAAAAAAAAAAAAAAAAAAAAAAAAAAAAAAAA1''"

definition wallet_B :: address where
  "wallet_B = ''0xBBBBBBBBBBBBBBBBBBBBBBBBBBBBBBBBBBBBBBB2''"

definition wallet_admin :: address where
  "wallet_admin = ''0xCCCCCCCCCCCCCCCCCCCCCCCCCCCCCCCCCCCCCCC3''"

definition asha_Identity :: Identity where
  "asha_Identity = \<lparr>id' = 1, name = ''Asha'', email = ''asha@x.com'', nationality = ''Indian'',
     aadhaarHash = [], passportHash = [], emergencyContact = ''+91-9876543210'',
     createdAt = 1700000000, updatedAt = 1700000000, isActive = True, isVerified = False,
     walletAddress = wallet_A, roles = [''tourist'']\<rparr>"

definition asha_created :: Contract where
  "asha_created = \<lparr>owner = wallet_admin, idCounter = 1,
     walletToIdentity = (\<lambda>_. 0)(wallet_A := 1),
     identities = (\<lambda>_. empty_Identity)(1 := asha_Identity),
     emailToIdentity = (\<lambda>_. 0)(''asha@x.com'' := 1),
     aadhaarToIdentity = (\<lambda>_. 0), passportToIdentity = (\<lambda>_. 0),
     events = [IdentityCreated 1 wallet_A ''Asha'' ''asha@x.com'' 1700000000]\<rparr>"

definition asha_guide :: Contract where
  "asha_guide = asha_created\<lparr>
     identities := (identities asha_created)(1 := asha_Identity\<lparr>roles := [''tourist'', ''guide'']\<rparr>),
     events := events asha_created @ [RoleAdded 1 ''guide'' 1700000050]\<rparr>"

definition asha_deactivated :: Contract where
  "asha_deactivated = asha_guide\<lparr>
     identities := (identities asha_guide)
       (1 := asha_Identity\<lparr>roles := [''tourist'', ''guide''], isActive := False\<rparr>),
     events := events asha_guide @ [IdentityDeactivated 1 wallet_A 1700000100]\<rparr>"


section \<open>JavaScript values, number formatting and JSON text\<close>

text \<open>
  Strings are byte strings (the UTF-8 encoding of the text). Numbers are the integers the
  code handles (indices, nonces, millisecond timestamps, identity ids), all far below
  \<open>2^53\<close>, where a JavaScript number is exact and prints in plain decimal.
\<close>

datatype js_error = TypeError | SyntaxError | Error string

definition digit_char :: "nat \<Rightarrow> char" where
  "digit_char n = ''0123456789abcdef'' ! n"

function nat_toString :: "nat \<Rightarrow> string" where
  "nat_toString n =
     (if n < 10 then [digit_char n] else nat_toString (n div 10) @ [digit_char (n mod 10)])"
  by pat_completeness auto
termination
  by (relation "measure (\<lambda>n. n)") auto

declare nat_toString.simps [simp del]

definition int_toString :: "int \<Rightarrow> string" where
  "int_toString i = (if i < 0 then CHR ''-'' # nat_toString (nat (- i)) else nat_toString (nat i))"

text \<open>
  The values that the code serialises: JSON's, and \<open>undefined\<close>, which
  \<open>JSON.stringify\<close> drops from objects, writes as \<open>null\<close> in arrays and answers
  with \<open>undefined\<close> (no text) at top level. An object is its list of properties in
  insertion order, with distinct names.
\<close>

datatype json =
    JUndefined
  | JNull
  | JBool bool
  | JNum int
  | JStr string
  | JArr "json list"
  | JObj "(string \<times> json) list"

text \<open>
  \<open>JSON.stringify\<close> on a string: the quote and the backslash are escaped, the control
  characters below \<open>0x20\<close> are written as \<open>\b \t \n \f \r\<close> or \<open>\u00XX\<close>,
  every other byte is copied.
\<close>

definition json_escape_char :: "char \<Rightarrow> string" where
  "json_escape_char c =
     (if c = CHR 0x22 then [CHR 0x5C, CHR 0x22]
      else if c = CHR 0x5C then [CHR 0x5C, CHR 0x5C]
      else if c = CHR 0x08 then [CHR 0x5C, CHR ''b'']
      else if c = CHR 0x0C then [CHR 0x5C, CHR ''f'']
      else if c = CHR 0x0A then [CHR 0x5C, CHR ''n'']
      else if c = CHR 0x0D then [CHR 0x5C, CHR ''r'']
      else if c = CHR 0x09 then [CHR 0x5C, CHR ''t'']
      else if (of_char c :: nat) < 32
        then [CHR 0x5C, CHR ''u'', CHR ''0'', CHR ''0'',
              digit_char (of_char c div 16), digit_char (of_char c mod 16)]
      else [c])"

definition json_quote :: "string \<Rightarrow> string" where
  "json_quote s = CHR 0x22 # concat (map json_escape_char s) @ [CHR 0x22]"

fun join_commas :: "string list \<Rightarrow> string" where
  "join_commas [] = []"
| "join_commas [s] = s"
| "join_commas (s # t # ss) = s @ CHR '','' # join_commas (t # ss)"

fun JSON_stringify :: "json \<Rightarrow> string option"
  and stringify_elements :: "json list \<Rightarrow> string list"
  and stringify_members :: "(string \<times> json) list \<Rightarrow> string list" where
  "JSON_stringify JUndefined = None"
| "JSON_stringify JNull = Some ''null''"
| "JSON_stringify (JBool b) = Some (if b then ''true'' else ''false'')"
| "JSON_stringify (JNum n) = Some (int_toString n)"
| "JSON_stringify (JStr s) = Some (json_quote s)"
| "JSON_stringify (JArr xs) = Some (CHR ''['' # join_commas (stringify_elements xs) @ '']'')"
| "JSON_stringify (JObj kvs) = Some (CHR ''{'' # join_commas (stringify_members kvs) @ ''}'')"
| "stringify_elements [] = []"
| "stringify_elements (x # xs) =
     (case JSON_stringify x of None \<Rightarrow> ''null'' | Some s \<Rightarrow> s) # stringify_elements xs"
| "stringify_members [] = []"
| "stringify_members ((k, v) # kvs) =
     (case JSON_stringify v of
        None \<Rightarrow> stringify_members kvs
      | Some s \<Rightarrow> (json_quote k @ CHR '':'' # s) # stringify_members kvs)"


section \<open>SHA-256 (Node's \<open>crypto.createHash('sha256')\<close>, FIPS 180-4)\<close>

text \<open>
  The digest the ledger uses, over 32-bit words held as natural numbers with the
  reduction modulo \<open>2^32\<close> written out, so that a digest of a concrete message can be
  computed by rewriting. The result is the lower-case hexadecimal text that
  \<open>digest('hex')\<close> returns.
\<close>

definition sha256_k :: "nat list" where
  "sha256_k = [
    0x428A2F98, 0x71374491, 0xB5C0FBCF, 0xE9B5DBA5, 0x3956C25B, 0x59F111F1, 0x923F82A4, 0xAB1C5ED5,
    0xD807AA98, 0x12835B01, 0x243185BE, 0x550C7DC3, 0x72BE5D74, 0x80DEB1FE, 0x9BDC06A7, 0xC19BF174,
    0xE49B69C1, 0xEFBE4786, 0x0FC19DC6, 0x240CA1CC, 0x2DE92C6F, 0x4A7484AA, 0x5CB0A9DC, 0x76F988DA,
    0x983E5152, 0xA831C66D, 0xB00327C8, 0xBF597FC7, 0xC6E00BF3, 0xD5A79147, 0x06CA6351, 0x14292967,
    0x27B70A85, 0x2E1B2138, 0x4D2C6DFC, 0x53380D13, 0x650A7354, 0x766A0ABB, 0x81C2C92E, 0x92722C85,
    0xA2BFE8A1, 0xA81A664B, 0xC24B8B70, 0xC76C51A3, 0xD192E819, 0xD6990624, 0xF40E3585, 0x106AA070,
    0x19A4C116, 0x1E376C08, 0x2748774C, 0x34B0BCB5, 0x391C0CB3, 0x4ED8AA4A, 0x5B9CCA4F, 0x682E6FF3,
    0x748F82EE, 0x78A5636F, 0x84C87814, 0x8CC70208, 0x90BEFFFA, 0xA4506CEB, 0xBEF9A3F7, 0xC67178F2]"

definition add32 :: "nat \<Rightarrow> nat \<Rightarrow> nat" where
  "add32 a b = (a + b) mod 4294967296"

definition rotr :: "nat \<Rightarrow> nat \<Rightarrow> nat" where
  "rotr n x = x div 2 ^ n + (x mod 2 ^ n) * 2 ^ (32 - n)"

definition ssig0 :: "nat \<Rightarrow> nat" where
  "ssig0 x = rotr 7 x XOR rotr 18 x XOR (x div 8)"

definition ssig1 :: "nat \<Rightarrow> nat" where
  "ssig1 x = rotr 17 x XOR rotr 19 x XOR (x div 1024)"

definition bsig0 :: "nat \<Rightarrow> nat" where
  "bsig0 x = rotr 2 x XOR rotr 13 x XOR rotr 22 x"

definition bsig1 :: "nat \<Rightarrow> nat" where
  "bsig1 x = rotr 6 x XOR rotr 11 x XOR rotr 25 x"

definition ch :: "nat \<Rightarrow> nat \<Rightarrow> nat \<Rightarrow> nat" where
  "ch x y z = (x AND y) XOR ((4294967295 - x) AND z)"

definition maj :: "nat \<Rightarrow> nat \<Rightarrow> nat \<Rightarrow> nat" where
  "maj x y z = (x AND y) XOR (x AND z) XOR (y AND z)"

type_synonym sha_state = "nat \<times> nat \<times> nat \<times> nat \<times> nat \<times> nat \<times> nat \<times> nat"

fun sha_step2 :: "nat \<Rightarrow> nat \<Rightarrow> sha_state \<Rightarrow> sha_state" where
  "sha_step2 t1 t2 (a, b, c, d, e, f, g, h) = (add32 t1 t2, a, b, c, add32 d t1, e, f, g)"

fun sha_step :: "nat \<Rightarrow> nat \<Rightarrow> sha_state \<Rightarrow> sha_state" where
  "sha_step k w (a, b, c, d, e, f, g, h) =
     sha_step2 (add32 (add32 (add32 (add32 h (bsig1 e)) (ch e f g)) k) w)
               (add32 (bsig0 a) (maj a b c)) (a, b, c, d, e, f, g, h)"

text \<open>
  The message schedule as a window of sixteen words: the head is the word of the current
  round, and each round appends the word sixteen rounds ahead.
\<close>

definition next_win :: "nat list \<Rightarrow> nat list" where
  "next_win win =
     tl win @ [add32 (add32 (ssig1 (win ! 14)) (win ! 9)) (add32 (ssig0 (win ! 1)) (win ! 0))]"

fun sha_rounds :: "nat list \<Rightarrow> nat list \<Rightarrow> sha_state \<Rightarrow> sha_state" where
  "sha_rounds [] win st = st"
| "sha_rounds (k # ks) win st = sha_rounds ks (next_win win) (sha_step k (hd win) st)"

fun sha_add :: "sha_state \<Rightarrow> sha_state \<Rightarrow> sha_state" where
  "sha_add (a, b, c, d, e, f, g, h) (a', b', c', d', e', f', g', h') =
     (add32 a a', add32 b b', add32 c c', add32 d d',
      add32 e e', add32 f f', add32 g g', add32 h h')"

definition sha_compress :: "sha_state \<Rightarrow> nat list \<Rightarrow> sha_state" where
  "sha_compress st blk = sha_add st (sha_rounds sha256_k blk st)"

definition sha256_h0 :: sha_state where
  "sha256_h0 = (0x6A09E667, 0xBB67AE85, 0x3C6EF372, 0xA54FF53A,
                0x510E527F, 0x9B05688C, 0x1F83D9AB, 0x5BE0CD19)"

text \<open>
  Padding: the byte \<open>0x80\<close>, zero bytes up to 56 modulo 64, and the bit length as a
  64-bit big-endian number.
\<close>

definition be_bytes8 :: "nat \<Rightarrow> nat list" where
  "be_bytes8 n = [n div 2 ^ 56 mod 256, n div 2 ^ 48 mod 256, n div 2 ^ 40 mod 256,
     n div 2 ^ 32 mod 256, n div 2 ^ 24 mod 256, n div 2 ^ 16 mod 256, n div 2 ^ 8 mod 256,
     n mod 256]"

definition sha256_pad :: "nat list \<Rightarrow> nat list" where
  "sha256_pad bs =
     bs @ [128] @ replicate ((119 - length bs mod 64) mod 64) 0 @ be_bytes8 (8 * length bs)"

fun words_of_bytes :: "nat list \<Rightarrow> nat list" where
  "words_of_bytes (a # b # c # d # rest) =
     (((a * 256 + b) * 256 + c) * 256 + d) # words_of_bytes rest"
| "words_of_bytes _ = []"

function sha_blocks :: "sha_state \<Rightarrow> nat list \<Rightarrow> sha_state" where
  "sha_blocks st ws =
     (if length ws < 16 then st else sha_blocks (sha_compress st (take 16 ws)) (drop 16 ws))"
  by pat_completeness auto
termination
  by (relation "measure (\<lambda>(st, ws). length ws)") auto

declare sha_blocks.simps [simp del]

definition hex_word :: "nat \<Rightarrow> string" where
  "hex_word n = map (\<lambda>k. digit_char (n div 16 ^ k mod 16)) [7, 6, 5, 4, 3, 2, 1, 0]"

fun sha_hex :: "sha_state \<Rightarrow> string" where
  "sha_hex (a, b, c, d, e, f, g, h) = concat (map hex_word [a, b, c, d, e, f, g, h])"

definition sha256_hex :: "string \<Rightarrow> string" where
  "sha256_hex s = sha_hex (sha_blocks sha256_h0 (words_of_bytes (sha256_pad (map of_char s))))"


section \<open>The ledger (blockchain/src/services/simpleBlockchain.ts)\<close>

record Block =
  index :: nat
  timestamp :: nat
  data :: json
  previousHash :: string
  hash :: string
  nonce :: nat

text \<open>
  \<open>calculateHash\<close> hashes \<open>index + timestamp + JSON.stringify(data) + previousHash + nonce\<close>.
  The first \<open>+\<close> adds two numbers; the rest concatenate text. When \<open>data\<close> has no
  JSON text (\<open>undefined\<close>), the sum of a number and \<open>undefined\<close> is \<open>NaN\<close>.
\<close>

definition calculateHash :: "nat \<Rightarrow> nat \<Rightarrow> json \<Rightarrow> string \<Rightarrow> nat \<Rightarrow> string" where
  "calculateHash i t d p n =
     sha256_hex ((case JSON_stringify d of
                    Some s \<Rightarrow> nat_toString (i + t) @ s
                  | None \<Rightarrow> ''NaN'') @ p @ nat_toString n)"

definition block_hash :: "Block \<Rightarrow> string" where
  "block_hash b = calculateHash (index b) (timestamp b) (data b) (previousHash b) (nonce b)"

text \<open>
  The genesis block reads the clock twice: once for the stored timestamp (\<open>t1\<close>) and
  once more inside the hash (\<open>t2\<close>). It is not mined.
\<close>

definition genesis_data :: json where
  "genesis_data = JObj [(''message'', JStr ''RakshaSetu Genesis Block'')]"

definition createGenesisBlock :: "nat \<Rightarrow> nat \<Rightarrow> Block" where
  "createGenesisBlock t1 t2 =
     \<lparr>index = 0, timestamp = t1, data = genesis_data, previousHash = ''0'',
      hash = calculateHash 0 t2 genesis_data ''0'' 0, nonce = 0\<rparr>"

text \<open>
  The mining loop has no bound: it returns when a nonce gives a hash with the required
  prefix, and not at all when none does.
\<close>

partial_function (option) mineBlock :: "nat \<Rightarrow> Block \<Rightarrow> Block option" where
  "mineBlock difficulty block =
     (if take difficulty (hash block) \<noteq> replicate difficulty (CHR ''0'')
      then mineBlock difficulty
             (block\<lparr>nonce := nonce block + 1,
                    hash := calculateHash (index block) (timestamp block) (data block)
                              (previousHash block) (nonce block + 1)\<rparr>)
      else Some block)"

text \<open>
  \<open>addBlock\<close> on the chain and the difficulty of the instance; \<open>now\<close> is the clock
  reading. It returns the new chain and the mined block. Reading the tip of an empty chain
  would be a \<open>TypeError\<close>; the constructor never leaves the chain empty.
\<close>

definition addBlock ::
  "nat \<Rightarrow> Block list \<Rightarrow> json \<Rightarrow> nat \<Rightarrow> (js_error + Block list \<times> Block) option" where
  "addBlock difficulty chain d now =
     (if chain = [] then Some (Inl TypeError)
      else
        let previousBlock = chain ! (length chain - 1);
            newBlock = \<lparr>index = index previousBlock + 1, timestamp = now, data = d,
                        previousHash = hash previousBlock, hash = [], nonce = 0\<rparr>;
            newBlock = newBlock\<lparr>hash := calculateHash (index newBlock) (timestamp newBlock)
                          (data newBlock) (previousHash newBlock) (nonce newBlock)\<rparr>
        in case mineBlock difficulty newBlock of
             None \<Rightarrow> None
           | Some minedBlock \<Rightarrow> Some (Inr (chain @ [minedBlock], minedBlock)))"

function validateChain_loop :: "Block list \<Rightarrow> nat \<Rightarrow> bool" where
  "validateChain_loop chain i =
     (if i < length chain then
        let currentBlock = chain ! i; previousBlock = chain ! (i - 1) in
        if hash currentBlock \<noteq> calculateHash (index currentBlock) (timestamp currentBlock)
             (data currentBlock) (previousHash currentBlock) (nonce currentBlock)
        then False
        else if previousHash currentBlock \<noteq> hash previousBlock then False
        else validateChain_loop chain (i + 1)
      else True)"
  by pat_completeness auto
termination
  by (relation "measure (\<lambda>(chain, i). length chain - i)") auto

declare validateChain_loop.simps [simp del]

definition validateChain :: "Block list \<Rightarrow> bool" where
  "validateChain chain = validateChain_loop chain 1"

text \<open>The constructor sets the difficulty to 2.\<close>

definition difficulty :: nat where
  "difficulty = 2"

text \<open>
  The chains an instance can hold: the constructor's single genesis block, extended by
  \<open>addBlock\<close> calls that returned.
\<close>

inductive built :: "Block list \<Rightarrow> bool" where
  genesis: "built [createGenesisBlock t1 t2]"
| appended: "built c \<Longrightarrow> addBlock difficulty c d now = Some (Inr (c', b)) \<Longrightarrow> built c'"

text \<open>
  What holds of every chain an instance can hold: the first block is numbered 0 and points
  at "0"; every later block carries the hash of its own fields, with the required prefix,
  and continues its predecessor.
\<close>

definition chain_wf :: "Block list \<Rightarrow> bool" where
  "chain_wf c \<longleftrightarrow> c \<noteq> [] \<and> index (c ! 0) = 0 \<and> previousHash (c ! 0) = ''0'' \<and>
     (\<forall>j. 1 \<le> j \<and> j < length c \<longrightarrow>
        block_hash (c ! j) = hash (c ! j) \<and>
        take difficulty (hash (c ! j)) = replicate difficulty (CHR ''0'') \<and>
        previousHash (c ! j) = hash (c ! (j - 1)) \<and>
        index (c ! j) = index (c ! (j - 1)) + 1)"


text \<open>
  An example ledger: the genesis block of an instance constructed at time
  \<open>1700000000000\<close> (both clock readings in the same millisecond) and three blocks
  appended later. The second appended block needed one retry (nonce 1); the others were
  admitted at nonce 0.
\<close>

definition ledger_g :: Block where
  "ledger_g = createGenesisBlock 1700000000000 1700000000000"

definition ledger_d1 :: json where
  "ledger_d1 = JObj [(''kind'', JStr ''created''), (''id'', JNum 1)]"

definition ledger_d2 :: json where
  "ledger_d2 = JObj [(''kind'', JStr ''verified''), (''id'', JNum 1)]"

definition ledger_d3 :: json where
  "ledger_d3 = JObj [(''kind'', JStr ''deactivated''), (''id'', JNum 1)]"

definition ledger_b1 :: Block where
  "ledger_b1 = \<lparr>index = 1, timestamp = 1700000001176, data = ledger_d1,
     previousHash = ''ab8a724b5bbe7eef3405b089227d7407f24227a9e30d692e354b0692a99a311e'',
     hash = ''00c00c0678f0951f67dd18f675b16f67c6b10e1948b9208cbeb0388ded023807'',
     nonce = 0\<rparr>"

definition ledger_b2 :: Block where
  "ledger_b2 = \<lparr>index = 2, timestamp = 1700000002228, data = ledger_d2,
     previousHash = ''00c00c0678f0951f67dd18f675b16f67c6b10e1948b9208cbeb0388ded023807'',
     hash = ''00158923a2cde4c430581ee4ce1838c164ef500bbf95126a593bc1a91e2f868f'',
     nonce = 1\<rparr>"

definition ledger_b3 :: Block where
  "ledger_b3 = \<lparr>index = 3, timestamp = 1700000003661, data = ledger_d3,
     previousHash = ''00158923a2cde4c430581ee4ce1838c164ef500bbf95126a593bc1a91e2f868f'',
     hash = ''00f434b8041e1655c0eaa8e21a1e5b5c52cd68c1e715c2bd0e8e8de38af35459'',
     nonce = 0\<rparr>"

definition ledger_example :: "Block list" where
  "ledger_example = [ledger_g, ledger_b1, ledger_b2, ledger_b3]"


section \<open>\<open>JSON.parse\<close>\<close>

text \<open>
  What \<open>JSON.parse\<close> returns, and what a property read on it gives: \<open>null\<close>,
  booleans, numbers, strings, arrays, objects, and \<open>undefined\<close> for a property that is
  not there. A number is an IEEE 754 double: a rational, or an infinity (\<open>VInfinity True\<close>
  is the negative one) when the literal is beyond the range. The two zeros are one value
  here: the code reads numbers only through \<open>!x\<close> and \<open>!==\<close>, which do not tell them
  apart.
\<close>

datatype jsvalue =
    VUndefined
  | VNull
  | VBool bool
  | VNum rat
  | VInfinity bool
  | VStr string
  | VArr "jsvalue list"
  | VObj "(string \<times> jsvalue) list"

text \<open>A value that the code writes, as a value read.\<close>

fun value_of :: "json \<Rightarrow> jsvalue"
  and values_of :: "json list \<Rightarrow> jsvalue list"
  and members_of :: "(string \<times> json) list \<Rightarrow> (string \<times> jsvalue) list" where
  "value_of JUndefined = VUndefined"
| "value_of JNull = VNull"
| "value_of (JBool b) = VBool b"
| "value_of (JNum n) = VNum (of_int n)"
| "value_of (JStr s) = VStr s"
| "value_of (JArr xs) = VArr (values_of xs)"
| "value_of (JObj kvs) = VObj (members_of kvs)"
| "values_of [] = []"
| "values_of (x # xs) = value_of x # values_of xs"
| "members_of [] = []"
| "members_of ((k, v) # kvs) = (k, value_of v) # members_of kvs"

subsection \<open>Numbers\<close>

text \<open>
  The double nearest to a positive rational, ties to the even significand: 53 bits above
  \<open>2^-1022\<close>, multiples of \<open>2^-1074\<close> below; \<open>None\<close> from \<open>2^1024\<close> on, which is
  infinity. \<open>binary_exponent x\<close> is the integer part of the binary logarithm of \<open>x\<close>.
\<close>

definition binary_exponent :: "rat \<Rightarrow> int" where
  "binary_exponent x =
     (if 1 \<le> x then int (floorlog 2 (nat \<lfloor>x\<rfloor>)) - 1
      else - int (floorlog 2 (nat (\<lceil>1 / x\<rceil> - 1))))"

definition round_half_even :: "rat \<Rightarrow> int" where
  "round_half_even x =
     (let f = \<lfloor>x\<rfloor>; r = x - of_int f
      in if r < 1 / 2 then f else if 1 / 2 < r then f + 1 else if even f then f else f + 1)"

definition to_double :: "rat \<Rightarrow> rat option" where
  "to_double x =
     (if x = 0 then Some 0
      else
        let e = max (binary_exponent x) (- 1022);
            ulp = power_int 2 (e - 52);
            d = of_int (round_half_even (x / ulp)) * ulp
        in if 2 ^ 1024 \<le> d then None else Some d)"

text \<open>The number that a literal with the digits \<open>m\<close> and the decimal exponent \<open>e\<close> denotes.\<close>

definition number_value :: "bool \<Rightarrow> nat \<Rightarrow> int \<Rightarrow> jsvalue" where
  "number_value negative m e =
     (case to_double (of_nat m * power_int 10 e) of
        None \<Rightarrow> VInfinity negative
      | Some d \<Rightarrow> VNum (if negative then - d else d))"

subsection \<open>The reader\<close>

text \<open>
  A recursive-descent reader of JSON text: white space, the literals, strings with their
  escapes, numbers, arrays and objects. \<open>None\<close> stands for the \<open>SyntaxError\<close> that
  \<open>JSON.parse\<close> throws. Two escapes \<open>\uXXXX\<close> that form a surrogate pair are one
  character of four bytes; a surrogate on its own is written in three bytes like any other
  code unit. The length tests before the recursive calls always succeed; they make the
  recursion visibly terminating.
\<close>

definition is_ws :: "char \<Rightarrow> bool" where
  "is_ws c \<longleftrightarrow> c = CHR '' '' \<or> c = CHR 0x09 \<or> c = CHR 0x0A \<or> c = CHR 0x0D"

definition skip_ws :: "string \<Rightarrow> string" where
  "skip_ws = dropWhile is_ws"

definition is_digit :: "char \<Rightarrow> bool" where
  "is_digit c \<longleftrightarrow> 48 \<le> (of_char c :: nat) \<and> (of_char c :: nat) \<le> 57"

definition hex_val :: "char \<Rightarrow> nat option" where
  "hex_val c =
     (let n = (of_char c :: nat) in
      if 48 \<le> n \<and> n \<le> 57 then Some (n - 48)
      else if 97 \<le> n \<and> n \<le> 102 then Some (n - 87)
      else if 65 \<le> n \<and> n \<le> 70 then Some (n - 55)
      else None)"

definition hex4 :: "char \<Rightarrow> char \<Rightarrow> char \<Rightarrow> char \<Rightarrow> nat option" where
  "hex4 a b c d =
     (case (hex_val a, hex_val b, hex_val c, hex_val d) of
        (Some w, Some x, Some y, Some z) \<Rightarrow> Some (((w * 16 + x) * 16 + y) * 16 + z)
      | _ \<Rightarrow> None)"

definition utf8_encode :: "nat \<Rightarrow> string" where
  "utf8_encode cp =
     (if cp < 128 then [char_of cp]
      else if cp < 2048 then [char_of (192 + cp div 64), char_of (128 + cp mod 64)]
      else if cp < 65536 then
        [char_of (224 + cp div 4096), char_of (128 + cp div 64 mod 64),
         char_of (128 + cp mod 64)]
      else
        [char_of (240 + cp div 262144), char_of (128 + cp div 4096 mod 64),
         char_of (128 + cp div 64 mod 64), char_of (128 + cp mod 64)])"

text \<open>The low surrogate that an escape at the front of the text gives, if there is one.\<close>

definition low_surrogate :: "string \<Rightarrow> nat option" where
  "low_surrogate s =
     (case s of
        b # u # h1 # h2 # h3 # h4 # r \<Rightarrow>
          if b = CHR 0x5C \<and> u = CHR ''u'' then
            (case hex4 h1 h2 h3 h4 of
               None \<Rightarrow> None
             | Some lo \<Rightarrow> if 56320 \<le> lo \<and> lo < 57344 then Some lo else None)
          else None
      | _ \<Rightarrow> None)"

definition prepend :: "string \<Rightarrow> (string \<times> string) option \<Rightarrow> (string \<times> string) option" where
  "prepend p r = (case r of None \<Rightarrow> None | Some (s, rest) \<Rightarrow> Some (p @ s, rest))"

text \<open>The characters of a string after its opening quote, up to the closing quote.\<close>

function parse_chars :: "string \<Rightarrow> (string \<times> string) option" where
  "parse_chars s =
     (case s of
        [] \<Rightarrow> None
      | c # cs \<Rightarrow>
          if c = CHR 0x22 then Some ([], cs)
          else if c = CHR 0x5C then
            (case cs of
               [] \<Rightarrow> None
             | e # r \<Rightarrow>
                 if e = CHR 0x22 \<or> e = CHR 0x5C \<or> e = CHR ''/'' then prepend [e] (parse_chars r)
                 else if e = CHR ''b'' then prepend [CHR 0x08] (parse_chars r)
                 else if e = CHR ''f'' then prepend [CHR 0x0C] (parse_chars r)
                 else if e = CHR ''n'' then prepend [CHR 0x0A] (parse_chars r)
                 else if e = CHR ''r'' then prepend [CHR 0x0D] (parse_chars r)
                 else if e = CHR ''t'' then prepend [CHR 0x09] (parse_chars r)
                 else if e = CHR ''u'' then
                   (if length r < 4 then None
                    else
                      case hex4 (r ! 0) (r ! 1) (r ! 2) (r ! 3) of
                        None \<Rightarrow> None
                      | Some cp \<Rightarrow>
                          (case (if 55296 \<le> cp \<and> cp < 56320 then low_surrogate (drop 4 r)
                                 else None) of
                             Some lo \<Rightarrow>
                               prepend
                                 (utf8_encode (65536 + (cp - 55296) * 1024 + (lo - 56320)))
                                 (parse_chars (drop 10 r))
                           | None \<Rightarrow> prepend (utf8_encode cp) (parse_chars (drop 4 r))))
                 else None)
          else if (of_char c :: nat) < 32 then None
          else prepend [c] (parse_chars cs))"
  by pat_completeness auto
termination
  by (relation "measure length") auto

declare parse_chars.simps [simp del]

text \<open>Digits at the front: their value on top of \<open>acc\<close>, their number, and the rest.\<close>

fun parse_digits :: "nat \<Rightarrow> nat \<Rightarrow> string \<Rightarrow> nat \<times> nat \<times> string" where
  "parse_digits acc k [] = (acc, k, [])"
| "parse_digits acc k (c # cs) =
     (if is_digit c then parse_digits (10 * acc + (of_char c - 48)) (k + 1) cs
      else (acc, k, c # cs))"

definition starts_with :: "(char \<Rightarrow> bool) \<Rightarrow> string \<Rightarrow> bool" where
  "starts_with p s = (case s of [] \<Rightarrow> False | c # _ \<Rightarrow> p c)"

text \<open>
  The integer part: a single 0, or digits that do not begin with 0. The fraction: a point
  and at least one digit. The exponent: \<open>e\<close> or \<open>E\<close>, a sign if any, and at least one
  digit. The three give the digits of the literal, read as one integer, and its decimal
  exponent.
\<close>

definition parse_integer :: "string \<Rightarrow> (nat \<times> string) option" where
  "parse_integer s =
     (case s of
        [] \<Rightarrow> None
      | c # r \<Rightarrow>
          if \<not> is_digit c then None
          else if c = CHR ''0'' then (if starts_with is_digit r then None else Some (0, r))
          else case parse_digits 0 0 s of (n, k, rest) \<Rightarrow> Some (n, rest))"

definition parse_fraction :: "nat \<Rightarrow> string \<Rightarrow> (nat \<times> nat \<times> string) option" where
  "parse_fraction n s =
     (case s of
        [] \<Rightarrow> Some (n, 0, s)
      | c # r \<Rightarrow>
          if c \<noteq> CHR ''.'' then Some (n, 0, s)
          else if \<not> starts_with is_digit r then None
          else Some (parse_digits n 0 r))"

definition parse_exponent :: "string \<Rightarrow> (int \<times> string) option" where
  "parse_exponent s =
     (case s of
        [] \<Rightarrow> Some (0, s)
      | c # r \<Rightarrow>
          if c \<noteq> CHR ''e'' \<and> c \<noteq> CHR ''E'' then Some (0, s)
          else
            let negative = starts_with (\<lambda>d. d = CHR ''-'') r;
                r' = (if starts_with (\<lambda>d. d = CHR ''-'' \<or> d = CHR ''+'') r then tl r else r)
            in if \<not> starts_with is_digit r' then None
               else case parse_digits 0 0 r' of (x, k, rest) \<Rightarrow>
                      Some (if negative then - int x else int x, rest))"

definition parse_number :: "string \<Rightarrow> (jsvalue \<times> string) option" where
  "parse_number s =
     (let negative = starts_with (\<lambda>d. d = CHR ''-'') s;
          s1 = (if negative then tl s else s)
      in case parse_integer s1 of
           None \<Rightarrow> None
         | Some (n, s2) \<Rightarrow>
             (case parse_fraction n s2 of
                None \<Rightarrow> None
              | Some (m, k, s3) \<Rightarrow>
                  (case parse_exponent s3 of
                     None \<Rightarrow> None
                   | Some (x, s4) \<Rightarrow> Some (number_value negative m (x - int k), s4))))"

text \<open>
  A repeated property name keeps its first position and takes the last value. The
  properties of an object come in the order of \<open>OrdinaryOwnPropertyKeys\<close>: the names
  that are array indices (canonical numerals up to \<open>2^32 - 2\<close>) in ascending order, then
  the other names in the order of their creation.
\<close>

fun obj_put :: "(string \<times> 'a) list \<Rightarrow> string \<Rightarrow> 'a \<Rightarrow> (string \<times> 'a) list" where
  "obj_put [] k v = [(k, v)]"
| "obj_put ((k', v') # kvs) k v =
     (if k' = k then (k, v) # kvs else (k', v') # obj_put kvs k v)"

definition array_index :: "string \<Rightarrow> nat option" where
  "array_index k =
     (if k \<noteq> [] \<and> list_all is_digit k \<and> (k = ''0'' \<or> hd k \<noteq> CHR ''0'')
         \<and> fst (parse_digits 0 0 k) \<le> 4294967294
      then Some (fst (parse_digits 0 0 k)) else None)"

definition property_order :: "(string \<times> 'a) list \<Rightarrow> (string \<times> 'a) list" where
  "property_order kvs =
     sort_key (\<lambda>(k, v). case array_index k of Some i \<Rightarrow> i | None \<Rightarrow> 0)
       (filter (\<lambda>(k, v). array_index k \<noteq> None) kvs)
     @ filter (\<lambda>(k, v). array_index k = None) kvs"

definition obj_of_members :: "(string \<times> 'a) list \<Rightarrow> (string \<times> 'a) list" where
  "obj_of_members kvs = property_order (foldl (\<lambda>acc (k, v). obj_put acc k v) [] kvs)"

function parse_value :: "string \<Rightarrow> (jsvalue \<times> string) option"
  and parse_elements :: "string \<Rightarrow> (jsvalue list \<times> string) option"
  and parse_members :: "string \<Rightarrow> ((string \<times> jsvalue) list \<times> string) option" where
  "parse_value s =
     (case s of
        [] \<Rightarrow> None
      | c # r \<Rightarrow>
          if c = CHR ''{'' then
            (case skip_ws r of
               [] \<Rightarrow> None
             | c1 # r2 \<Rightarrow>
                 if c1 = CHR ''}'' then Some (VObj [], r2)
                 else if \<not> length (c1 # r2) < length s then None
                 else (case parse_members (c1 # r2) of
                         None \<Rightarrow> None
                       | Some (kvs, r3) \<Rightarrow> Some (VObj (obj_of_members kvs), r3)))
          else if c = CHR ''['' then
            (case skip_ws r of
               [] \<Rightarrow> None
             | c1 # r2 \<Rightarrow>
                 if c1 = CHR '']'' then Some (VArr [], r2)
                 else if \<not> length (c1 # r2) < length s then None
                 else (case parse_elements (c1 # r2) of
                         None \<Rightarrow> None
                       | Some (vs, r3) \<Rightarrow> Some (VArr vs, r3)))
          else if c = CHR 0x22 then
            (case parse_chars r of None \<Rightarrow> None | Some (str, r1) \<Rightarrow> Some (VStr str, r1))
          else if c = CHR ''t'' then
            (if take 4 s = ''true'' then Some (VBool True, drop 4 s) else None)
          else if c = CHR ''f'' then
            (if take 5 s = ''false'' then Some (VBool False, drop 5 s) else None)
          else if c = CHR ''n'' then
            (if take 4 s = ''null'' then Some (VNull, drop 4 s) else None)
          else parse_number s)"
| "parse_elements s =
     (case parse_value s of
        None \<Rightarrow> None
      | Some (v, r) \<Rightarrow>
          (case skip_ws r of
             [] \<Rightarrow> None
           | c # r1 \<Rightarrow>
               if c = CHR '','' then
                 (if \<not> length (skip_ws r1) < length s then None
                  else (case parse_elements (skip_ws r1) of
                          None \<Rightarrow> None
                        | Some (vs, r2) \<Rightarrow> Some (v # vs, r2)))
               else if c = CHR '']'' then Some ([v], r1)
               else None))"
| "parse_members s =
     (case s of
        [] \<Rightarrow> None
      | c # r \<Rightarrow>
          if c \<noteq> CHR 0x22 then None
          else
            (case parse_chars r of
               None \<Rightarrow> None
             | Some (k, r1) \<Rightarrow>
                 (case skip_ws r1 of
                    [] \<Rightarrow> None
                  | c1 # r2 \<Rightarrow>
                      if c1 \<noteq> CHR '':'' then None
                      else if \<not> length (skip_ws r2) < length s then None
                      else
                        (case parse_value (skip_ws r2) of
                           None \<Rightarrow> None
                         | Some (v, r3) \<Rightarrow>
                             (case skip_ws r3 of
                                [] \<Rightarrow> None
                              | c2 # r4 \<Rightarrow>
                                  if c2 = CHR '','' then
                                    (if \<not> length (skip_ws r4) < length s then None
                                     else (case parse_members (skip_ws r4) of
                                             None \<Rightarrow> None
                                           | Some (kvs, r5) \<Rightarrow> Some ((k, v) # kvs, r5)))
                                  else if c2 = CHR ''}'' then Some ([(k, v)], r4)
                                  else None)))))"
  by pat_completeness auto
termination
  by (relation "measure (\<lambda>x. case x of
        Inl s \<Rightarrow> 2 * length s
      | Inr (Inl s) \<Rightarrow> 2 * length s + 1
      | Inr (Inr s) \<Rightarrow> 2 * length s + 1)") auto

declare parse_value.simps [simp del] parse_elements.simps [simp del] parse_members.simps [simp del]

definition JSON_parse :: "string \<Rightarrow> jsvalue option" where
  "JSON_parse text =
     (case parse_value (skip_ws text) of
        None \<Rightarrow> None
      | Some (v, r) \<Rightarrow> if skip_ws r = [] then Some v else None)"

text \<open>
  The values that \<open>JSON.parse\<close> reads back as they were written: no \<open>undefined\<close>
  anywhere inside, integers below \<open>2^53\<close> in magnitude, and objects as JavaScript holds
  them, with distinct property names in the order of their keys.
\<close>

fun json_safe :: "json \<Rightarrow> bool"
  and safe_elements :: "json list \<Rightarrow> bool"
  and safe_members :: "(string \<times> json) list \<Rightarrow> bool" where
  "json_safe JUndefined = False"
| "json_safe JNull = True"
| "json_safe (JBool b) = True"
| "json_safe (JNum n) = (\<bar>n\<bar> < 2 ^ 53)"
| "json_safe (JStr s) = True"
| "json_safe (JArr xs) = safe_elements xs"
| "json_safe (JObj kvs) =
     (distinct (map fst kvs) \<and> property_order kvs = kvs \<and> safe_members kvs)"
| "safe_elements [] = True"
| "safe_elements (x # xs) = (json_safe x \<and> safe_elements xs)"
| "safe_members [] = True"
| "safe_members ((k, v) # kvs) = (json_safe v \<and> safe_members kvs)"

text \<open>
  What follows a value inside the text that \<open>JSON.stringify\<close> writes (a comma or a
  closing bracket, or nothing), and how a value's text begins.
\<close>

definition delimited :: "string \<Rightarrow> bool" where
  "delimited rest \<longleftrightarrow>
     (case rest of [] \<Rightarrow> True | c # _ \<Rightarrow> c = CHR '','' \<or> c = CHR '']'' \<or> c = CHR ''}'')"

definition value_start :: "string \<Rightarrow> bool" where
  "value_start t \<longleftrightarrow>
     (case t of [] \<Rightarrow> False | c # _ \<Rightarrow> \<not> is_ws c \<and> c \<noteq> CHR '']'' \<and> c \<noteq> CHR ''}'')"

section \<open>Reading JavaScript values\<close>

text \<open>
  A property read (\<open>x.name\<close>) on \<open>null\<close> or \<open>undefined\<close> throws a
  \<open>TypeError\<close>; on an object it gives the property or \<open>undefined\<close>; on any other
  value it gives \<open>undefined\<close> for the names read here (\<open>userId\<close>,
  \<open>walletAddress\<close>, \<open>id\<close>), which no prototype defines.
\<close>

fun js_get :: "jsvalue \<Rightarrow> string \<Rightarrow> js_error + jsvalue" where
  "js_get VUndefined k = Inl TypeError"
| "js_get VNull k = Inl TypeError"
| "js_get (VObj kvs) k = Inr (case map_of kvs k of Some v \<Rightarrow> v | None \<Rightarrow> VUndefined)"
| "js_get (VBool b) k = Inr VUndefined"
| "js_get (VNum n) k = Inr VUndefined"
| "js_get (VInfinity negative) k = Inr VUndefined"
| "js_get (VStr s) k = Inr VUndefined"
| "js_get (VArr xs) k = Inr VUndefined"

text \<open>What \<open>!x\<close> negates.\<close>

fun truthy :: "jsvalue \<Rightarrow> bool" where
  "truthy VUndefined = False"
| "truthy VNull = False"
| "truthy (VBool b) = b"
| "truthy (VNum n) = (n \<noteq> 0)"
| "truthy (VInfinity negative) = True"
| "truthy (VStr s) = (s \<noteq> [])"
| "truthy (VArr xs) = True"
| "truthy (VObj kvs) = True"

section \<open>The QR service (blockchain/src/services/qrService.ts)\<close>








section \<open>QR data of the identity service (DigitalIDService.ts)\<close>

text \<open>
  \<open>generateQRCodeData\<close> writes the identity's fields, the contract address and the
  current time (an ISO 8601 text). An object always has a JSON text.
\<close>

definition qrData_identity :: "Identity \<Rightarrow> string \<Rightarrow> string \<Rightarrow> json" where
  "qrData_identity identity contractAddress now =
     JObj [(''id'', JNum (int (id' identity))), (''name'', JStr (name identity)),
           (''email'', JStr (email identity)),
           (''walletAddress'', JStr (walletAddress identity)),
           (''isVerified'', JBool (isVerified identity)),
           (''roles'', JArr (map JStr (roles identity))),
           (''contractAddress'', JStr contractAddress), (''timestamp'', JStr now)]"

definition generateQRCodeData :: "Identity \<Rightarrow> string \<Rightarrow> string \<Rightarrow> string" where
  "generateQRCodeData identity contractAddress now =
     (case JSON_stringify (qrData_identity identity contractAddress now) of
        Some text \<Rightarrow> text
      | None \<Rightarrow> [])"

record validation =
  valid :: bool
  identity :: "Identity option"

text \<open>
  \<open>validateQRCodeData\<close> runs inside one \<open>try\<close> block whose \<open>catch\<close> answers
  \<open>{valid: false}\<close>. The lookup \<open>getIdentityById\<close> belongs to the blockchain service
  that the identity service was constructed with; it is given \<open>data.id\<close> as parsed and
  answers an identity, \<open>null\<close>, or throws.
\<close>

definition validateQRCodeData ::
  "(jsvalue \<Rightarrow> js_error + Identity option) \<Rightarrow> string \<Rightarrow> validation" where
  "validateQRCodeData lookup qrData =
     (case JSON_parse qrData of
        None \<Rightarrow> \<lparr>valid = False, identity = None\<rparr>
      | Some d \<Rightarrow>
          (case js_get d ''id'' of
             Inl e \<Rightarrow> \<lparr>valid = False, identity = None\<rparr>
           | Inr i \<Rightarrow>
               if \<not> truthy i then \<lparr>valid = False, identity = None\<rparr>
               else
                 (case js_get d ''walletAddress'' of
                    Inl e \<Rightarrow> \<lparr>valid = False, identity = None\<rparr>
                  | Inr w \<Rightarrow>
                      if \<not> truthy w then \<lparr>valid = False, identity = None\<rparr>
                      else
                        (case lookup i of
                           Inl e \<Rightarrow> \<lparr>valid = False, identity = None\<rparr>
                         | Inr None \<Rightarrow> \<lparr>valid = False, identity = None\<rparr>
                         | Inr (Some idn) \<Rightarrow>
                             if VStr (walletAddress idn) \<noteq> w
                             then \<lparr>valid = False, identity = None\<rparr>
                             else \<lparr>valid = True, identity = Some idn\<rparr>))))"

text \<open>The address under which the examples deploy the contract.\<close>

definition contract_address :: string where
  "contract_address = ''0x5FbDB2315678afecb367f032d93F642f64180aa3''"

section \<open>Example tokens\<close>

text \<open>
  The texts that the generators write at a clock reading of 1700000000000: a digital-ID
  token with additional data, a wallet token and a transaction token for \<open>wallet_A\<close>,
  the wallet token of the empty address, a digital-ID token without additional data and
  without a wallet; the token of Asha's identity, the same with the wallet address changed,
  a token for an identifier that no identity has, and a token that writes Asha's
  identifier as \<open>1.0\<close>.
\<close>

definition text_wallet :: string where
  "text_wallet =
     ''{\"userId\":\"\",\"walletAddress\":\"0xAAAAAAAAAAAAAAAAAAAAAAAAAAAA'' @
     ''AAAAAAAAAAA1\",\"timestamp\":1700000000000,\"type\":\"wallet\"}''"

definition text_digital_id :: string where
  "text_digital_id =
     ''{\"userId\":\"u1\",\"walletAddress\":\"0xAAAAAAAAAAAAAAAAAAAAAAAAAA'' @
     ''AAAAAAAAAAAAA1\",\"timestamp\":1700000000000,\"type\":\"digital_id'' @
     ''\",\"data\":{\"purpose\":\"check-in\"}}''"

definition text_transaction :: string where
  "text_transaction =
     ''{\"userId\":\"\",\"walletAddress\":\"0xAAAAAAAAAAAAAAAAAAAAAAAAAAAA'' @
     ''AAAAAAAAAAA1\",\"timestamp\":1700000000000,\"type\":\"transaction\"'' @
     '',\"data\":{\"transactionHash\":\"0xabc\"}}''"

definition text_empty_wallet :: string where
  "text_empty_wallet =
     ''{\"userId\":\"\",\"walletAddress\":\"\",\"timestamp\":1700000000000,\"t'' @
     ''ype\":\"wallet\"}''"

definition text_no_data :: string where
  "text_no_data =
     ''{\"userId\":\"u1\",\"walletAddress\":\"\",\"timestamp\":1700000000000,'' @
     ''\"type\":\"digital_id\"}''"

definition text_asha :: string where
  "text_asha =
     ''{\"id\":1,\"name\":\"Asha\",\"email\":\"asha@x.com\",\"walletAddress\":\"'' @
     ''0xAAAAAAAAAAAAAAAAAAAAAAAAAAAAAAAAAAAAAAA1\",\"isVerified\":fal'' @
     ''se,\"roles\":[\"tourist\"],\"contractAddress\":\"0x5FbDB2315678afec'' @
     ''b367f032d93F642f64180aa3\",\"timestamp\":\"2023-11-14T22:13:20.0'' @
     ''00Z\"}''"

definition text_asha_moved :: string where
  "text_asha_moved =
     ''{\"id\":1,\"name\":\"Asha\",\"email\":\"asha@x.com\",\"walletAddress\":\"'' @
     ''0xBBBBBBBBBBBBBBBBBBBBBBBBBBBBBBBBBBBBBBB2\",\"isVerified\":fal'' @
     ''se,\"roles\":[\"tourist\"],\"contractAddress\":\"0x5FbDB2315678afec'' @
     ''b367f032d93F642f64180aa3\",\"timestamp\":\"2023-11-14T22:13:20.0'' @
     ''00Z\"}''"

definition text_unknown :: string where
  "text_unknown =
     ''{\"id\":7,\"walletAddress\":\"0xA\"}''"

definition text_decimal_id :: string where
  "text_decimal_id =
     ''{\"id\":1.0,\"walletAddress\":\"0xAAAAAAAAAAAAAAAAAAAAAAAAAAAAAAAAAAAAAAA1\"}''"


section \<open>The identity service (blockchain/src/services/DigitalIDService.ts)\<close>

text \<open>
  The service holds the blockchain service it was constructed with (here: the contract's
  storage and the wallet that signs the service's transactions) and a verification queue
  in memory. A call returns its result together with the service afterwards: a
  transaction that was mined stays mined even when the call later throws. The transaction
  hash of a receipt is represented by the position of the transaction's event in the log.
\<close>

record IdentityVerification =
  identityId :: nat
  verifierAddress :: string
  verificationDate :: nat
  status :: string

record DigitalIDService =
  contract :: Contract
  wallet :: address
  verificationQueue :: "nat \<Rightarrow> IdentityVerification option"

definition receipt_hash :: "Contract \<Rightarrow> nat" where
  "receipt_hash c = length (events c)"

record CreateIdentityRequest =
  req_name :: string
  req_email :: string
  req_nationality :: string
  req_aadhaarHash :: string
  req_passportHash :: string
  req_emergencyContact :: string
  req_roles :: "string list"

definition hashData :: "string \<Rightarrow> string" where
  "hashData d = sha256_hex d"

text \<open>
  \<open>createDigitalIdentity\<close> sends \<open>createIdentity\<close> from the service's wallet, then
  looks the identity up under the wallet address it was given, and queues it as pending.
\<close>

definition createDigitalIdentity ::
  "DigitalIDService \<Rightarrow> nat \<Rightarrow> nat \<Rightarrow> CreateIdentityRequest \<Rightarrow> address
     \<Rightarrow> (js_error + Identity \<times> nat) \<times> DigitalIDService" where
  "createDigitalIdentity svc block_time now request walletAddr =
     (let aadhaar = (if req_aadhaarHash request \<noteq> [] then hashData (req_aadhaarHash request) else []);
          passport = (if req_passportHash request \<noteq> [] then hashData (req_passportHash request) else [])
      in case createIdentity (contract svc) (wallet svc) block_time (req_name request)
                (req_email request) (req_nationality request) aadhaar passport
                (req_emergencyContact request) (req_roles request) of
           Inl r \<Rightarrow> (Inl (Error ''Failed to create digital identity''), svc)
         | Inr c' \<Rightarrow>
             (case getIdentityByWallet c' walletAddr of
                Inl r \<Rightarrow> (Inl (Error ''Failed to create digital identity''), svc\<lparr>contract := c'\<rparr>)
              | Inr idn \<Rightarrow>
                  (Inr (idn, receipt_hash c'),
                   svc\<lparr>contract := c',
                       verificationQueue := (verificationQueue svc)(id' idn :=
                         Some \<lparr>identityId = id' idn, verifierAddress = [],
                               verificationDate = now, status = ''pending''\<rparr>)\<rparr>)))"

text \<open>
  \<open>verifyDigitalIdentity\<close> sends \<open>verifyIdentity\<close> from the service's wallet and,
  if the queue holds an entry for the identity, marks it approved with the verifier and the
  date of this call.
\<close>

definition verifyDigitalIdentity ::
  "DigitalIDService \<Rightarrow> nat \<Rightarrow> nat \<Rightarrow> nat \<Rightarrow> string \<Rightarrow> (js_error + nat) \<times> DigitalIDService" where
  "verifyDigitalIdentity svc block_time now i verifier =
     (case verifyIdentity (contract svc) (wallet svc) block_time i of
        Inl r \<Rightarrow> (Inl (Error ''Failed to verify digital identity''), svc)
      | Inr c' \<Rightarrow>
          (Inr (receipt_hash c'),
           svc\<lparr>contract := c',
               verificationQueue :=
                 (case verificationQueue svc i of
                    None \<Rightarrow> verificationQueue svc
                  | Some verification \<Rightarrow>
                      (verificationQueue svc)(i := Some (verification\<lparr>status := ''approved'',
                         verifierAddress := verifier, verificationDate := now\<rparr>)))\<rparr>))"

text \<open>
  Two services on a contract deployed by the administrator's wallet: one that created the
  administrator's identity itself, and one constructed later on Asha's deployment, whose
  queue is empty.
\<close>

definition admin_request :: CreateIdentityRequest where
  "admin_request = \<lparr>req_name = ''Admin'', req_email = ''admin@x.com'',
     req_nationality = ''Indian'', req_aadhaarHash = [], req_passportHash = [],
     req_emergencyContact = ''+91-100'', req_roles = [''admin'']\<rparr>"

definition service_fresh :: DigitalIDService where
  "service_fresh = \<lparr>contract = constructor' wallet_admin, wallet = wallet_admin,
     verificationQueue = (\<lambda>_. None)\<rparr>"

definition service_created :: DigitalIDService where
  "service_created =
     snd (createDigitalIdentity service_fresh 1700000000 1700000000000 admin_request wallet_admin)"

definition service_restarted :: DigitalIDService where
  "service_restarted = \<lparr>contract = asha_created, wallet = wallet_admin,
     verificationQueue = (\<lambda>_. None)\<rparr>"


section \<open>Digital IDs of the ledger service (simpleBlockchain.ts, models/DigitalID.ts)\<close>

record DigitalID =
  did_id :: string
  did_userId :: string
  did_name :: string
  did_email :: string
  did_role :: string
  did_walletAddress :: string
  did_timestamp :: nat
  did_hash :: string
  did_verified :: bool

record UserData =
  ud_userId :: string
  ud_name :: string
  ud_email :: string
  ud_role :: string
  ud_walletAddress :: string
  ud_additionalData :: json

record SimpleBlockchain =
  sb_chain :: "Block list"
  sb_digitalIDs :: "DigitalID list"

subsection \<open>The schema of the durable collection\<close>

text \<open>
  What \<open>DigitalID.create\<close> does to a document before storing it, as the schema
  declares it: \<open>name\<close> is trimmed, \<open>email\<close> is trimmed and lower-cased; every
  required text must be non-empty; \<open>name\<close> has at most 100 UTF-16 code units;
  \<open>email\<close> matches the schema's pattern; \<open>role\<close> is one of four;
  \<open>walletAddress\<close> is \<open>0x\<close> and forty hexadecimal digits; \<open>hash\<close> is unique
  in the collection. A string is held as the bytes of its UTF-8 text, which is what the
  digest reads.
\<close>

datatype rexp = Zero | One | Class "char \<Rightarrow> bool" | Times rexp rexp | Plus rexp rexp | Star rexp

fun nullable :: "rexp \<Rightarrow> bool" where
  "nullable Zero = False"
| "nullable One = True"
| "nullable (Class p) = False"
| "nullable (Times r s) = (nullable r \<and> nullable s)"
| "nullable (Plus r s) = (nullable r \<or> nullable s)"
| "nullable (Star r) = True"

fun times :: "rexp \<Rightarrow> rexp \<Rightarrow> rexp" where
  "times Zero s = Zero"
| "times One s = s"
| "times r s = Times r s"

fun plus :: "rexp \<Rightarrow> rexp \<Rightarrow> rexp" where
  "plus Zero s = s"
| "plus r Zero = r"
| "plus r s = Plus r s"

fun deriv :: "char \<Rightarrow> rexp \<Rightarrow> rexp" where
  "deriv c Zero = Zero"
| "deriv c One = Zero"
| "deriv c (Class p) = (if p c then One else Zero)"
| "deriv c (Times r s) =
     (if nullable r then plus (times (deriv c r) s) (deriv c s) else times (deriv c r) s)"
| "deriv c (Plus r s) = plus (deriv c r) (deriv c s)"
| "deriv c (Star r) = times (deriv c r) (Star r)"

fun matches :: "rexp \<Rightarrow> string \<Rightarrow> bool" where
  "matches r [] = nullable r"
| "matches r (c # cs) = matches (deriv c r) cs"

definition is_word :: "char \<Rightarrow> bool" where
  "is_word c \<longleftrightarrow>
     (let n = (of_char c :: nat) in
      (48 \<le> n \<and> n \<le> 57) \<or> (65 \<le> n \<and> n \<le> 90) \<or> (97 \<le> n \<and> n \<le> 122) \<or> n = 95)"

definition some :: "rexp \<Rightarrow> rexp" where
  "some r = Times r (Star r)"

definition opt :: "rexp \<Rightarrow> rexp" where
  "opt r = Plus One r"

text \<open>\<open>/^\w+([.-]?\w+)*@\w+([.-]?\w+)*(\.\w{2,3})+$/\<close>\<close>

definition email_pattern :: rexp where
  "email_pattern =
     (let w = Class is_word;
          part = Times (some w) (Star (Times (opt (Class (\<lambda>c. c = CHR ''.'' \<or> c = CHR ''-''))) (some w)));
          tld = Times (Class (\<lambda>c. c = CHR ''.'')) (Times w (Times w (opt w)))
      in Times part (Times (Class (\<lambda>c. c = CHR ''@'')) (Times part (some tld))))"

definition is_hex :: "char \<Rightarrow> bool" where
  "is_hex c \<longleftrightarrow>
     (let n = (of_char c :: nat) in
      (48 \<le> n \<and> n \<le> 57) \<or> (65 \<le> n \<and> n \<le> 70) \<or> (97 \<le> n \<and> n \<le> 102))"

text \<open>\<open>/^0x[a-fA-F0-9]{40}$/\<close>\<close>

definition wallet_format :: "string \<Rightarrow> bool" where
  "wallet_format v \<longleftrightarrow>
     take 2 v = ''0x'' \<and> length (drop 2 v) = 40 \<and> list_all is_hex (drop 2 v)"

text \<open>
  \<open>String.prototype.trim\<close> removes white space and line terminators from both ends:
  U+0009 to U+000D, U+0020, U+00A0, U+1680, U+2000 to U+200A, U+2028, U+2029, U+202F,
  U+205F, U+3000 and U+FEFF, here in UTF-8.
\<close>

definition white_space :: "string list" where
  "white_space =
     [[CHR 0x09], [CHR 0x0A], [CHR 0x0B], [CHR 0x0C], [CHR 0x0D], [CHR 0x20],
      [CHR 0xC2, CHR 0xA0], [CHR 0xE1, CHR 0x9A, CHR 0x80],
      [CHR 0xE2, CHR 0x80, CHR 0x80], [CHR 0xE2, CHR 0x80, CHR 0x81],
      [CHR 0xE2, CHR 0x80, CHR 0x82], [CHR 0xE2, CHR 0x80, CHR 0x83],
      [CHR 0xE2, CHR 0x80, CHR 0x84], [CHR 0xE2, CHR 0x80, CHR 0x85],
      [CHR 0xE2, CHR 0x80, CHR 0x86], [CHR 0xE2, CHR 0x80, CHR 0x87],
      [CHR 0xE2, CHR 0x80, CHR 0x88], [CHR 0xE2, CHR 0x80, CHR 0x89],
      [CHR 0xE2, CHR 0x80, CHR 0x8A], [CHR 0xE2, CHR 0x80, CHR 0xA8],
      [CHR 0xE2, CHR 0x80, CHR 0xA9], [CHR 0xE2, CHR 0x80, CHR 0xAF],
      [CHR 0xE2, CHR 0x81, CHR 0x9F], [CHR 0xE3, CHR 0x80, CHR 0x80],
      [CHR 0xEF, CHR 0xBB, CHR 0xBF]]"

text \<open>The number of bytes of the white space character at the front; 0 when there is none.\<close>

definition space_ahead :: "string list \<Rightarrow> string \<Rightarrow> nat" where
  "space_ahead spaces s =
     (case find (\<lambda>w. take (length w) s = w) spaces of None \<Rightarrow> 0 | Some w \<Rightarrow> length w)"

function strip :: "string list \<Rightarrow> string \<Rightarrow> string" where
  "strip spaces s =
     (if space_ahead spaces s = 0 then s else strip spaces (drop (space_ahead spaces s) s))"
  by pat_completeness auto
termination
proof (relation "measure (\<lambda>(spaces, s). length s)")
  fix spaces :: "string list" and s :: string
  assume a: "space_ahead spaces s \<noteq> 0"
  then obtain w where "find (\<lambda>w. take (length w) s = w) spaces = Some w" "length w \<noteq> 0"
    by (auto simp: space_ahead_def split: option.splits)
  then have "take (length w) s = w" "w \<noteq> []"
    by (auto simp: find_Some_iff)
  then have "s \<noteq> []" by auto
  with a show "((spaces, drop (space_ahead spaces s) s), (spaces, s))
      \<in> measure (\<lambda>(spaces, s). length s)"
    by simp
qed simp

declare strip.simps [simp del]

definition trim :: "string \<Rightarrow> string" where
  "trim s = rev (strip (map rev white_space) (rev (strip white_space s)))"

text \<open>
  \<open>String.prototype.toLowerCase\<close> follows the case tables of the Unicode standard,
  which are no part of the repository: the schema's lower-casing is a parameter
  \<open>lower\<close> of \<open>DigitalID.create\<close>. On ASCII text the method turns the letters A to Z
  into a to z and changes nothing else, which is all that the examples need.
\<close>

definition toLowerCase_ascii :: "string \<Rightarrow> string" where
  "toLowerCase_ascii s =
     map (\<lambda>c. if 65 \<le> (of_char c :: nat) \<and> (of_char c :: nat) \<le> 90
               then char_of ((of_char c :: nat) + 32) else c) s"

text \<open>
  The \<open>length\<close> of a string counts UTF-16 code units: one for a character of up to
  three bytes, two for a character of four bytes.
\<close>

definition string_length :: "string \<Rightarrow> nat" where
  "string_length s =
     sum_list (map (\<lambda>c. let n = (of_char c :: nat) in
                          if n < 128 then 1 else if n < 192 then 0 else if n < 240 then 1 else 2) s)"

definition schema_valid :: "DigitalID \<Rightarrow> bool" where
  "schema_valid doc \<longleftrightarrow>
     did_userId doc \<noteq> [] \<and>
     did_name doc \<noteq> [] \<and> string_length (did_name doc) \<le> 100 \<and>
     did_email doc \<noteq> [] \<and> matches email_pattern (did_email doc) \<and>
     did_role doc \<in> set [''admin'', ''police'', ''tourism'', ''tourist''] \<and>
     did_walletAddress doc \<noteq> [] \<and> wallet_format (did_walletAddress doc) \<and>
     did_hash doc \<noteq> []"

text \<open>
  \<open>DigitalID.create\<close> on the collection \<open>db\<close>; \<open>oid\<close> is the identifier the
  driver gives the new document. Setters run last declared first, so the email is trimmed
  and then lower-cased.
\<close>

definition DigitalID_create ::
  "(string \<Rightarrow> string) \<Rightarrow> DigitalID list \<Rightarrow> string \<Rightarrow> DigitalID
     \<Rightarrow> js_error + DigitalID \<times> DigitalID list" where
  "DigitalID_create lower db oid doc =
     (let doc = doc\<lparr>did_id := oid, did_name := trim (did_name doc),
                     did_email := lower (trim (did_email doc))\<rparr>
      in if \<not> schema_valid doc then Inl (Error ''DigitalID validation failed'')
         else if did_hash doc \<in> set (map did_hash db) then Inl (Error ''E11000 duplicate key'')
         else Inr (doc, db @ [doc]))"

subsection \<open>\<open>createDigitalID\<close> and \<open>verifyDigitalID\<close>\<close>

definition digitalID_hash :: "UserData \<Rightarrow> nat \<Rightarrow> string" where
  "digitalID_hash userData now =
     sha256_hex (case JSON_stringify (JObj
        [(''userId'', JStr (ud_userId userData)), (''name'', JStr (ud_name userData)),
         (''email'', JStr (ud_email userData)), (''role'', JStr (ud_role userData)),
         (''walletAddress'', JStr (ud_walletAddress userData)),
         (''timestamp'', JNum (int now))]) of Some text \<Rightarrow> text | None \<Rightarrow> [])"

text \<open>
  The record of a request: the hash is taken over the request and the clock reading
  \<open>t1\<close>, the stored timestamp is the later reading \<open>t2\<close>.
\<close>

definition new_document :: "UserData \<Rightarrow> nat \<Rightarrow> nat \<Rightarrow> string \<Rightarrow> DigitalID" where
  "new_document userData t1 t2 newId =
     \<lparr>did_id = newId, did_userId = ud_userId userData, did_name = ud_name userData,
      did_email = ud_email userData, did_role = ud_role userData,
      did_walletAddress = ud_walletAddress userData, did_timestamp = t2,
      did_hash = digitalID_hash userData t1, did_verified = False\<rparr>"

definition digitalID_block :: "DigitalID \<Rightarrow> json" where
  "digitalID_block d =
     JObj [(''type'', JStr ''digital_id''), (''digitalID'', JStr (did_id d)),
           (''hash'', JStr (did_hash d)), (''verified'', JBool (did_verified d))]"

text \<open>
  \<open>createDigitalID\<close> reads \<open>mongoose.connection.readyState\<close> at every call: with
  state 1 the document goes through \<open>DigitalID.create\<close>, otherwise it is built in
  memory under a random UUID. Then the record is pushed and a block is mined. Everything
  that throws is rethrown as "Failed to create digital ID". The three clock readings are
  \<open>t1\<close> (inside the hash), \<open>t2\<close> (the stored timestamp) and \<open>t3\<close> (the block);
  \<open>newId\<close> is the identifier that the driver (an ObjectId) or \<open>randomUUID\<close>
  supplies; \<open>lower\<close> is the lower-casing of the schema. As with \<open>addBlock\<close>,
  \<open>None\<close> means that mining does not return.
\<close>

definition createDigitalID ::
  "(string \<Rightarrow> string) \<Rightarrow> SimpleBlockchain \<Rightarrow> DigitalID list \<Rightarrow> nat \<Rightarrow> nat \<Rightarrow> nat \<Rightarrow> nat
     \<Rightarrow> string \<Rightarrow> UserData
     \<Rightarrow> ((js_error + DigitalID) \<times> SimpleBlockchain \<times> DigitalID list) option" where
  "createDigitalID lower st db readyState t1 t2 t3 newId userData =
     (let doc = new_document userData t1 t2 newId;
          stored = (if readyState = 1 then DigitalID_create lower db newId doc
                    else Inr (doc, db))
      in case stored of
           Inl e \<Rightarrow> Some (Inl (Error ''Failed to create digital ID''), st, db)
         | Inr (digitalID, db') \<Rightarrow>
             (case addBlock difficulty (sb_chain st) (digitalID_block digitalID) t3 of
                None \<Rightarrow> None
              | Some (Inl e) \<Rightarrow>
                  Some (Inl (Error ''Failed to create digital ID''),
                        st\<lparr>sb_digitalIDs := sb_digitalIDs st @ [digitalID]\<rparr>, db')
              | Some (Inr (chain', b)) \<Rightarrow>
                  Some (Inr digitalID,
                        \<lparr>sb_chain = chain', sb_digitalIDs = sb_digitalIDs st @ [digitalID]\<rparr>,
                        db')))"

text \<open>
  \<open>verifyDigitalID\<close> marks the first record with the given hash as verified and returns
  it, or \<open>null\<close>. It does not touch the chain.
\<close>

fun mark_verified :: "string \<Rightarrow> DigitalID list \<Rightarrow> DigitalID list" where
  "mark_verified h [] = []"
| "mark_verified h (d # ds) =
     (if did_hash d = h then d\<lparr>did_verified := True\<rparr> # ds else d # mark_verified h ds)"

definition verifyDigitalID :: "SimpleBlockchain \<Rightarrow> string \<Rightarrow> DigitalID option \<times> SimpleBlockchain" where
  "verifyDigitalID st h =
     (case find (\<lambda>d. did_hash d = h) (sb_digitalIDs st) of
        None \<Rightarrow> (None, st)
      | Some d \<Rightarrow> (Some (d\<lparr>did_verified := True\<rparr>),
                   st\<lparr>sb_digitalIDs := mark_verified h (sb_digitalIDs st)\<rparr>))"


subsection \<open>An example registry\<close>

text \<open>
  A fresh instance on the example ledger's genesis block, and three requests: Asha's, a
  second one under Asha's email with another user and wallet, and one with a role outside
  the schema's list. The records and blocks are what \<open>createDigitalID\<close> makes of them
  at the given clock readings.
\<close>

definition registry_fresh :: SimpleBlockchain where
  "registry_fresh = \<lparr>sb_chain = [ledger_g], sb_digitalIDs = []\<rparr>"

definition asha_request :: UserData where
  "asha_request = \<lparr>ud_userId = ''u1'', ud_name = ''Asha'', ud_email = ''asha@x.com'',
     ud_role = ''tourist'', ud_walletAddress = wallet_A, ud_additionalData = JUndefined\<rparr>"

definition asha_record :: DigitalID where
  "asha_record = \<lparr>did_id = ''1b4e28ba-2fa1-4d3b-a3f5-ef19b5a7633b'', did_userId = ''u1'',
     did_name = ''Asha'', did_email = ''asha@x.com'', did_role = ''tourist'',
     did_walletAddress = wallet_A, did_timestamp = 1700000001000,
     did_hash = ''4e8b90da0cca909b8559327d9cfb6951405284be8bcb3f8dd124397319ef6f04'',
     did_verified = False\<rparr>"

definition asha_block :: Block where
  "asha_block = \<lparr>index = 1, timestamp = 1700000001449, data = digitalID_block asha_record,
     previousHash = ''ab8a724b5bbe7eef3405b089227d7407f24227a9e30d692e354b0692a99a311e'',
     hash = ''00ab13ad5fb92d26c7e536975a99ac5b2887bad55a0c3aac04843a9e4132c44f'', nonce = 0\<rparr>"

definition registry_asha :: SimpleBlockchain where
  "registry_asha = \<lparr>sb_chain = [ledger_g, asha_block], sb_digitalIDs = [asha_record]\<rparr>"

definition twin_request :: UserData where
  "twin_request = \<lparr>ud_userId = ''u2'', ud_name = ''Asha'', ud_email = ''asha@x.com'',
     ud_role = ''tourist'', ud_walletAddress = wallet_B, ud_additionalData = JUndefined\<rparr>"

definition twin_record :: DigitalID where
  "twin_record = \<lparr>did_id = ''6fa459ea-ee8a-4ca4-894e-db77e160355e'', did_userId = ''u2'',
     did_name = ''Asha'', did_email = ''asha@x.com'', did_role = ''tourist'',
     did_walletAddress = wallet_B, did_timestamp = 1700000002000,
     did_hash = ''6b364e242986cfc9c55a0b6d6b3033f8270af17f708b28e89a64e7683422e464'',
     did_verified = False\<rparr>"

definition twin_block :: Block where
  "twin_block = \<lparr>index = 2, timestamp = 1700000002554, data = digitalID_block twin_record,
     previousHash = ''00ab13ad5fb92d26c7e536975a99ac5b2887bad55a0c3aac04843a9e4132c44f'',
     hash = ''005e3892096915d963b0f849a0119c1ffc4de6486d8e2fa9c0c8cb4282235c99'', nonce = 0\<rparr>"

definition registry_twin :: SimpleBlockchain where
  "registry_twin = \<lparr>sb_chain = [ledger_g, asha_block, twin_block],
     sb_digitalIDs = [asha_record, twin_record]\<rparr>"

text \<open>The second request as the durable branch stores it, under an ObjectId.\<close>

definition twin_stored :: DigitalID where
  "twin_stored = twin_record\<lparr>did_id := ''65540d62f1a2b3c4d5e6f708''\<rparr>"

definition twin_stored_block :: Block where
  "twin_stored_block = \<lparr>index = 2, timestamp = 1700000002072,
     data = digitalID_block twin_stored,
     previousHash = ''00ab13ad5fb92d26c7e536975a99ac5b2887bad55a0c3aac04843a9e4132c44f'',
     hash = ''00f2242999dcded3d7b4b03d730c237a5646234da8df6aa408e7a0c0a33f3ab5'', nonce = 0\<rparr>"

definition registry_twin_stored :: SimpleBlockchain where
  "registry_twin_stored = \<lparr>sb_chain = [ledger_g, asha_block, twin_stored_block],
     sb_digitalIDs = [asha_record, twin_stored]\<rparr>"

definition guide_request :: UserData where
  "guide_request = \<lparr>ud_userId = ''u3'', ud_name = ''Ravi'', ud_email = ''ravi@x.com'',
     ud_role = ''guide'', ud_walletAddress = wallet_B, ud_additionalData = JUndefined\<rparr>"

definition guide_record :: DigitalID where
  "guide_record = \<lparr>did_id = ''16fd2706-8baf-433b-82eb-8c7fada847da'', did_userId = ''u3'',
     did_name = ''Ravi'', did_email = ''ravi@x.com'', did_role = ''guide'',
     did_walletAddress = wallet_B, did_timestamp = 1700000003000,
     did_hash = ''0004695f348f0a645b119c4c1be4bef8e134f5fae5c0dd81e8b0f4d840ce4084'',
     did_verified = False\<rparr>"

definition guide_block :: Block where
  "guide_block = \<lparr>index = 1, timestamp = 1700000003110, data = digitalID_block guide_record,
     previousHash = ''ab8a724b5bbe7eef3405b089227d7407f24227a9e30d692e354b0692a99a311e'',
     hash = ''00903bc2c37c0e83c6618116368bb35f8ae1be2d05b9559e9891f9cfeef1f68d'', nonce = 0\<rparr>"

definition registry_guide :: SimpleBlockchain where
  "registry_guide = \<lparr>sb_chain = [ledger_g, guide_block], sb_digitalIDs = [guide_record]\<rparr>"


section \<open>Properties of the contract\<close>

lemmas contract_defs = addRole_def removeRole_def updateIdentity_def verifyIdentity_def
  deactivateIdentity_def createIdentity_def onlyIdentityOwner_def identityExists_def onlyOwner_def

lemmas example_defs = asha_created_def asha_guide_def asha_deactivated_def asha_Identity_def
  wallet_A_def wallet_B_def wallet_admin_def address0_def empty_Identity_def

text \<open>The example storages are what the contract's own transactions produce.\<close>

lemma asha_created_eq:
  "createIdentity (constructor' wallet_admin) wallet_A 1700000000 ''Asha'' ''asha@x.com''
     ''Indian'' [] [] ''+91-9876543210'' [''tourist''] = Inr asha_created"
  by (simp add: createIdentity_def constructor'_def asha_created_def asha_Identity_def
      empty_Identity_def uint256_max_def Let_def)

lemma asha_guide_eq:
  "addRole asha_created wallet_A 1700000050 1 ''guide'' = Inr asha_guide"
  by (simp add: addRole_def onlyIdentityOwner_def identityExists_def
      asha_created_def asha_guide_def asha_Identity_def wallet_A_def address0_def)

lemma asha_deactivated_eq:
  "deactivateIdentity asha_guide wallet_A 1700000100 1 = Inr asha_deactivated"
  by (simp add: deactivateIdentity_def onlyIdentityOwner_def identityExists_def
      asha_created_def asha_guide_def asha_deactivated_def asha_Identity_def wallet_A_def
      address0_def)

subsection \<open>The index mappings agree with the records\<close>

lemma inv_deployed: "registry_inv (constructor' sender)"
  by (simp add: registry_inv_def constructor'_def empty_Identity_def)

lemma inv_created:
  assumes "registry_inv s" and "createIdentity s sender now n e c a p ec rs = Inr s'"
  shows "registry_inv s'"
proof -
  from assms(2) have w0: "walletToIdentity s sender = 0" and e0: "emailToIdentity s e = 0"
    by (auto simp: createIdentity_def split: if_splits)
  from assms(2) have s': "idCounter s' = idCounter s + 1"
    "identities s' = (identities s)(idCounter s + 1 := (identities s (idCounter s + 1))
        \<lparr>id' := idCounter s + 1, name := n, email := e,
              nationality := c, aadhaarHash := a, passportHash := p,
              emergencyContact := ec, createdAt := now, updatedAt := now,
              isActive := True, isVerified := False, walletAddress := sender,
              roles := roles (identities s (idCounter s + 1)) @ rs\<rparr>)"
    "walletToIdentity s' = (walletToIdentity s)(sender := idCounter s + 1)"
    "emailToIdentity s' = (emailToIdentity s)(e := idCounter s + 1)"
    by (auto simp: createIdentity_def Let_def split: if_splits)
  from assms(1) w0 e0 show ?thesis
    unfolding registry_inv_def s'
    apply (auto simp: le_Suc_eq)
     apply (metis Suc_n_not_le_n zero_less_Suc)
    apply (metis Suc_n_not_le_n zero_less_Suc)
    done
qed


lemma inv_updated:
  assumes "registry_inv s" and "updateIdentity s sender now i n e c ec = Inr s'"
  shows "registry_inv s'"
proof -
  from assms(2) have ex: "walletAddress (identities s i) \<noteq> address0"
    and free: "email (identities s i) = e \<or> emailToIdentity s e = 0"
    by (auto simp: updateIdentity_def onlyIdentityOwner_def identityExists_def Let_def
        split: if_splits option.splits)
  from assms(1) ex have i: "1 \<le> i" "i \<le> idCounter s"
    unfolding registry_inv_def by (metis One_nat_def Suc_leI not_gr_zero, metis not_le_imp_less)
  from assms(2) have s': "idCounter s' = idCounter s"
    "walletToIdentity s' = walletToIdentity s"
    "identities s' = (identities s)(i := (identities s i)\<lparr>name := n, email := e,
        nationality := c, emergencyContact := ec, updatedAt := now\<rparr>)"
    "emailToIdentity s' =
       (if email (identities s i) \<noteq> e
        then ((emailToIdentity s)(email (identities s i) := 0))(e := i)
        else emailToIdentity s)"
    by (auto simp: updateIdentity_def onlyIdentityOwner_def identityExists_def Let_def
        split: if_splits option.splits)
  from assms(1) have I1: "\<And>j. 1 \<le> j \<Longrightarrow> j \<le> idCounter s \<Longrightarrow>
        walletToIdentity s (walletAddress (identities s j)) = j \<and>
        emailToIdentity s (email (identities s j)) = j"
    and I2: "\<And>w. walletToIdentity s w \<noteq> 0 \<Longrightarrow>
        walletToIdentity s w \<le> idCounter s \<and>
        walletAddress (identities s (walletToIdentity s w)) = w"
    and I3: "\<And>e. emailToIdentity s e \<noteq> 0 \<Longrightarrow>
        emailToIdentity s e \<le> idCounter s \<and>
        email (identities s (emailToIdentity s e)) = e"
    and I4: "\<And>j. j = 0 \<or> idCounter s < j \<Longrightarrow> walletAddress (identities s j) = address0"
    unfolding registry_inv_def by blast+
  show ?thesis
  proof (cases "email (identities s i) = e")
    case True
    with I1 I2 I3 I4 show ?thesis
      unfolding registry_inv_def s' by auto
  next
    case False
    with free have e0: "emailToIdentity s e = 0" by simp
    have old: "emailToIdentity s (email (identities s i)) = i"
      using I1 i by simp
    have a: "\<And>j. 1 \<le> j \<Longrightarrow> j \<le> idCounter s \<Longrightarrow> j \<noteq> i \<Longrightarrow>
        email (identities s j) \<noteq> e \<and> email (identities s j) \<noteq> email (identities s i)"
      using I1 e0 old by (metis not_one_le_zero)
    have m: "emailToIdentity s' = ((emailToIdentity s)(email (identities s i) := 0))(e := i)"
      using False s'(4) by simp
    have c1: "\<forall>j. 1 \<le> j \<and> j \<le> idCounter s' \<longrightarrow>
        walletToIdentity s' (walletAddress (identities s' j)) = j \<and>
        emailToIdentity s' (email (identities s' j)) = j"
      using I1 a i unfolding s'(1,2,3) m by auto
    have c2: "\<forall>w. walletToIdentity s' w \<noteq> 0 \<longrightarrow>
        walletToIdentity s' w \<le> idCounter s' \<and>
        walletAddress (identities s' (walletToIdentity s' w)) = w"
      using I2 unfolding s'(1,2,3) by auto
    have c3: "\<forall>x. emailToIdentity s' x \<noteq> 0 \<longrightarrow>
        emailToIdentity s' x \<le> idCounter s' \<and>
        email (identities s' (emailToIdentity s' x)) = x"
    proof (intro allI impI)
      fix x assume nz: "emailToIdentity s' x \<noteq> 0"
      show "emailToIdentity s' x \<le> idCounter s' \<and>
        email (identities s' (emailToIdentity s' x)) = x"
      proof (cases "x = e")
        case True
        then show ?thesis using i unfolding s'(1,3) m by simp
      next
        case xe: False
        with nz have xo: "x \<noteq> email (identities s i)" and nz': "emailToIdentity s x \<noteq> 0"
          unfolding m by (auto split: if_splits)
        have "emailToIdentity s x \<noteq> i"
          using I3 [OF nz'] xo by metis
        then show ?thesis
          using I3 [OF nz'] xe xo unfolding s'(1,3) m by simp
      qed
    qed
    have c4: "\<forall>j. j = 0 \<or> idCounter s' < j \<longrightarrow> walletAddress (identities s' j) = address0"
      using I4 i unfolding s'(1,3) by auto
    from c1 c2 c3 c4 show ?thesis
      unfolding registry_inv_def by blast
  qed
qed


lemma inv_frame:
  assumes "registry_inv s" and "idCounter s' = idCounter s"
    and "walletToIdentity s' = walletToIdentity s" and "emailToIdentity s' = emailToIdentity s"
    and "\<And>j. walletAddress (identities s' j) = walletAddress (identities s j)"
    and "\<And>j. email (identities s' j) = email (identities s j)"
  shows "registry_inv s'"
  using assms(1) unfolding registry_inv_def assms(2-6) .

lemma inv_verified:
  "registry_inv s \<Longrightarrow> verifyIdentity s sender now i = Inr s' \<Longrightarrow> registry_inv s'"
  by (erule inv_frame)
    (auto simp: verifyIdentity_def split: option.splits)

lemma inv_deactivated:
  "registry_inv s \<Longrightarrow> deactivateIdentity s sender now i = Inr s' \<Longrightarrow> registry_inv s'"
  by (erule inv_frame)
    (auto simp: deactivateIdentity_def split: option.splits)

lemma inv_role_added:
  "registry_inv s \<Longrightarrow> addRole s sender now i r = Inr s' \<Longrightarrow> registry_inv s'"
  by (erule inv_frame)
    (auto simp: addRole_def split: option.splits)

lemma inv_role_removed:
  "registry_inv s \<Longrightarrow> removeRole s sender now i k = Inr s' \<Longrightarrow> registry_inv s'"
  by (erule inv_frame)
    (auto simp: removeRole_def Let_def split: option.splits if_splits)

lemma reachable_inv: "reachable s \<Longrightarrow> registry_inv s"
  by (induction rule: reachable.induct)
    (auto intro: inv_deployed inv_created inv_updated inv_verified inv_deactivated
      inv_role_added inv_role_removed)

subsection \<open>Duplicate wallets and emails\<close>

text \<open>
  Claim C3, as the contract has it. In every storage the contract can reach,
  \<open>createIdentity\<close> from a wallet that already holds an identity reverts with
  "Identity already exists", and from a fresh wallet with an email that an identity already
  holds it reverts with "Email already registered". A revert leaves the storage as it was, so
  no record is inserted. The wallet is checked first, and the contract keeps no content hash.
\<close>

theorem createIdentity_duplicate_reverts:
  assumes "reachable s"
  shows "(wallet_registered s w \<longrightarrow>
            createIdentity s w now n e c a p ec rs = Inl (Revert ''Identity already exists'')) \<and>
         (\<not> wallet_registered s w \<and> email_registered s e \<longrightarrow>
            createIdentity s w now n e c a p ec rs = Inl (Revert ''Email already registered''))"
proof -
  from assms have inv: "registry_inv s" by (rule reachable_inv)
  have w1: "walletToIdentity s w \<noteq> 0" if "wallet_registered s w"
    using that inv unfolding wallet_registered_def registry_inv_def
    by (metis atLeastAtMost_iff not_one_le_zero)
  have w2: "walletToIdentity s w = 0" if "\<not> wallet_registered s w"
  proof (rule ccontr)
    assume nz: "walletToIdentity s w \<noteq> 0"
    with inv have "walletToIdentity s w \<le> idCounter s"
      "walletAddress (identities s (walletToIdentity s w)) = w"
      unfolding registry_inv_def by blast+
    with nz have "wallet_registered s w"
      unfolding wallet_registered_def by (auto intro!: bexI [of _ "walletToIdentity s w"])
    with that show False by simp
  qed
  have e1: "emailToIdentity s e \<noteq> 0" if "email_registered s e"
    using that inv unfolding email_registered_def registry_inv_def
    by (metis atLeastAtMost_iff not_one_le_zero)
  show ?thesis
    using w1 w2 e1 by (auto simp: createIdentity_def)
qed

text \<open>
  Scenario A on the contract: after Asha's identity is created, a second
  \<open>createIdentity\<close> with her email from another wallet is rejected for the email.
\<close>

theorem createIdentity_duplicate_reverts_witness:
  "reachable asha_created \<and> wallet_registered asha_created wallet_A \<and>
   \<not> wallet_registered asha_created wallet_B \<and> email_registered asha_created ''asha@x.com'' \<and>
   createIdentity asha_created wallet_A 1700000300 ''Asha K'' ''other@x.com'' ''Indian'' [] []
       ''+91-1'' [''tourist''] = Inl (Revert ''Identity already exists'') \<and>
   createIdentity asha_created wallet_B 1700000300 ''Asha'' ''asha@x.com'' ''Indian'' [] []
       ''+91-1'' [''tourist''] = Inl (Revert ''Email already registered'')"
proof -
  have r: "reachable asha_created"
    using reachable.created [OF reachable.deployed asha_created_eq] .
  have w: "wallet_registered asha_created wallet_A"
    by (simp add: wallet_registered_def example_defs)
  have nw: "\<not> wallet_registered asha_created wallet_B"
    by (simp add: wallet_registered_def example_defs)
  have e: "email_registered asha_created ''asha@x.com''"
    by (simp add: email_registered_def example_defs)
  show ?thesis
    using r w nw e
      createIdentity_duplicate_reverts [OF r, of wallet_A 1700000300 "''Asha K''"
        "''other@x.com''" "''Indian''" "[]" "[]" "''+91-1''" "[''tourist'']"]
      createIdentity_duplicate_reverts [OF r, of wallet_B 1700000300 "''Asha''"
        "''asha@x.com''" "''Indian''" "[]" "[]" "''+91-1''" "[''tourist'']"]
    by blast
qed

subsection \<open>Deactivation\<close>

text \<open>
  Claim C4 fails on the contract: no function reads \<open>isActive\<close>. On Asha's
  deactivated identity \<open>addRole\<close> succeeds and the role list grows.
\<close>

theorem deactivated_addRole_counterexample:
  "deactivateIdentity asha_guide wallet_A 1700000100 1 = Inr asha_deactivated \<and>
   \<not> isl (addRole asha_deactivated wallet_A 1700000200 1 ''police'') \<and>
   roles (identities asha_deactivated 1) = [''tourist'', ''guide''] \<and>
   roles (identities (projr (addRole asha_deactivated wallet_A 1700000200 1 ''police'')) 1)
     = [''tourist'', ''guide'', ''police'']"
  using asha_deactivated_eq
  by (simp add: contract_defs example_defs)

text \<open>
  Claim C4, amended. \<open>deactivateIdentity\<close> clears \<open>isActive\<close> and nothing
  else. Afterwards the identity's wallet can still add a role, the contract owner can still
  verify the identity, the wallet can still update it (with its own or an unused email) and
  remove a role at any position but the last; each of these succeeds, changes exactly the
  fields it changes on an active identity, and leaves \<open>isActive\<close> cleared.
\<close>

theorem deactivated_is_not_terminal:
  assumes "deactivateIdentity s w t i = Inr s1"
  shows "\<not> isActive (identities s1 i) \<and>
    addRole s1 w t' i r =
      Inr (s1\<lparr>identities := (identities s1)
                 (i := (identities s1 i)\<lparr>roles := roles (identities s1 i) @ [r]\<rparr>),
               events := events s1 @ [RoleAdded i r t']\<rparr>) \<and>
    verifyIdentity s1 (owner s1) t' i =
      Inr (s1\<lparr>identities := (identities s1)(i := (identities s1 i)\<lparr>isVerified := True\<rparr>),
               events := events s1 @ [IdentityVerified i (owner s1) t']\<rparr>) \<and>
    (e = email (identities s1 i) \<or> emailToIdentity s1 e = 0 \<longrightarrow>
       \<not> isl (updateIdentity s1 w t' i n e c ec) \<and>
       identities (projr (updateIdentity s1 w t' i n e c ec)) i =
         (identities s1 i)\<lparr>name := n, email := e, nationality := c,
                             emergencyContact := ec, updatedAt := t'\<rparr>) \<and>
    (k + 1 < length (roles (identities s1 i)) \<longrightarrow>
       \<not> isl (removeRole s1 w t' i k) \<and>
       identities (projr (removeRole s1 w t' i k)) i =
         (identities s1 i)\<lparr>roles :=
            butlast ((roles (identities s1 i))[k := last (roles (identities s1 i))])\<rparr>)"
proof -
  from assms have own: "walletAddress (identities s i) = w"
    and ex: "walletAddress (identities s i) \<noteq> address0"
    and s1: "s1 = s\<lparr>identities := (identities s)(i := (identities s i)\<lparr>isActive := False\<rparr>),
                events := events s @ [IdentityDeactivated i w t]\<rparr>"
    by (auto simp: deactivateIdentity_def onlyIdentityOwner_def identityExists_def
        split: option.splits if_splits)
  have l: "roles (identities s i) ! (length (roles (identities s i)) - 1)
             = last (roles (identities s i))" if "k + 1 < length (roles (identities s i))"
  proof -
    from that have "roles (identities s i) \<noteq> []" by auto
    then show ?thesis by (simp add: last_conv_nth)
  qed
  show ?thesis
    using own ex l unfolding s1
    by (auto simp: addRole_def verifyIdentity_def updateIdentity_def removeRole_def
        onlyIdentityOwner_def identityExists_def onlyOwner_def Let_def)
qed

theorem deactivated_is_not_terminal_witness:
  "deactivateIdentity asha_guide wallet_A 1700000100 1 = Inr asha_deactivated \<and>
   emailToIdentity asha_deactivated ''asha@y.org'' = 0 \<and>
   (0::nat) + 1 < length (roles (identities asha_deactivated 1)) \<and>
   \<not> isActive (identities asha_deactivated 1) \<and>
   roles (identities (projr (addRole asha_deactivated wallet_A 1700000200 1 ''police'')) 1)
     = [''tourist'', ''guide'', ''police''] \<and>
   isVerified (identities (projr (verifyIdentity asha_deactivated wallet_admin 1700000200 1)) 1) \<and>
   email (identities (projr (updateIdentity asha_deactivated wallet_A 1700000200 1 ''Asha K''
      ''asha@y.org'' ''Indian'' ''+91-1'')) 1) = ''asha@y.org'' \<and>
   roles (identities (projr (removeRole asha_deactivated wallet_A 1700000200 1 0)) 1) = [''guide'']"
  using deactivated_is_not_terminal [OF asha_deactivated_eq, of 1700000200 "''police''"
      "''asha@y.org''" "''Asha K''" "''Indian''" "''+91-1''" 0]
    asha_deactivated_eq
  by (simp add: example_defs)

subsection \<open>Roles\<close>

text \<open>
  Claim C5 fails on the contract: \<open>addRole\<close> with a role the identity already has
  appends it a second time, and \<open>removeRole\<close> with a position that holds no role
  reverts.
\<close>

theorem addRole_duplicate_counterexample:
  "\<not> isl (addRole asha_created wallet_A 1700000200 1 ''tourist'') \<and>
   roles (identities (projr (addRole asha_created wallet_A 1700000200 1 ''tourist'')) 1)
     = [''tourist'', ''tourist''] \<and>
   removeRole asha_created wallet_A 1700000200 1 1 = Inl (Revert ''Invalid role index'')"
  by (simp add: contract_defs example_defs)

text \<open>
  Claim C5, amended. \<open>addRole\<close> appends the role to the identity's role list whether
  or not it is already there; \<open>removeRole\<close> takes a position, and for a position at
  or beyond the end of the list it reverts with "Invalid role index".
\<close>

theorem addRole_appends_removeRole_by_index:
  "(addRole s w t i r = Inr s' \<longrightarrow> roles (identities s' i) = roles (identities s i) @ [r]) \<and>
   (walletAddress (identities s i) = w \<and> w \<noteq> address0 \<and> length (roles (identities s i)) \<le> k
      \<longrightarrow> removeRole s w t i k = Inl (Revert ''Invalid role index''))"
  by (auto simp: contract_defs split: option.splits if_splits)

theorem addRole_appends_removeRole_by_index_witness:
  "addRole asha_created wallet_A 1700000200 1 ''police''
     = Inr (projr (addRole asha_created wallet_A 1700000200 1 ''police'')) \<and>
   walletAddress (identities asha_created 1) = wallet_A \<and> wallet_A \<noteq> address0 \<and>
   length (roles (identities asha_created 1)) \<le> 1 \<and>
   roles (identities (projr (addRole asha_created wallet_A 1700000200 1 ''police'')) 1)
     = roles (identities asha_created 1) @ [''police''] \<and>
   removeRole asha_created wallet_A 1700000200 1 1 = Inl (Revert ''Invalid role index'')"
  using addRole_appends_removeRole_by_index [of asha_created wallet_A 1700000200 1 "''police''"
      "projr (addRole asha_created wallet_A 1700000200 1 ''police'')" 1]
  by (simp add: contract_defs example_defs)

text \<open>
  Claim C10, at a failing input. The claim has \<open>removeRole\<close> remove the role at
  every valid position by swap and pop and then emit the event. With the two roles
  "tourist" and "guide", \<open>removeRole\<close> at position 1 passes the index check and then
  panics with \<open>0x32\<close> on the read \<open>roles[_roleIndex]\<close> for the event, which comes
  after the pop: the call reverts, the role stays and no event is emitted.
\<close>

theorem removeRole_last_index_reverts:
  "roles (identities asha_guide 1) = [''tourist'', ''guide''] \<and>
   walletAddress (identities asha_guide 1) = wallet_A \<and>
   (1::nat) < length (roles (identities asha_guide 1)) \<and>
   removeRole asha_guide wallet_A 1700000200 1 1 = Inl (Panic 0x32)"
  by (simp add: contract_defs example_defs)

text \<open>
  What \<open>removeRole\<close> does at every valid position \<open>k\<close>, called by the identity's
  wallet: if \<open>k\<close> is not the last position, it writes the last role into position
  \<open>k\<close>, drops the last element, and emits \<open>RoleRemoved\<close> with the role it then
  reads at \<open>k\<close>, which is the former last role; if \<open>k\<close> is the last position,
  the call reverts with panic \<open>0x32\<close>.
\<close>

theorem removeRole_swap_pop:
  assumes "walletAddress (identities s i) = w" and "w \<noteq> address0"
    and "k < length (roles (identities s i))"
  shows "(k < length (roles (identities s i)) - 1 \<longrightarrow>
           removeRole s w t i k =
             Inr (s\<lparr>identities := (identities s)(i := (identities s i)
                      \<lparr>roles := butlast ((roles (identities s i))[k := last (roles (identities s i))])\<rparr>),
                    events := events s @ [RoleRemoved i (last (roles (identities s i))) t]\<rparr>)) \<and>
         (k = length (roles (identities s i)) - 1 \<longrightarrow>
           removeRole s w t i k = Inl (Panic 0x32))"
proof -
  let ?rs = "roles (identities s i)"
  from assms(3) have ne: "?rs \<noteq> []" by auto
  then have l: "?rs ! (length ?rs - 1) = last ?rs"
    by (simp add: last_conv_nth)
  show ?thesis
    using assms l
    by (auto simp: removeRole_def onlyIdentityOwner_def identityExists_def Let_def
        nth_butlast nth_list_update)
qed

theorem removeRole_swap_pop_witness:
  "walletAddress (identities asha_guide 1) = wallet_A \<and> wallet_A \<noteq> address0 \<and>
   (0::nat) < length (roles (identities asha_guide 1)) - 1 \<and>
   (1::nat) = length (roles (identities asha_guide 1)) - 1 \<and>
   roles (identities asha_guide 1) = [''tourist'', ''guide''] \<and>
   roles (identities (projr (removeRole asha_guide wallet_A 1700000200 1 0)) 1) = [''guide''] \<and>
   events (projr (removeRole asha_guide wallet_A 1700000200 1 0))
     = events asha_guide @ [RoleRemoved 1 ''guide'' 1700000200] \<and>
   removeRole asha_guide wallet_A 1700000200 1 1 = Inl (Panic 0x32)"
  using removeRole_swap_pop [of asha_guide 1 wallet_A 0 1700000200]
    removeRole_swap_pop [of asha_guide 1 wallet_A 1 1700000200]
  by (simp add: example_defs)


section \<open>Properties of the ledger\<close>

subsection \<open>What \<open>validateChain\<close> checks\<close>

lemma validateChain_loop_unfold:
  "validateChain_loop c i =
     (if i < length c
      then block_hash (c ! i) = hash (c ! i) \<and> previousHash (c ! i) = hash (c ! (i - 1)) \<and>
           validateChain_loop c (i + 1)
      else True)"
  by (subst validateChain_loop.simps) (auto simp: Let_def block_hash_def)

lemma validateChain_loop_iff:
  "validateChain_loop c i \<longleftrightarrow>
     (\<forall>j. i \<le> j \<and> j < length c \<longrightarrow>
        block_hash (c ! j) = hash (c ! j) \<and> previousHash (c ! j) = hash (c ! (j - 1)))"
proof (induction "length c - i" arbitrary: i)
  case 0
  then have "\<not> i < length c" by simp
  then show ?case by (subst validateChain_loop_unfold) auto
next
  case (Suc n)
  then have lt: "i < length c" and n: "n = length c - (i + 1)" by simp_all
  let ?Q = "\<lambda>j. block_hash (c ! j) = hash (c ! j) \<and> previousHash (c ! j) = hash (c ! (j - 1))"
  have "validateChain_loop c i \<longleftrightarrow> ?Q i \<and> validateChain_loop c (i + 1)"
    using lt by (subst validateChain_loop_unfold) simp
  also have "\<dots> \<longleftrightarrow> ?Q i \<and> (\<forall>j. i + 1 \<le> j \<and> j < length c \<longrightarrow> ?Q j)"
    using Suc.hyps(1) [OF n] by simp
  also have "\<dots> \<longleftrightarrow> (\<forall>j. i \<le> j \<and> j < length c \<longrightarrow> ?Q j)"
  proof
    assume a: "?Q i \<and> (\<forall>j. i + 1 \<le> j \<and> j < length c \<longrightarrow> ?Q j)"
    show "\<forall>j. i \<le> j \<and> j < length c \<longrightarrow> ?Q j"
    proof (intro allI impI)
      fix j assume j: "i \<le> j \<and> j < length c"
      show "?Q j"
      proof (cases "j = i")
        case True
        with a show ?thesis by blast
      next
        case False
        with j have "i + 1 \<le> j" by simp
        with a j show ?thesis by blast
      qed
    qed
  next
    assume a: "\<forall>j. i \<le> j \<and> j < length c \<longrightarrow> ?Q j"
    with lt have "?Q i" by blast
    moreover from a have "\<forall>j. i + 1 \<le> j \<and> j < length c \<longrightarrow> ?Q j"
      by (metis Suc_eq_plus1 Suc_leD)
    ultimately show "?Q i \<and> (\<forall>j. i + 1 \<le> j \<and> j < length c \<longrightarrow> ?Q j)" by blast
  qed
  finally show ?case .
qed

lemma validateChain_iff:
  "validateChain c \<longleftrightarrow>
     (\<forall>j. 1 \<le> j \<and> j < length c \<longrightarrow>
        block_hash (c ! j) = hash (c ! j) \<and> previousHash (c ! j) = hash (c ! (j - 1)))"
  by (simp add: validateChain_def validateChain_loop_iff)

lemma mineBlock_result:
  assumes m: "mineBlock d b = Some b'"
  shows "block_hash b = hash b \<longrightarrow>
     block_hash b' = hash b' \<and> take d (hash b') = replicate d (CHR ''0'') \<and>
     index b' = index b \<and> timestamp b' = timestamp b \<and> data b' = data b \<and>
     previousHash b' = previousHash b"
proof (rule mineBlock.raw_induct
    [where P = "\<lambda>d b b'. block_hash b = hash b \<longrightarrow>
       block_hash b' = hash b' \<and> take d (hash b') = replicate d (CHR ''0'') \<and>
       index b' = index b \<and> timestamp b' = timestamp b \<and> data b' = data b \<and>
       previousHash b' = previousHash b", OF _ m])
  fix mineBlock' :: "nat \<Rightarrow> Block \<Rightarrow> Block option" and d b b'
  assume IH: "\<And>d b y. mineBlock' d b = Some y \<Longrightarrow> block_hash b = hash b \<longrightarrow>
       block_hash y = hash y \<and> take d (hash y) = replicate d (CHR ''0'') \<and>
       index y = index b \<and> timestamp y = timestamp b \<and> data y = data b \<and>
       previousHash y = previousHash b"
    and eq: "(if take d (hash b) \<noteq> replicate d (CHR ''0'')
              then mineBlock' d
                (b\<lparr>nonce := nonce b + 1,
                   hash := calculateHash (index b) (timestamp b) (data b) (previousHash b)
                             (nonce b + 1)\<rparr>)
              else Some b) = Some b'"
  let ?n = "b\<lparr>nonce := nonce b + 1,
              hash := calculateHash (index b) (timestamp b) (data b) (previousHash b)
                        (nonce b + 1)\<rparr>"
  show "block_hash b = hash b \<longrightarrow>
       block_hash b' = hash b' \<and> take d (hash b') = replicate d (CHR ''0'') \<and>
       index b' = index b \<and> timestamp b' = timestamp b \<and> data b' = data b \<and>
       previousHash b' = previousHash b"
  proof (cases "take d (hash b) \<noteq> replicate d (CHR ''0'')")
    case True
    with eq have "mineBlock' d ?n = Some b'" by simp
    moreover have "block_hash ?n = hash ?n" by (simp add: block_hash_def)
    ultimately have "block_hash b' = hash b' \<and> take d (hash b') = replicate d (CHR ''0'') \<and>
       index b' = index ?n \<and> timestamp b' = timestamp ?n \<and> data b' = data ?n \<and>
       previousHash b' = previousHash ?n" using IH by blast
    then show ?thesis by auto
  next
    case False
    with eq show ?thesis by auto
  qed
qed

lemma addBlock_result:
  assumes "addBlock d c dat now = Some (Inr (c', b))"
  shows "c \<noteq> [] \<and> c' = c @ [b] \<and> index b = index (last c) + 1 \<and> timestamp b = now \<and>
         data b = dat \<and> previousHash b = hash (last c) \<and> block_hash b = hash b \<and>
         take d (hash b) = replicate d (CHR ''0'')"
proof -
  from assms have ne: "c \<noteq> []"
    by (auto simp: addBlock_def split: if_splits)
  let ?new = "\<lparr>index = index (c ! (length c - 1)) + 1, timestamp = now, data = dat,
      previousHash = hash (c ! (length c - 1)),
      hash = calculateHash (index (c ! (length c - 1)) + 1) now dat (hash (c ! (length c - 1))) 0,
      nonce = 0\<rparr>"
  from assms ne have m: "mineBlock d ?new = Some b" and c': "c' = c @ [b]"
    by (auto simp: addBlock_def Let_def split: option.splits)
  have "block_hash ?new = hash ?new" by (simp add: block_hash_def)
  with mineBlock_result [OF m] have
    "block_hash b = hash b \<and> take d (hash b) = replicate d (CHR ''0'') \<and>
     index b = index ?new \<and> timestamp b = timestamp ?new \<and> data b = data ?new \<and>
     previousHash b = previousHash ?new" by blast
  with ne c' show ?thesis
    by (simp add: last_conv_nth)
qed

lemma chain_wf_snoc:
  assumes wf: "chain_wf c" and b: "index b = index (last c) + 1"
    "previousHash b = hash (last c)" "block_hash b = hash b"
    "take difficulty (hash b) = replicate difficulty (CHR ''0'')"
  shows "chain_wf (c @ [b])"
proof -
  from wf have ne: "c \<noteq> []" by (simp add: chain_wf_def)
  have step: "block_hash ((c @ [b]) ! j) = hash ((c @ [b]) ! j) \<and>
        take difficulty (hash ((c @ [b]) ! j)) = replicate difficulty (CHR ''0'') \<and>
        previousHash ((c @ [b]) ! j) = hash ((c @ [b]) ! (j - 1)) \<and>
        index ((c @ [b]) ! j) = index ((c @ [b]) ! (j - 1)) + 1"
    if j: "1 \<le> j" "j < length (c @ [b])" for j
  proof (cases "j < length c")
    case True
    then have "j - 1 < length c" by simp
    with True j wf show ?thesis
      unfolding chain_wf_def by (simp add: nth_append)
  next
    case False
    with j have jl: "j = length c" by simp
    from ne have "length c - 1 < length c" by (cases c) simp_all
    with jl ne b show ?thesis
      by (simp add: nth_append last_conv_nth)
  qed
  from ne have z: "(c @ [b]) ! 0 = c ! 0" by (cases c) simp_all
  from wf have "index (c ! 0) = 0" "previousHash (c ! 0) = ''0''"
    by (simp_all add: chain_wf_def)
  with step z show ?thesis
    unfolding chain_wf_def by simp
qed

lemma built_wf: "built c \<Longrightarrow> chain_wf c"
proof (induction rule: built.induct)
  case (genesis t1 t2)
  show ?case by (simp add: chain_wf_def createGenesisBlock_def)
next
  case (appended c d now c' b)
  from addBlock_result [OF appended.hyps(2)] appended.IH show ?case
    by (auto intro: chain_wf_snoc)
qed

lemma wf_index: "chain_wf c \<Longrightarrow> j < length c \<Longrightarrow> index (c ! j) = j"
proof (induction j)
  case 0
  then show ?case by (simp add: chain_wf_def)
next
  case (Suc j)
  then have "index (c ! Suc j) = index (c ! j) + 1"
    unfolding chain_wf_def by (metis One_nat_def Suc_le_mono diff_Suc_1 zero_le)
  with Suc show ?case by simp
qed

lemma wf_valid: "chain_wf c \<Longrightarrow> validateChain c"
  by (simp add: validateChain_iff chain_wf_def)

lemma hash_flip_detected:
  assumes v: "validateChain c" and i: "i < length c" and l: "1 < length c"
    and h: "h \<noteq> hash (c ! i)"
  shows "\<not> validateChain (c[i := (c ! i)\<lparr>hash := h\<rparr>])"
proof (cases "i = 0")
  case True
  from v l have "previousHash (c ! 1) = hash (c ! 0)"
    by (simp add: validateChain_iff)
  with True h have "previousHash (c[i := (c ! i)\<lparr>hash := h\<rparr>] ! 1)
      \<noteq> hash (c[i := (c ! i)\<lparr>hash := h\<rparr>] ! (1 - 1))"
    using i by simp
  with l show ?thesis
    unfolding validateChain_iff by (metis length_list_update order_refl)
next
  case False
  with v i have "block_hash (c ! i) = hash (c ! i)"
    by (simp add: validateChain_iff)
  with h i have "block_hash (c[i := (c ! i)\<lparr>hash := h\<rparr>] ! i)
      \<noteq> hash (c[i := (c ! i)\<lparr>hash := h\<rparr>] ! i)"
    by (simp add: block_hash_def)
  with False i show ?thesis
    unfolding validateChain_iff
    by (metis One_nat_def Suc_leI length_list_update not_gr_zero)
qed

lemma content_flip_detected:
  assumes "1 \<le> i" and "i < length c" and "block_hash b' \<noteq> hash b'"
  shows "\<not> validateChain (c[i := b'])"
proof -
  from assms have "block_hash (c[i := b'] ! i) \<noteq> hash (c[i := b'] ! i)" by simp
  with assms(1,2) show ?thesis
    unfolding validateChain_iff by (metis length_list_update)
qed

lemma genesis_data_unchecked:
  assumes v: "validateChain c"
  shows "validateChain (c[0 := (c ! 0)\<lparr>data := d\<rparr>])"
proof -
  have "block_hash (c[0 := (c ! 0)\<lparr>data := d\<rparr>] ! j) = hash (c[0 := (c ! 0)\<lparr>data := d\<rparr>] ! j) \<and>
        previousHash (c[0 := (c ! 0)\<lparr>data := d\<rparr>] ! j) = hash (c[0 := (c ! 0)\<lparr>data := d\<rparr>] ! (j - 1))"
    if j: "1 \<le> j" "j < length c" for j
  proof -
    from j have a: "c[0 := (c ! 0)\<lparr>data := d\<rparr>] ! j = c ! j" by simp
    from j have ne: "c \<noteq> []" by auto
    have b: "hash (c[0 := (c ! 0)\<lparr>data := d\<rparr>] ! (j - 1)) = hash (c ! (j - 1))"
      using ne by (cases "j - 1 = 0") simp_all
    from v j show ?thesis
      unfolding a b validateChain_iff by simp
  qed
  then show ?thesis
    unfolding validateChain_iff by simp
qed

lemma single_block_unchecked: "validateChain [b]"
  by (simp add: validateChain_iff)


subsection \<open>The example ledger, computed\<close>

lemma replicate_numeral: "replicate (numeral k) x = x # replicate (pred_numeral k) x"
  by (simp add: numeral_eq_Suc)

lemmas sha_defs = sha_compress_def sha256_h0_def add32_def rotr_def ssig0_def ssig1_def
  bsig0_def bsig1_def ch_def maj_def next_win_def sha256_k_def

lemmas sha_msg_defs = sha256_hex_def sha256_pad_def be_bytes8_def hex_word_def digit_char_def
  sha_blocks.simps replicate_numeral

lemmas hash_eval = calculateHash_def nat_toString.simps json_quote_def json_escape_char_def
  int_toString_def sha_msg_defs sha_defs

text \<open>A standard test vector for the digest.\<close>

lemma sha256_abc:
  "sha256_hex ''abc'' = ''ba7816bf8f01cfea414140de5dae2223b00361a396177a9cb410ff61f20015ad''"
  by (simp add: sha_msg_defs sha_defs)

text \<open>The hashes of the example blocks, and the three \<open>addBlock\<close> calls.\<close>

lemma genesis_hash:
  "calculateHash 0 1700000000000 genesis_data ''0'' 0
     = ''ab8a724b5bbe7eef3405b089227d7407f24227a9e30d692e354b0692a99a311e''"
  by (simp add: genesis_data_def hash_eval)

lemma ledger_b1_hash: "block_hash ledger_b1 = hash ledger_b1"
  by (simp add: block_hash_def ledger_b1_def ledger_d1_def hash_eval)


lemma ledger_b2_first_try:
  "block_hash (ledger_b2\<lparr>nonce := 0\<rparr>)
     = ''669f2336013f36d1cff04a71ab7e006d5a58830cdcb351bd1bbe197b032df1c8''"
  by (simp add: block_hash_def ledger_b2_def ledger_d2_def hash_eval)

lemma ledger_b2_hash: "block_hash ledger_b2 = hash ledger_b2"
  by (simp add: block_hash_def ledger_b2_def ledger_d2_def hash_eval)

lemma ledger_b3_hash: "block_hash ledger_b3 = hash ledger_b3"
  by (simp add: block_hash_def ledger_b3_def ledger_d3_def hash_eval)

lemma ledger_g_hash:
  "hash ledger_g = ''ab8a724b5bbe7eef3405b089227d7407f24227a9e30d692e354b0692a99a311e''"
  by (simp add: ledger_g_def createGenesisBlock_def genesis_hash)

lemma ledger_add1:
  "addBlock difficulty [ledger_g] ledger_d1 1700000001176
     = Some (Inr ([ledger_g, ledger_b1], ledger_b1))"
proof -
  have new: "\<lparr>index = index ledger_g + 1, timestamp = 1700000001176, data = ledger_d1,
       previousHash = hash ledger_g,
       hash = calculateHash (index ledger_g + 1) 1700000001176 ledger_d1 (hash ledger_g) 0,
       nonce = 0\<rparr> = ledger_b1"
    using ledger_b1_hash
    by (simp add: ledger_g_hash block_hash_def ledger_b1_def)
       (simp add: ledger_g_def createGenesisBlock_def)
  have "mineBlock difficulty ledger_b1 = Some ledger_b1"
    by (subst mineBlock.simps) (simp add: ledger_b1_def difficulty_def replicate_numeral)
  with new show ?thesis
    by (simp add: addBlock_def Let_def)
qed

lemma ledger_add2:
  "addBlock difficulty [ledger_g, ledger_b1] ledger_d2 1700000002228
     = Some (Inr ([ledger_g, ledger_b1, ledger_b2], ledger_b2))"
proof -
  let ?first = "ledger_b2\<lparr>nonce := 0,
      hash := ''669f2336013f36d1cff04a71ab7e006d5a58830cdcb351bd1bbe197b032df1c8''\<rparr>"
  have new: "\<lparr>index = index ledger_b1 + 1, timestamp = 1700000002228, data = ledger_d2,
       previousHash = hash ledger_b1,
       hash = calculateHash (index ledger_b1 + 1) 1700000002228 ledger_d2 (hash ledger_b1) 0,
       nonce = 0\<rparr> = ?first"
    using ledger_b2_first_try
    by (simp add: block_hash_def ledger_b2_def ledger_b1_def flip: numeral_2_eq_2)
  have next': "?first\<lparr>nonce := nonce ?first + 1,
         hash := calculateHash (index ?first) (timestamp ?first) (data ?first)
                   (previousHash ?first) (nonce ?first + 1)\<rparr> = ledger_b2"
    using ledger_b2_hash
    by (simp add: block_hash_def ledger_b2_def)
  have done': "mineBlock difficulty ledger_b2 = Some ledger_b2"
    by (subst mineBlock.simps) (simp add: ledger_b2_def difficulty_def replicate_numeral)
  have "mineBlock difficulty ?first = mineBlock difficulty ledger_b2"
    by (subst mineBlock.simps, subst next')
       (simp add: ledger_b2_def difficulty_def replicate_numeral)
  with done' new show ?thesis
    by (simp add: addBlock_def Let_def)
qed

lemma ledger_add3:
  "addBlock difficulty [ledger_g, ledger_b1, ledger_b2] ledger_d3 1700000003661
     = Some (Inr (ledger_example, ledger_b3))"
proof -
  have new: "\<lparr>index = index ledger_b2 + 1, timestamp = 1700000003661, data = ledger_d3,
       previousHash = hash ledger_b2,
       hash = calculateHash (index ledger_b2 + 1) 1700000003661 ledger_d3 (hash ledger_b2) 0,
       nonce = 0\<rparr> = ledger_b3"
    using ledger_b3_hash
    by (simp add: block_hash_def ledger_b3_def ledger_b2_def)
  have "mineBlock difficulty ledger_b3 = Some ledger_b3"
    by (subst mineBlock.simps) (simp add: ledger_b3_def difficulty_def replicate_numeral)
  with new show ?thesis
    by (simp add: addBlock_def Let_def ledger_example_def)
qed

lemma ledger_example_built: "built ledger_example"
proof -
  have "built [ledger_g]" unfolding ledger_g_def by (rule built.genesis)
  from built.appended [OF this ledger_add1] have "built [ledger_g, ledger_b1]" .
  from built.appended [OF this ledger_add2] have "built [ledger_g, ledger_b1, ledger_b2]" .
  from built.appended [OF this ledger_add3] show ?thesis .
qed


lemma ledger_b1_forged:
  "block_hash (ledger_b1\<lparr>data := ledger_d3\<rparr>)
     = ''43862451240851288a8d8da2188eacb18b226e5d752d92fe468a72a4ccafdc8c''"
  by (simp add: block_hash_def ledger_b1_def ledger_d3_def hash_eval)

text \<open>
  When the clock ticks between the two readings of the genesis block, the stored hash is
  not the hash of the stored fields.
\<close>

lemma genesis_clock_tick:
  "block_hash (createGenesisBlock 1699999999999 1700000000000)
     \<noteq> hash (createGenesisBlock 1699999999999 1700000000000)"
proof -
  have "calculateHash 0 1699999999999 genesis_data ''0'' 0
      = ''1cd277996684e8ede360f8d202160e12006b92ea8070b75fafdac95c5ab36a37''"
    by (simp add: genesis_data_def hash_eval)
  then show ?thesis
    by (simp add: block_hash_def createGenesisBlock_def genesis_hash)
qed

subsection \<open>Chain integrity\<close>

text \<open>
  Claim C1 fails for the genesis block, which \<open>validateChain\<close> never looks into: in
  the example ledger, replacing the payload of the genesis block in place leaves
  \<open>validateChain\<close> true.
\<close>

theorem genesis_payload_forged_counterexample:
  "built ledger_example \<and>
   data (ledger_example ! 0) \<noteq> JObj [(''message'', JStr ''forged'')] \<and>
   validateChain
     (ledger_example[0 := (ledger_example ! 0)\<lparr>data := JObj [(''message'', JStr ''forged'')]\<rparr>])"
proof -
  have "data (ledger_example ! 0) \<noteq> JObj [(''message'', JStr ''forged'')]"
    by (simp add: ledger_example_def ledger_g_def createGenesisBlock_def genesis_data_def)
  with ledger_example_built
    genesis_data_unchecked [OF wf_valid [OF built_wf [OF ledger_example_built]]]
  show ?thesis by blast
qed

text \<open>
  Claim C1, amended. For every chain built by the constructor and \<open>addBlock\<close>,
  \<open>validateChain\<close> is true. Overwriting the stored hash of any block of a chain of at
  least two blocks with a different value makes it false. Overwriting the payload or the
  nonce of a block other than the genesis block makes it false whenever the hash recomputed
  from the new fields differs from the stored one. The payload of the genesis block is not
  checked: overwriting it leaves \<open>validateChain\<close> true.
\<close>

theorem built_chain_validates:
  assumes "built c"
  shows "validateChain c \<and>
    (i < length c \<and> 1 < length c \<and> h \<noteq> hash (c ! i) \<longrightarrow>
       \<not> validateChain (c[i := (c ! i)\<lparr>hash := h\<rparr>])) \<and>
    (1 \<le> i \<and> i < length c \<and> block_hash ((c ! i)\<lparr>data := d\<rparr>) \<noteq> hash (c ! i) \<longrightarrow>
       \<not> validateChain (c[i := (c ! i)\<lparr>data := d\<rparr>])) \<and>
    (1 \<le> i \<and> i < length c \<and> block_hash ((c ! i)\<lparr>nonce := n\<rparr>) \<noteq> hash (c ! i) \<longrightarrow>
       \<not> validateChain (c[i := (c ! i)\<lparr>nonce := n\<rparr>])) \<and>
    validateChain (c[0 := (c ! 0)\<lparr>data := d\<rparr>])"
proof -
  from assms have v: "validateChain c" by (rule wf_valid [OF built_wf])
  show ?thesis
    using v hash_flip_detected [OF v, of i h]
      content_flip_detected [of i c "(c ! i)\<lparr>data := d\<rparr>"]
      content_flip_detected [of i c "(c ! i)\<lparr>nonce := n\<rparr>"]
      genesis_data_unchecked [OF v, of d]
    by simp
qed

text \<open>
  Scenario B: the example ledger (genesis and three appended blocks) validates; with the
  nonce of \<open>blocks[2]\<close> set to 0, with the payload of \<open>blocks[1]\<close> replaced, or with
  the stored hash of the genesis block replaced, it does not.
\<close>

theorem built_chain_validates_witness:
  "built ledger_example \<and> validateChain ledger_example \<and>
   (0::nat) < length ledger_example \<and> (1::nat) < length ledger_example \<and>
   replicate 64 (CHR ''0'') \<noteq> hash (ledger_example ! 0) \<and>
   \<not> validateChain (ledger_example[0 := (ledger_example ! 0)\<lparr>hash := replicate 64 (CHR ''0'')\<rparr>]) \<and>
   block_hash ((ledger_example ! 1)\<lparr>data := ledger_d3\<rparr>) \<noteq> hash (ledger_example ! 1) \<and>
   \<not> validateChain (ledger_example[1 := (ledger_example ! 1)\<lparr>data := ledger_d3\<rparr>]) \<and>
   block_hash ((ledger_example ! 2)\<lparr>nonce := 0\<rparr>) \<noteq> hash (ledger_example ! 2) \<and>
   \<not> validateChain (ledger_example[2 := (ledger_example ! 2)\<lparr>nonce := 0\<rparr>])"
proof -
  have l: "length ledger_example = 4" by (simp add: ledger_example_def)
  have h0: "replicate 64 (CHR ''0'') \<noteq> hash (ledger_example ! 0)"
    by (simp add: ledger_example_def ledger_g_hash replicate_numeral)
  have d1: "block_hash ((ledger_example ! 1)\<lparr>data := ledger_d3\<rparr>) \<noteq> hash (ledger_example ! 1)"
    using ledger_b1_forged by (simp add: ledger_example_def) (simp add: ledger_b1_def)
  have n2: "block_hash ((ledger_example ! 2)\<lparr>nonce := 0\<rparr>) \<noteq> hash (ledger_example ! 2)"
    using ledger_b2_first_try by (simp add: ledger_example_def) (simp add: ledger_b2_def)
  show ?thesis
    using ledger_example_built l h0 d1 n2
      built_chain_validates [OF ledger_example_built, of 0 "replicate 64 (CHR ''0'')"]
      built_chain_validates [OF ledger_example_built, of 1 _ ledger_d3]
      built_chain_validates [OF ledger_example_built, of 2 _ _ 0]
    by simp
qed

subsection \<open>The blocks of a chain\<close>

text \<open>
  Claim C2 fails for the genesis block, which is not mined: the hash of the genesis block
  of the example ledger does not begin with two zeros.
\<close>

theorem genesis_not_admitted_counterexample:
  "built [ledger_g] \<and> take 2 (hash ([ledger_g] ! 0)) \<noteq> ''00''"
proof -
  have "built [ledger_g]" unfolding ledger_g_def by (rule built.genesis)
  then show ?thesis by (simp add: ledger_g_hash)
qed

text \<open>
  Claim C2, amended. In every chain built by the constructor and \<open>addBlock\<close>, the
  genesis block has index 0 and previous hash "0", and every later block has the hash of
  its own fields, that hash begins with two zeros (difficulty 2), its index is its
  predecessor's plus one, and its previous hash is its predecessor's hash. Every block
  that \<open>addBlock\<close> returns is appended to the chain, continues the previous tip in the
  same way, and has the hash of its own fields with the required prefix.
\<close>

theorem built_chain_blocks:
  assumes "built c"
  shows "index (c ! 0) = 0 \<and> previousHash (c ! 0) = ''0'' \<and>
    (1 \<le> j \<and> j < length c \<longrightarrow>
       block_hash (c ! j) = hash (c ! j) \<and> take 2 (hash (c ! j)) = ''00'' \<and>
       index (c ! j) = index (c ! (j - 1)) + 1 \<and> index (c ! j) = j \<and>
       previousHash (c ! j) = hash (c ! (j - 1))) \<and>
    (addBlock difficulty c d now = Some (Inr (c', b)) \<longrightarrow>
       c' = c @ [b] \<and> index b = index (last c) + 1 \<and> previousHash b = hash (last c) \<and>
       block_hash b = hash b \<and> take 2 (hash b) = ''00'')"
proof -
  from assms have wf: "chain_wf c" by (rule built_wf)
  have r: "replicate difficulty (CHR ''0'') = ''00''"
    by (simp add: difficulty_def replicate_numeral)
  have d2: "take difficulty s = take 2 s" for s :: string
    by (simp add: difficulty_def)
  have a: "index (c ! 0) = 0 \<and> previousHash (c ! 0) = ''0''"
    using wf by (simp add: chain_wf_def)
  have b: "block_hash (c ! j) = hash (c ! j) \<and> take 2 (hash (c ! j)) = ''00'' \<and>
       index (c ! j) = index (c ! (j - 1)) + 1 \<and> index (c ! j) = j \<and>
       previousHash (c ! j) = hash (c ! (j - 1))" if "1 \<le> j" "j < length c"
    using wf that wf_index [OF wf that(2)] unfolding chain_wf_def r d2 by auto
  have e: "c' = c @ [b] \<and> index b = index (last c) + 1 \<and> previousHash b = hash (last c) \<and>
       block_hash b = hash b \<and> take 2 (hash b) = ''00''"
    if "addBlock difficulty c d now = Some (Inr (c', b))"
    using addBlock_result [OF that] unfolding r d2 by auto
  from a b e show ?thesis by blast
qed

theorem built_chain_blocks_witness:
  "built [ledger_g, ledger_b1, ledger_b2] \<and>
   (1::nat) \<le> 2 \<and> (2::nat) < length [ledger_g, ledger_b1, ledger_b2] \<and>
   addBlock difficulty [ledger_g, ledger_b1, ledger_b2] ledger_d3 1700000003661
     = Some (Inr (ledger_example, ledger_b3)) \<and>
   index ([ledger_g, ledger_b1, ledger_b2] ! 0) = 0 \<and>
   block_hash ledger_b2 = hash ledger_b2 \<and> take 2 (hash ledger_b2) = ''00'' \<and>
   index ledger_b2 = index ledger_b1 + 1 \<and> previousHash ledger_b2 = hash ledger_b1 \<and>
   ledger_example = [ledger_g, ledger_b1, ledger_b2] @ [ledger_b3] \<and>
   index ledger_b3 = index ledger_b2 + 1 \<and> previousHash ledger_b3 = hash ledger_b2 \<and>
   block_hash ledger_b3 = hash ledger_b3 \<and> take 2 (hash ledger_b3) = ''00''"
proof -
  have "built [ledger_g]" unfolding ledger_g_def by (rule built.genesis)
  from built.appended [OF this ledger_add1] have "built [ledger_g, ledger_b1]" .
  from built.appended [OF this ledger_add2] have b: "built [ledger_g, ledger_b1, ledger_b2]" .
  show ?thesis
    using b ledger_add3
      built_chain_blocks [OF b, of 2 ledger_d3 1700000003661 ledger_example ledger_b3]
    by simp
qed


section \<open>Reading back what \<open>JSON.stringify\<close> wrote\<close>

text \<open>
  \<open>JSON.parse\<close> recovers every value that \<open>JSON.stringify\<close> serialises, provided the
  value holds no \<open>undefined\<close>, its numbers are integers below \<open>2^53\<close> in magnitude
  and its objects have distinct property names in the order of their keys. The proof
  follows the three mutually recursive serialisers; each part is stated for a text followed
  by a rest that ends the value.
\<close>

lemma digit_char_cases:
  assumes "(d::nat) < 16"
  obtains "d = 0" | "d = 1" | "d = 2" | "d = 3" | "d = 4" | "d = 5" | "d = 6" | "d = 7"
    | "d = 8" | "d = 9" | "d = 10" | "d = 11" | "d = 12" | "d = 13" | "d = 14" | "d = 15"
proof -
  from assms have "d = 0 \<or> d = 1 \<or> d = 2 \<or> d = 3 \<or> d = 4 \<or> d = 5 \<or> d = 6 \<or> d = 7
    \<or> d = 8 \<or> d = 9 \<or> d = 10 \<or> d = 11 \<or> d = 12 \<or> d = 13 \<or> d = 14 \<or> d = 15"
    by arith
  with that show thesis by blast
qed

lemma hex_val_digit_char: "d < 16 \<Longrightarrow> hex_val (digit_char d) = Some d"
  by (erule digit_char_cases) (simp_all add: hex_val_def digit_char_def)

lemma is_digit_digit_char: "d < 10 \<Longrightarrow> is_digit (digit_char d)"
  by (rule digit_char_cases [of d]) (simp_all add: is_digit_def digit_char_def)

lemma of_char_digit_char: "d < 10 \<Longrightarrow> (of_char (digit_char d) :: nat) = d + 48"
  by (rule digit_char_cases [of d]) (simp_all add: digit_char_def)

lemma digit_char_zero: "d < 10 \<Longrightarrow> digit_char d = CHR ''0'' \<longleftrightarrow> d = 0"
  by (rule digit_char_cases [of d]) (simp_all add: digit_char_def)

lemma prepend_Some [simp]: "prepend p (Some (s, r)) = Some (p @ s, r)"
  by (simp add: prepend_def)

lemma parse_chars_quote: "parse_chars (CHR 0x22 # rest) = Some ([], rest)"
  by (subst parse_chars.simps) simp

lemma parse_chars_plain:
  "c \<noteq> CHR 0x22 \<Longrightarrow> c \<noteq> CHR 0x5C \<Longrightarrow> \<not> (of_char c :: nat) < 32 \<Longrightarrow>
     parse_chars (c # t) = prepend [c] (parse_chars t)"
  by (subst parse_chars.simps) simp

lemma parse_chars_short:
  "e \<in> {CHR 0x22, CHR 0x5C, CHR ''b'', CHR ''f'', CHR ''n'', CHR ''r'', CHR ''t''} \<Longrightarrow>
     parse_chars (CHR 0x5C # e # t) =
       prepend [if e = CHR ''b'' then CHR 0x08 else if e = CHR ''f'' then CHR 0x0C
                else if e = CHR ''n'' then CHR 0x0A else if e = CHR ''r'' then CHR 0x0D
                else if e = CHR ''t'' then CHR 0x09 else e] (parse_chars t)"
  by (subst parse_chars.simps) auto

lemma parse_chars_control:
  assumes "hex4 h1 h2 h3 h4 = Some cp" and "cp < 32"
  shows "parse_chars (CHR 0x5C # CHR ''u'' # h1 # h2 # h3 # h4 # t)
     = prepend (utf8_encode cp) (parse_chars t)"
  using assms by (subst parse_chars.simps) simp

lemma parse_chars_escape:
  "parse_chars (json_escape_char c @ t) = prepend [c] (parse_chars t)"
proof -
  consider "c = CHR 0x22" | "c = CHR 0x5C" | "c = CHR 0x08" | "c = CHR 0x0C" | "c = CHR 0x0A"
    | "c = CHR 0x0D" | "c = CHR 0x09"
    | "c \<notin> {CHR 0x22, CHR 0x5C, CHR 0x08, CHR 0x0C, CHR 0x0A, CHR 0x0D, CHR 0x09}"
      "(of_char c :: nat) < 32"
    | "c \<notin> {CHR 0x22, CHR 0x5C, CHR 0x08, CHR 0x0C, CHR 0x0A, CHR 0x0D, CHR 0x09}"
      "\<not> (of_char c :: nat) < 32"
    by auto
  then show ?thesis
  proof cases
    case 8
    let ?n = "of_char c :: nat"
    from 8 have d: "?n div 16 < 16" "?n mod 16 < 16" by simp_all
    have z: "hex_val (CHR ''0'') = Some 0" by (simp add: hex_val_def)
    have h: "hex4 (CHR ''0'') (CHR ''0'') (digit_char (?n div 16)) (digit_char (?n mod 16))
        = Some ?n"
      using d by (simp add: hex4_def z hex_val_digit_char)
    have u: "utf8_encode ?n = [c]"
      using 8 by (simp add: utf8_encode_def)
    from parse_chars_control [OF h 8(2)] show ?thesis
      using 8 by (simp add: json_escape_char_def u)
  next
    case 9
    then show ?thesis by (simp add: json_escape_char_def parse_chars_plain)
  qed (simp_all add: json_escape_char_def parse_chars_short)
qed

lemma parse_chars_quoted:
  "parse_chars (concat (map json_escape_char s) @ CHR 0x22 # rest) = Some (s, rest)"
  by (induction s) (simp_all add: parse_chars_escape parse_chars_quote)

lemma parse_digits_nat_toString:
  "parse_digits acc k (nat_toString n @ rest)
     = parse_digits (acc * 10 ^ length (nat_toString n) + n) (k + length (nat_toString n)) rest"
proof (induction n arbitrary: acc k rest rule: nat_toString.induct)
  case (1 n)
  show ?case
  proof (cases "n < 10")
    case True
    then show ?thesis
      by (subst (1 2 3) nat_toString.simps)
         (simp add: is_digit_digit_char of_char_digit_char mult.commute)
  next
    case False
    then have m: "n mod 10 < 10" by simp
    have s: "nat_toString n = nat_toString (n div 10) @ [digit_char (n mod 10)]"
      using False by (subst nat_toString.simps) simp
    let ?l = "length (nat_toString (n div 10))"
    have "parse_digits acc k (nat_toString n @ rest)
        = parse_digits acc k (nat_toString (n div 10) @ (digit_char (n mod 10) # rest))"
      by (simp add: s)
    also have "\<dots> = parse_digits (acc * 10 ^ ?l + n div 10) (k + ?l)
        (digit_char (n mod 10) # rest)"
      using "1.IH" [OF False] by simp
    also have "\<dots> = parse_digits (10 * (acc * 10 ^ ?l + n div 10) + n mod 10) (k + ?l + 1) rest"
      using m by (simp add: is_digit_digit_char of_char_digit_char)
    also have "10 * (acc * 10 ^ ?l + n div 10) + n mod 10 = acc * 10 ^ length (nat_toString n) + n"
      by (simp add: s algebra_simps)
    also have "k + ?l + 1 = k + length (nat_toString n)"
      by (simp add: s)
    finally show ?thesis .
  qed
qed

lemma nat_toString_head:
  "\<exists>c r. nat_toString n = c # r \<and> is_digit c \<and> (c = CHR ''0'' \<longrightarrow> n = 0 \<and> r = [])"
proof (induction n rule: nat_toString.induct)
  case (1 n)
  show ?case
  proof (cases "n < 10")
    case True
    then show ?thesis
      by (subst nat_toString.simps) (simp add: is_digit_digit_char digit_char_zero)
  next
    case False
    from "1.IH" [OF False] obtain c r where
      h: "nat_toString (n div 10) = c # r" "is_digit c" "c = CHR ''0'' \<longrightarrow> n div 10 = 0 \<and> r = []"
      by blast
    from False have "n div 10 \<noteq> 0" by simp
    with h have "c \<noteq> CHR ''0''" by blast
    moreover have "nat_toString n = c # (r @ [digit_char (n mod 10)])"
      using False h by (subst nat_toString.simps) simp
    ultimately show ?thesis using h by simp
  qed
qed

lemma delimited_no_digit:
  "delimited rest \<Longrightarrow> \<not> starts_with is_digit rest \<and>
     \<not> starts_with (\<lambda>d. d = CHR ''.'' \<or> d = CHR ''e'' \<or> d = CHR ''E'') rest"
  by (cases rest) (auto simp: delimited_def starts_with_def is_digit_def)

lemma parse_digits_stop:
  "\<not> starts_with is_digit rest \<Longrightarrow> parse_digits acc k rest = (acc, k, rest)"
  by (cases rest) (simp_all add: starts_with_def)

lemma parse_integer_nat_toString:
  assumes "delimited rest"
  shows "parse_integer (nat_toString n @ rest) = Some (n, rest)"
proof -
  from nat_toString_head [of n] obtain c r where
    h: "nat_toString n = c # r" "is_digit c" "c = CHR ''0'' \<longrightarrow> n = 0 \<and> r = []"
    by blast
  from assms have nd: "\<not> starts_with is_digit rest"
    using delimited_no_digit by blast
  show ?thesis
  proof (cases "c = CHR ''0''")
    case True
    with h nd show ?thesis by (simp add: parse_integer_def)
  next
    case False
    have "parse_digits 0 0 (nat_toString n @ rest) = (n, length (nat_toString n), rest)"
      by (simp add: parse_digits_nat_toString parse_digits_stop [OF nd])
    then have "parse_digits 0 0 (c # r @ rest) = (n, length (nat_toString n), rest)"
      by (simp add: h(1))
    with h(2) False show ?thesis
      by (simp add: parse_integer_def h(1))
  qed
qed

lemma parse_fraction_none: "delimited rest \<Longrightarrow> parse_fraction n rest = Some (n, 0, rest)"
  by (cases rest) (auto simp: parse_fraction_def delimited_def)

lemma parse_exponent_none: "delimited rest \<Longrightarrow> parse_exponent rest = Some (0, rest)"
  by (cases rest) (auto simp: parse_exponent_def delimited_def)

text \<open>An integer below \<open>2^53\<close> is a double.\<close>

lemma round_half_even_of_int: "round_half_even (of_int k) = k"
  by (simp add: round_half_even_def)

lemma to_double_of_nat:
  assumes "n < 2 ^ 53"
  shows "to_double (of_nat n) = Some (of_nat n)"
proof (cases "n = 0")
  case True
  then show ?thesis by (simp add: to_double_def)
next
  case False
  define L where "L = floorlog 2 n"
  have L1: "1 \<le> L"
    using floorlog_ge_SucI [of 2 0 n] False by (simp add: L_def)
  have L53: "L \<le> 53"
    using floorlog_leI [of n 2 53] assms by (simp add: L_def)
  have e: "binary_exponent (of_nat n) = int L - 1"
    using False by (simp add: binary_exponent_def L_def)
  have m: "max (int L - 1) (- 1022) = int L - 1"
    using L1 by simp
  define k where "k = 53 - L"
  have ex: "int L - 1 - 52 = - int k"
    using L53 by (simp add: k_def)
  have ulp: "(2::rat) powi (- int k) = 1 / 2 ^ k"
    by (simp add: power_int_minus_divide)
  have q: "(of_nat n :: rat) / (1 / 2 ^ k) = of_int (int (n * 2 ^ k))"
    by simp
  have d: "of_int (round_half_even ((of_nat n :: rat) / (1 / 2 ^ k))) * (1 / 2 ^ k)
      = (of_nat n :: rat)"
    unfolding q round_half_even_of_int by simp
  have "(of_nat n :: rat) < 2 ^ 53"
    using assms by (metis of_nat_less_iff of_nat_numeral of_nat_power)
  also have "\<dots> \<le> 2 ^ 1024"
    by (rule power_increasing) simp_all
  finally have small: "\<not> (2 ^ 1024 \<le> (of_nat n :: rat))" by simp
  have nz: "(of_nat n :: rat) \<noteq> 0" using False by simp
  show ?thesis
    unfolding to_double_def Let_def e m ex ulp d
    using nz small by (simp only: if_False)
qed

lemma number_value_int:
  assumes "\<bar>i\<bar> < 2 ^ 53"
  shows "number_value (i < 0) (nat \<bar>i\<bar>) 0 = VNum (of_int i)"
proof -
  have "nat \<bar>i\<bar> < 2 ^ 53" using assms by (simp add: nat_less_iff)
  from to_double_of_nat [OF this] show ?thesis
    by (simp add: number_value_def)
qed

lemma parse_number_int_toString:
  assumes "delimited rest" and "\<bar>i\<bar> < 2 ^ 53"
  shows "parse_number (int_toString i @ rest) = Some (VNum (of_int i), rest)"
proof (cases "i < 0")
  case True
  then have "int_toString i @ rest = CHR ''-'' # nat_toString (nat \<bar>i\<bar>) @ rest"
    by (simp add: int_toString_def)
  then show ?thesis
    using True number_value_int [OF assms(2)]
    by (simp add: parse_number_def starts_with_def parse_integer_nat_toString [OF assms(1)]
        parse_fraction_none [OF assms(1)] parse_exponent_none [OF assms(1)])
next
  case False
  from nat_toString_head [of "nat i"] obtain c r where
    h: "nat_toString (nat i) = c # r" "is_digit c" by blast
  then have nm: "c \<noteq> CHR ''-''" by (auto simp: is_digit_def)
  have t: "int_toString i = nat_toString (nat \<bar>i\<bar>)"
    using False by (simp add: int_toString_def)
  have "\<not> starts_with (\<lambda>d. d = CHR ''-'') (int_toString i @ rest)"
    using False h nm by (simp add: int_toString_def starts_with_def)
  then show ?thesis
    using False number_value_int [OF assms(2)]
    by (simp add: parse_number_def Let_def)
       (simp add: t parse_integer_nat_toString [OF assms(1)]
        parse_fraction_none [OF assms(1)] parse_exponent_none [OF assms(1)])
qed


lemma skip_ws_start: "value_start t \<Longrightarrow> skip_ws (t @ r) = t @ r"
  by (cases t) (simp_all add: value_start_def skip_ws_def)

lemma skip_ws_delim [simp]:
  "skip_ws (CHR '','' # r) = CHR '','' # r"
  "skip_ws (CHR '']'' # r) = CHR '']'' # r"
  "skip_ws (CHR ''}'' # r) = CHR ''}'' # r"
  "skip_ws (CHR '':'' # r) = CHR '':'' # r"
  by (simp_all add: skip_ws_def is_ws_def)

lemma value_start_digit: "is_digit c \<Longrightarrow> value_start (c # r)"
  by (auto simp: value_start_def is_digit_def is_ws_def)

lemma stringify_start: "JSON_stringify v = Some t \<Longrightarrow> value_start t"
proof (cases v)
  case (JNum i)
  assume "JSON_stringify v = Some t"
  with JNum have t: "t = int_toString i" by simp
  show ?thesis
  proof (cases "i < 0")
    case True
    then show ?thesis by (simp add: t int_toString_def value_start_def is_ws_def)
  next
    case False
    from nat_toString_head [of "nat i"] obtain c r where
      "nat_toString (nat i) = c # r" "is_digit c" by blast
    with False show ?thesis by (simp add: t int_toString_def value_start_digit)
  qed
qed (auto simp: value_start_def is_ws_def json_quote_def)

lemma join_commas_Cons: "ss \<noteq> [] \<Longrightarrow> join_commas (t # ss) = t @ CHR '','' # join_commas ss"
  by (cases ss) simp_all

lemma value_start_append: "value_start t \<Longrightarrow> value_start (t @ r)"
  by (cases t) (simp_all add: value_start_def)

lemma json_quote_unfold: "json_quote k = CHR 0x22 # concat (map json_escape_char k) @ [CHR 0x22]"
  by (simp add: json_quote_def)

lemma safe_stringify: "json_safe v \<Longrightarrow> \<exists>t. JSON_stringify v = Some t"
  by (cases v) simp_all

lemma elements_start:
  "safe_elements xs \<Longrightarrow> xs \<noteq> [] \<Longrightarrow> value_start (join_commas (stringify_elements xs))"
proof (cases xs)
  case (Cons x ys)
  assume "safe_elements xs"
  with Cons obtain t where t: "JSON_stringify x = Some t"
    using safe_stringify by auto
  then have "value_start t" by (rule stringify_start)
  then show ?thesis
    using Cons t by (cases "stringify_elements ys") (simp_all add: value_start_append)
qed simp

lemma members_start:
  "safe_members kvs \<Longrightarrow> kvs \<noteq> [] \<Longrightarrow> value_start (join_commas (stringify_members kvs))"
proof (cases kvs)
  case (Cons kv ys)
  obtain k v where kv: "kv = (k, v)" by (cases kv)
  assume "safe_members kvs"
  with Cons kv obtain t where t: "JSON_stringify v = Some t"
    using safe_stringify by auto
  show ?thesis
    using Cons kv t
    by (cases "stringify_members ys") (simp_all add: json_quote_def value_start_def is_ws_def)
qed simp

lemma obj_put_fresh: "k \<notin> fst ` set acc \<Longrightarrow> obj_put acc k v = acc @ [(k, v)]"
  by (induction acc) auto

lemma obj_of_members_distinct_aux:
  "distinct (map fst (acc @ kvs)) \<Longrightarrow>
     foldl (\<lambda>acc (k, v). obj_put acc k v) acc kvs = acc @ kvs"
proof (induction kvs arbitrary: acc)
  case Nil
  then show ?case by simp
next
  case (Cons kv kvs)
  obtain k v where kv: "kv = (k, v)" by (cases kv)
  from Cons.prems have f: "k \<notin> fst ` set acc" by (auto simp: kv)
  from Cons.prems have "distinct (map fst ((acc @ [(k, v)]) @ kvs))" by (simp add: kv)
  from Cons.IH [OF this] show ?case
    by (simp add: kv obj_put_fresh [OF f])
qed

lemma members_of_map: "members_of kvs = map (\<lambda>(k, v). (k, value_of v)) kvs"
  by (induction kvs) auto

lemma property_order_map:
  "property_order (map (\<lambda>(k, v). (k, f v)) kvs) = map (\<lambda>(k, v). (k, f v)) (property_order kvs)"
proof -
  let ?g = "\<lambda>(k, v). (k, f v)"
  have key: "(\<lambda>(k, v). case array_index k of Some i \<Rightarrow> i | None \<Rightarrow> 0) \<circ> ?g
      = (\<lambda>(k, v). case array_index k of Some i \<Rightarrow> i | None \<Rightarrow> 0)"
    by (auto simp: fun_eq_iff)
  have flt: "filter (\<lambda>(k, v). Q k) (map ?g xs) = map ?g (filter (\<lambda>(k, v). Q k) xs)" for Q xs
    by (induction xs) auto
  have ins: "insort_key h (?g x) (map ?g xs) = map ?g (insort_key (h \<circ> ?g) x xs)" for h x xs
    by (induction xs) auto
  have srt: "sort_key h (map ?g xs) = map ?g (sort_key (h \<circ> ?g) xs)" for h xs
    by (induction xs) (simp_all add: ins comp_def)
  show ?thesis
    unfolding property_order_def by (simp only: flt srt key map_append)
qed

lemma obj_of_members_safe:
  assumes "distinct (map fst kvs)" and "property_order kvs = kvs"
  shows "obj_of_members (members_of kvs) = members_of kvs"
proof -
  have "map fst (members_of kvs) = map fst kvs"
    by (induction kvs) auto
  with assms(1) have "distinct (map fst ([] @ members_of kvs))" by simp
  from obj_of_members_distinct_aux [OF this]
  have "obj_of_members (members_of kvs) = property_order (members_of kvs)"
    by (simp add: obj_of_members_def)
  also have "\<dots> = members_of (property_order kvs)"
    by (simp add: members_of_map property_order_map)
  finally show ?thesis by (simp add: assms(2))
qed


lemma length_lt_append: "t \<noteq> [] \<Longrightarrow> length r < length (t @ r)"
  by simp

lemma parse_stringify:
  "json_safe v \<Longrightarrow> JSON_stringify v = Some t \<Longrightarrow> delimited rest \<Longrightarrow>
     parse_value (t @ rest) = Some (value_of v, rest)"
  "safe_elements xs \<Longrightarrow> xs \<noteq> [] \<Longrightarrow>
     parse_elements (join_commas (stringify_elements xs) @ CHR '']'' # rest')
       = Some (values_of xs, rest')"
  "safe_members kvs \<Longrightarrow> kvs \<noteq> [] \<Longrightarrow>
     parse_members (join_commas (stringify_members kvs) @ CHR ''}'' # rest'')
       = Some (members_of kvs, rest'')"
proof (induction v and xs and kvs arbitrary: t rest and rest' and rest''
    rule: json_safe_safe_elements_safe_members.induct)
  case 1
  then show ?case by simp
next
  case 2
  then show ?case by (subst parse_value.simps) auto
next
  case (3 b)
  then show ?case by (cases b; subst parse_value.simps; auto)
next
  case (4 n)
  then have t: "t = int_toString n" by simp
  from stringify_start [of "JNum n" t] have vs: "value_start (int_toString n)"
    by (simp add: t)
  then obtain c r where cr: "int_toString n = c # r" "\<not> is_ws c" "c \<noteq> CHR '']''" "c \<noteq> CHR ''}''"
    by (cases "int_toString n") (auto simp: value_start_def)
  have d: "c = CHR ''-'' \<or> is_digit c"
  proof (cases "n < 0")
    case True
    with cr show ?thesis by (simp add: int_toString_def)
  next
    case False
    from nat_toString_head [of "nat n"] obtain c' r' where
      "nat_toString (nat n) = c' # r'" "is_digit c'" by blast
    with False cr show ?thesis by (simp add: int_toString_def)
  qed
  then have nc: "c \<noteq> CHR ''{''" "c \<noteq> CHR ''[''" "c \<noteq> CHR 0x22" "c \<noteq> CHR ''t''"
    "c \<noteq> CHR ''f''" "c \<noteq> CHR ''n''"
    by (auto simp: is_digit_def)
  have "parse_value (c # r @ rest) = parse_number (c # r @ rest)"
    using nc by (subst parse_value.simps) simp
  moreover from "4.prems"(1) have "\<bar>n\<bar> < 2 ^ 53" by simp
  ultimately show ?case
    using parse_number_int_toString [OF "4.prems"(3), of n]
    by (simp add: t cr(1))
next
  case (5 s)
  then have t: "t = CHR 0x22 # concat (map json_escape_char s) @ [CHR 0x22]"
    by (simp add: json_quote_def)
  show ?case
    by (subst parse_value.simps) (simp add: t parse_chars_quoted)
next
  case (6 xs)
  from "6.prems" have t: "t = CHR ''['' # join_commas (stringify_elements xs) @ '']''"
    and safe: "safe_elements xs" by simp_all
  show ?case
  proof (cases "xs = []")
    case True
    then show ?thesis
      by (subst parse_value.simps) (simp add: t)
  next
    case False
    let ?J = "join_commas (stringify_elements xs)"
    from elements_start [OF safe False] have vs: "value_start ?J" .
    then obtain c1 r2 where j: "?J = c1 # r2" "c1 \<noteq> CHR '']''"
      by (cases ?J) (auto simp: value_start_def)
    have sk: "skip_ws (?J @ CHR '']'' # rest) = c1 # r2 @ CHR '']'' # rest"
      using skip_ws_start [OF vs] j by simp
    have pe: "parse_elements (c1 # r2 @ CHR '']'' # rest) = Some (values_of xs, rest)"
      using "6.IH" [OF safe False, of rest] j by simp
    have len: "length r2 < length ?J" by (simp add: j(1))
    show ?thesis
      using j(2) len by (subst parse_value.simps) (simp add: t sk pe)
  qed
next
  case (7 kvs)
  from "7.prems" have t: "t = CHR ''{'' # join_commas (stringify_members kvs) @ ''}''"
    and dist: "distinct (map fst kvs)" and ord: "property_order kvs = kvs"
    and safe: "safe_members kvs" by simp_all
  show ?case
  proof (cases "kvs = []")
    case True
    then show ?thesis
      by (subst parse_value.simps) (simp add: t)
  next
    case False
    let ?J = "join_commas (stringify_members kvs)"
    from members_start [OF safe False] have vs: "value_start ?J" .
    then obtain c1 r2 where j: "?J = c1 # r2" "c1 \<noteq> CHR ''}''"
      by (cases ?J) (auto simp: value_start_def)
    have sk: "skip_ws (?J @ CHR ''}'' # rest) = c1 # r2 @ CHR ''}'' # rest"
      using skip_ws_start [OF vs] j by simp
    have pe: "parse_members (c1 # r2 @ CHR ''}'' # rest) = Some (members_of kvs, rest)"
      using "7.IH" [OF safe False, of rest] j by simp
    have len: "length r2 < length ?J" by (simp add: j(1))
    show ?thesis
      using j(2) len
      by (subst parse_value.simps) (simp add: t sk pe obj_of_members_safe [OF dist ord])
  qed
next
  case 8
  then show ?case by simp
next
  case (9 x xs)
  from "9.prems" have sx: "json_safe x" and sxs: "safe_elements xs" by simp_all
  from safe_stringify [OF sx] obtain tx where tx: "JSON_stringify x = Some tx" by blast
  from stringify_start [OF tx] have vtx: "value_start tx" .
  then have ne: "tx \<noteq> []" by (auto simp: value_start_def)
  show ?case
  proof (cases "xs = []")
    case True
    have "parse_value (tx @ CHR '']'' # rest') = Some (value_of x, CHR '']'' # rest')"
      using "9.IH"(1) [OF sx tx] by (simp add: delimited_def)
    then show ?thesis
      by (subst parse_elements.simps) (simp add: True tx)
  next
    case False
    let ?J = "join_commas (stringify_elements xs)"
    have se: "stringify_elements xs \<noteq> []" using False by (cases xs) simp_all
    have whole: "join_commas (stringify_elements (x # xs)) @ CHR '']'' # rest'
        = tx @ CHR '','' # ?J @ CHR '']'' # rest'"
      using join_commas_Cons [OF se] by (simp add: tx)
    have pv: "parse_value (tx @ CHR '','' # ?J @ CHR '']'' # rest')
        = Some (value_of x, CHR '','' # ?J @ CHR '']'' # rest')"
      using "9.IH"(1) [OF sx tx] by (simp add: delimited_def)
    have sk: "skip_ws (?J @ CHR '']'' # rest') = ?J @ CHR '']'' # rest'"
      using skip_ws_start [OF elements_start [OF sxs False]] .
    have len: "length (?J @ CHR '']'' # rest') < length (tx @ CHR '','' # ?J @ CHR '']'' # rest')"
      by simp
    have pe: "parse_elements (?J @ CHR '']'' # rest') = Some (values_of xs, rest')"
      using "9.IH"(2) [OF sxs False] .
    show ?thesis
      unfolding whole
      by (subst parse_elements.simps) (simp add: pv sk pe)
  qed
next
  case 10
  then show ?case by simp
next
  case (11 k v kvs)
  from "11.prems" have sv: "json_safe v" and skvs: "safe_members kvs" by simp_all
  from safe_stringify [OF sv] obtain tv where tv: "JSON_stringify v = Some tv" by blast
  from stringify_start [OF tv] have vtv: "value_start tv" .
  let ?K = "concat (map json_escape_char k)"
  show ?case
  proof (cases "kvs = []")
    case True
    have whole: "join_commas (stringify_members ((k, v) # kvs)) @ CHR ''}'' # rest''
        = CHR 0x22 # ?K @ CHR 0x22 # CHR '':'' # tv @ CHR ''}'' # rest''"
      by (simp add: True tv json_quote_def)
    have pc: "parse_chars (?K @ CHR 0x22 # CHR '':'' # tv @ CHR ''}'' # rest'')
        = Some (k, CHR '':'' # tv @ CHR ''}'' # rest'')"
      by (rule parse_chars_quoted)
    have sk: "skip_ws (tv @ CHR ''}'' # rest'') = tv @ CHR ''}'' # rest''"
      using skip_ws_start [OF vtv] .
    have pv: "parse_value (tv @ CHR ''}'' # rest'') = Some (value_of v, CHR ''}'' # rest'')"
      using "11.IH"(1) [OF sv tv] by (simp add: delimited_def)
    show ?thesis
      unfolding whole
      by (subst parse_members.simps) (simp add: pc sk pv True)
  next
    case False
    let ?J = "join_commas (stringify_members kvs)"
    have se: "stringify_members kvs \<noteq> []"
    proof (cases kvs)
      case Nil
      with False show ?thesis by simp
    next
      case (Cons kv ys)
      obtain k' v' where kv: "kv = (k', v')" by (cases kv)
      from skvs Cons kv have "json_safe v'" by simp
      from safe_stringify [OF this] show ?thesis by (auto simp: Cons kv)
    qed
    have whole: "join_commas (stringify_members ((k, v) # kvs)) @ CHR ''}'' # rest''
        = CHR 0x22 # ?K @ CHR 0x22 # CHR '':'' # tv @ CHR '','' # ?J @ CHR ''}'' # rest''"
      using join_commas_Cons [OF se] by (simp add: tv json_quote_def)
    have pc: "parse_chars (?K @ CHR 0x22 # CHR '':'' # tv @ CHR '','' # ?J @ CHR ''}'' # rest'')
        = Some (k, CHR '':'' # tv @ CHR '','' # ?J @ CHR ''}'' # rest'')"
      by (rule parse_chars_quoted)
    have sk: "skip_ws (tv @ CHR '','' # ?J @ CHR ''}'' # rest'')
        = tv @ CHR '','' # ?J @ CHR ''}'' # rest''"
      using skip_ws_start [OF vtv] .
    have pv: "parse_value (tv @ CHR '','' # ?J @ CHR ''}'' # rest'')
        = Some (value_of v, CHR '','' # ?J @ CHR ''}'' # rest'')"
      using "11.IH"(1) [OF sv tv] by (simp add: delimited_def)
    have sk2: "skip_ws (?J @ CHR ''}'' # rest'') = ?J @ CHR ''}'' # rest''"
      using skip_ws_start [OF members_start [OF skvs False]] .
    have pm: "parse_members (?J @ CHR ''}'' # rest'') = Some (members_of kvs, rest'')"
      using "11.IH"(2) [OF skvs False] .
    show ?thesis
      unfolding whole
      by (subst parse_members.simps) (simp add: pc sk pv sk2 pm)
  qed
qed


section \<open>QR tokens (qrService.ts, DigitalIDService.ts)\<close>

lemmas text_defs = text_wallet_def text_digital_id_def text_transaction_def
  text_empty_wallet_def text_no_data_def text_asha_def text_asha_moved_def text_unknown_def
  text_decimal_id_def

lemma JSON_round_trip:
  assumes "json_safe v" and "JSON_stringify v = Some t"
  shows "JSON_parse t = Some (value_of v)"
proof -
  have "skip_ws t = t"
    using skip_ws_start [OF stringify_start [OF assms(2)], of "[]"] by simp
  moreover have "parse_value t = Some (value_of v, [])"
    using parse_stringify(1) [OF assms, of "[]"] by (simp add: delimited_def)
  ultimately show ?thesis
    by (simp add: JSON_parse_def skip_ws_def)
qed

lemma safe_elements_strings: "safe_elements (map JStr rs)"
  by (induction rs) simp_all

text \<open>None of the property names that the code writes is an array index.\<close>

lemma array_index_letter: "\<not> is_digit c \<Longrightarrow> array_index (c # k) = None"
  by (simp add: array_index_def)

lemma property_order_names:
  "list_all (\<lambda>(k, v). array_index k = None) kvs \<Longrightarrow> property_order kvs = kvs"
proof -
  assume a: "list_all (\<lambda>(k, v). array_index k = None) kvs"
  then have "filter (\<lambda>(k, v). array_index k \<noteq> None) kvs = []"
    by (induction kvs) auto
  moreover from a have "filter (\<lambda>(k, v). array_index k = None) kvs = kvs"
    by (induction kvs) auto
  ultimately show ?thesis by (simp add: property_order_def)
qed

lemmas names_eval = property_order_names array_index_letter is_digit_def








subsection \<open>Validating a token\<close>

lemma identity_safe:
  "id' idn < 2 ^ 53 \<Longrightarrow> json_safe (qrData_identity idn ca now)"
  by (simp add: qrData_identity_def safe_elements_strings names_eval)

lemma identity_text:
  assumes "id' idn < 2 ^ 53"
  shows "JSON_parse (generateQRCodeData idn ca now) = Some (value_of (qrData_identity idn ca now))"
proof -
  obtain t where t: "JSON_stringify (qrData_identity idn ca now) = Some t"
    using safe_stringify [OF identity_safe [OF assms]] by blast
  from JSON_round_trip [OF identity_safe [OF assms] t] show ?thesis
    by (simp add: generateQRCodeData_def t)
qed

text \<open>
  Claim C8: \<open>validateQRCodeData\<close> always answers a validation, never an error. It
  answers \<open>{valid: false}\<close> when the text is not JSON, when reading \<open>id\<close> or
  \<open>walletAddress\<close> off the parsed value throws, when either is falsy, when the lookup
  throws or finds nothing, and when the stored wallet address differs from the token's. A
  token generated from an identity that the lookup returns under its identifier is valid
  with that identity; the same token with another wallet address is not.
\<close>

theorem validateQRCodeData_total:
  "(JSON_parse q = None \<longrightarrow> validateQRCodeData g q = \<lparr>valid = False, identity = None\<rparr>) \<and>
   (JSON_parse q = Some d \<and> (isl (js_get d ''id'') \<or> isl (js_get d ''walletAddress'')) \<longrightarrow>
      validateQRCodeData g q = \<lparr>valid = False, identity = None\<rparr>) \<and>
   (JSON_parse q = Some d \<and> js_get d ''id'' = Inr i \<and> js_get d ''walletAddress'' = Inr w \<and>
    (\<not> truthy i \<or> \<not> truthy w \<or> isl (g i) \<or> g i = Inr None \<or>
     (g i = Inr (Some idn) \<and> w \<noteq> VStr (walletAddress idn))) \<longrightarrow>
      validateQRCodeData g q = \<lparr>valid = False, identity = None\<rparr>) \<and>
   (JSON_parse q = Some d \<and> js_get d ''id'' = Inr i \<and> truthy i \<and>
    js_get d ''walletAddress'' = Inr (VStr (walletAddress idn)) \<and> walletAddress idn \<noteq> [] \<and>
    g i = Inr (Some idn) \<longrightarrow>
      validateQRCodeData g q = \<lparr>valid = True, identity = Some idn\<rparr>) \<and>
   (id' idn \<noteq> 0 \<and> id' idn < 2 ^ 53 \<and> walletAddress idn \<noteq> [] \<and>
    g (VNum (of_nat (id' idn))) = Inr (Some idn) \<longrightarrow>
      validateQRCodeData g (generateQRCodeData idn ca now)
        = \<lparr>valid = True, identity = Some idn\<rparr> \<and>
      (w' \<noteq> walletAddress idn \<longrightarrow>
         validateQRCodeData g (generateQRCodeData (idn\<lparr>walletAddress := w'\<rparr>) ca now)
           = \<lparr>valid = False, identity = None\<rparr>))"
proof -
  have a: "JSON_parse q = None \<longrightarrow> validateQRCodeData g q = \<lparr>valid = False, identity = None\<rparr>"
    by (simp add: validateQRCodeData_def)
  have b: "JSON_parse q = Some d \<and> (isl (js_get d ''id'') \<or> isl (js_get d ''walletAddress'')) \<longrightarrow>
      validateQRCodeData g q = \<lparr>valid = False, identity = None\<rparr>"
    by (auto simp: validateQRCodeData_def split: sum.splits option.splits)
  have c: "JSON_parse q = Some d \<and> js_get d ''id'' = Inr i \<and> js_get d ''walletAddress'' = Inr w \<and>
    (\<not> truthy i \<or> \<not> truthy w \<or> isl (g i) \<or> g i = Inr None \<or>
     (g i = Inr (Some idn) \<and> w \<noteq> VStr (walletAddress idn))) \<longrightarrow>
      validateQRCodeData g q = \<lparr>valid = False, identity = None\<rparr>"
    by (auto simp: validateQRCodeData_def split: sum.splits option.splits)
  have e: "JSON_parse q = Some d \<and> js_get d ''id'' = Inr i \<and> truthy i \<and>
    js_get d ''walletAddress'' = Inr (VStr (walletAddress idn)) \<and> walletAddress idn \<noteq> [] \<and>
    g i = Inr (Some idn) \<longrightarrow>
      validateQRCodeData g q = \<lparr>valid = True, identity = Some idn\<rparr>"
    by (auto simp: validateQRCodeData_def)
  have f: "validateQRCodeData g (generateQRCodeData idn ca now)
        = \<lparr>valid = True, identity = Some idn\<rparr> \<and>
      (w' \<noteq> walletAddress idn \<longrightarrow>
         validateQRCodeData g (generateQRCodeData (idn\<lparr>walletAddress := w'\<rparr>) ca now)
           = \<lparr>valid = False, identity = None\<rparr>)"
    if h: "id' idn \<noteq> 0" "id' idn < 2 ^ 53" "walletAddress idn \<noteq> []"
      "g (VNum (of_nat (id' idn))) = Inr (Some idn)"
  proof
    show "validateQRCodeData g (generateQRCodeData idn ca now)
        = \<lparr>valid = True, identity = Some idn\<rparr>"
      using h by (simp add: validateQRCodeData_def identity_text) (simp add: qrData_identity_def)
    show "w' \<noteq> walletAddress idn \<longrightarrow>
         validateQRCodeData g (generateQRCodeData (idn\<lparr>walletAddress := w'\<rparr>) ca now)
           = \<lparr>valid = False, identity = None\<rparr>"
      using h by (simp add: validateQRCodeData_def identity_text) (simp add: qrData_identity_def)
  qed
  from a b c e f show ?thesis by blast
qed

text \<open>
  With a lookup that answers Asha's identity for the number 1 and \<open>null\<close> for every
  other value: a text that is not JSON, the text \<open>null\<close>, a token for the number 7, a
  token that writes the number 1 as \<open>1.0\<close>, and a fresh token of Asha's identity; then
  the fresh token with the wallet address changed.
\<close>

lemma parse_not_json: "JSON_parse ''not json'' = None"
  by (simp add: JSON_parse_def skip_ws_def is_ws_def parse_value.simps starts_with_def
      parse_number_def parse_integer_def is_digit_def)

lemma parse_null: "JSON_parse ''null'' = Some VNull"
  by (simp add: JSON_parse_def skip_ws_def is_ws_def parse_value.simps starts_with_def)

lemma parse_unknown_id:
  "JSON_parse text_unknown
     = Some (VObj [(''id'', VNum 7), (''walletAddress'', VStr ''0xA'')])"
  using JSON_round_trip [of "JObj [(''id'', JNum 7), (''walletAddress'', JStr ''0xA'')]"
      text_unknown]
  by (simp add: json_quote_def json_escape_char_def int_toString_def nat_toString.simps
      digit_char_def names_eval text_defs)

lemma one_is_double: "to_double 1 = Some 1"
  using to_double_of_nat [of 1] by simp

lemma parse_decimal_id:
  "JSON_parse text_decimal_id = Some (VObj [(''id'', VNum 1), (''walletAddress'', VStr wallet_A)])"
  by (simp add: text_decimal_id_def JSON_parse_def skip_ws_def is_ws_def parse_value.simps
      parse_members.simps parse_chars.simps starts_with_def parse_number_def parse_integer_def
      parse_fraction_def parse_exponent_def is_digit_def number_value_def one_is_double
      obj_of_members_def names_eval wallet_A_def)

theorem validateQRCodeData_total_witness:
  "validateQRCodeData (\<lambda>i. if i = VNum 1 then Inr (Some asha_Identity) else Inr None)
     ''not json'' = \<lparr>valid = False, identity = None\<rparr> \<and>
   validateQRCodeData (\<lambda>i. if i = VNum 1 then Inr (Some asha_Identity) else Inr None)
     ''null'' = \<lparr>valid = False, identity = None\<rparr> \<and>
   validateQRCodeData (\<lambda>i. if i = VNum 1 then Inr (Some asha_Identity) else Inr None)
     text_unknown = \<lparr>valid = False, identity = None\<rparr> \<and>
   validateQRCodeData (\<lambda>i. if i = VNum 1 then Inr (Some asha_Identity) else Inr None)
     text_decimal_id = \<lparr>valid = True, identity = Some asha_Identity\<rparr> \<and>
   generateQRCodeData asha_Identity contract_address ''2023-11-14T22:13:20.000Z''
     = text_asha \<and>
   validateQRCodeData (\<lambda>i. if i = VNum 1 then Inr (Some asha_Identity) else Inr None)
     text_asha
     = \<lparr>valid = True, identity = Some asha_Identity\<rparr> \<and>
   generateQRCodeData (asha_Identity\<lparr>walletAddress := wallet_B\<rparr>) contract_address
       ''2023-11-14T22:13:20.000Z''
     = text_asha_moved \<and>
   validateQRCodeData (\<lambda>i. if i = VNum 1 then Inr (Some asha_Identity) else Inr None)
     text_asha_moved
     = \<lparr>valid = False, identity = None\<rparr>"
proof -
  let ?g = "\<lambda>i. if i = VNum 1 then Inr (Some asha_Identity) else Inr None"
  have t1: "generateQRCodeData asha_Identity contract_address ''2023-11-14T22:13:20.000Z''
     = text_asha"
    by (simp add: generateQRCodeData_def qrData_identity_def asha_Identity_def wallet_A_def
        contract_address_def json_quote_def json_escape_char_def int_toString_def
        nat_toString.simps digit_char_def text_defs)
  have t2: "generateQRCodeData (asha_Identity\<lparr>walletAddress := wallet_B\<rparr>) contract_address
       ''2023-11-14T22:13:20.000Z''
     = text_asha_moved"
    by (simp add: generateQRCodeData_def qrData_identity_def asha_Identity_def wallet_B_def
        contract_address_def json_quote_def json_escape_char_def int_toString_def
        nat_toString.simps digit_char_def text_defs)
  have c1: "validateQRCodeData ?g ''not json'' = \<lparr>valid = False, identity = None\<rparr>"
    using validateQRCodeData_total [where q = "''not json''" and g = ?g] parse_not_json
    by simp
  have c2: "validateQRCodeData ?g ''null'' = \<lparr>valid = False, identity = None\<rparr>"
    using validateQRCodeData_total [where q = "''null''" and g = ?g and d = VNull] parse_null
    by simp
  have c3: "validateQRCodeData ?g text_unknown = \<lparr>valid = False, identity = None\<rparr>"
    using validateQRCodeData_total [where q = text_unknown and g = ?g
        and d = "VObj [(''id'', VNum 7), (''walletAddress'', VStr ''0xA'')]"
        and i = "VNum 7" and w = "VStr ''0xA''"] parse_unknown_id
    by simp
  have c4: "validateQRCodeData ?g
        (generateQRCodeData asha_Identity contract_address ''2023-11-14T22:13:20.000Z'')
      = \<lparr>valid = True, identity = Some asha_Identity\<rparr> \<and>
    validateQRCodeData ?g
        (generateQRCodeData (asha_Identity\<lparr>walletAddress := wallet_B\<rparr>) contract_address
           ''2023-11-14T22:13:20.000Z'')
      = \<lparr>valid = False, identity = None\<rparr>"
    using validateQRCodeData_total [where g = ?g and idn = asha_Identity
        and ca = contract_address and now = "''2023-11-14T22:13:20.000Z''" and w' = wallet_B]
    by (simp add: asha_Identity_def wallet_A_def wallet_B_def)
  have c5: "validateQRCodeData ?g text_decimal_id
      = \<lparr>valid = True, identity = Some asha_Identity\<rparr>"
    using validateQRCodeData_total [where q = text_decimal_id and g = ?g
        and d = "VObj [(''id'', VNum 1), (''walletAddress'', VStr wallet_A)]"
        and i = "VNum 1" and idn = asha_Identity] parse_decimal_id
    by (simp add: asha_Identity_def wallet_A_def)
  from c1 c2 c3 c4 c5 show ?thesis
    by (simp add: t1 t2)
qed

section \<open>Verifying twice\<close>

text \<open>The service that created the administrator's identity, written out.\<close>

lemma service_created_eq:
  "service_created = \<lparr>contract = \<lparr>owner = wallet_admin, idCounter = 1,
       walletToIdentity = (\<lambda>_. 0)(wallet_admin := 1),
       identities = (\<lambda>_. empty_Identity)(1 := \<lparr>id' = 1, name = ''Admin'', email = ''admin@x.com'',
          nationality = ''Indian'', aadhaarHash = [], passportHash = [],
          emergencyContact = ''+91-100'', createdAt = 1700000000, updatedAt = 1700000000,
          isActive = True, isVerified = False, walletAddress = wallet_admin, roles = [''admin'']\<rparr>),
       emailToIdentity = (\<lambda>_. 0)(''admin@x.com'' := 1),
       aadhaarToIdentity = (\<lambda>_. 0), passportToIdentity = (\<lambda>_. 0),
       events = [IdentityCreated 1 wallet_admin ''Admin'' ''admin@x.com'' 1700000000]\<rparr>,
     wallet = wallet_admin,
     verificationQueue = (\<lambda>_. None)(1 := Some \<lparr>identityId = 1, verifierAddress = [],
        verificationDate = 1700000000000, status = ''pending''\<rparr>)\<rparr>"
  by (simp add: service_created_def service_fresh_def createDigitalIdentity_def admin_request_def
      constructor'_def createIdentity_def getIdentityByWallet_def uint256_max_def wallet_admin_def
      address0_def empty_Identity_def receipt_hash_def Let_def fun_eq_iff)

text \<open>\<open>verifyDigitalID\<close> changes nothing when repeated.\<close>

lemma verifyDigitalID_idem:
  "verifyDigitalID (snd (verifyDigitalID st h)) h = verifyDigitalID st h"
proof -
  have a: "find (\<lambda>d. did_hash d = h) ds = Some d \<Longrightarrow>
     find (\<lambda>d. did_hash d = h) (mark_verified h ds) = Some (d\<lparr>did_verified := True\<rparr>)" for ds d
    by (induction ds) (auto split: if_splits)
  have b: "mark_verified h (mark_verified h ds) = mark_verified h ds" for ds
    by (induction ds) auto
  show ?thesis
    by (cases "find (\<lambda>d. did_hash d = h) (sb_digitalIDs st)")
       (simp_all add: verifyDigitalID_def a b)
qed

text \<open>
  Claim C6, amended. When a call of \<open>verifyDigitalIdentity\<close> has succeeded, a second
  call for the same identity succeeds too, with a transaction of its own. The contract then
  holds the identity as verified and its log ends with the two \<open>IdentityVerified\<close>
  events, each naming the service's wallet and the time of its block; the verifier given by
  the caller and the date of the call are kept only in the service's queue entry for the
  identity, where the second call overwrites the first, and nowhere when the queue has no
  entry. \<open>verifyDigitalID\<close> of the ledger service repeats without any change and
  leaves the chain as it was.
\<close>

theorem verify_twice:
  "(verifyDigitalIdentity svc bt1 now1 i v1 = (Inr h1, svc1) \<longrightarrow>
      fst (verifyDigitalIdentity svc1 bt2 now2 i v2) = Inr (h1 + 1) \<and>
      events (contract (snd (verifyDigitalIdentity svc1 bt2 now2 i v2)))
        = events (contract svc) @
            [IdentityVerified i (wallet svc) bt1, IdentityVerified i (wallet svc) bt2] \<and>
      identities (contract (snd (verifyDigitalIdentity svc1 bt2 now2 i v2)))
        = (identities (contract svc))(i := (identities (contract svc) i)\<lparr>isVerified := True\<rparr>) \<and>
      verificationQueue (snd (verifyDigitalIdentity svc1 bt2 now2 i v2))
        = (case verificationQueue svc i of
             None \<Rightarrow> verificationQueue svc
           | Some q \<Rightarrow> (verificationQueue svc)(i := Some (q\<lparr>status := ''approved'',
                         verifierAddress := v2, verificationDate := now2\<rparr>)))) \<and>
   verifyDigitalID (snd (verifyDigitalID st h)) h = verifyDigitalID st h \<and>
   sb_chain (snd (verifyDigitalID st h)) = sb_chain st"
proof -
  have c: "sb_chain (snd (verifyDigitalID st h)) = sb_chain st"
    by (simp add: verifyDigitalID_def split: option.splits)
  have a: "fst (verifyDigitalIdentity svc1 bt2 now2 i v2) = Inr (h1 + 1) \<and>
      events (contract (snd (verifyDigitalIdentity svc1 bt2 now2 i v2)))
        = events (contract svc) @
            [IdentityVerified i (wallet svc) bt1, IdentityVerified i (wallet svc) bt2] \<and>
      identities (contract (snd (verifyDigitalIdentity svc1 bt2 now2 i v2)))
        = (identities (contract svc))(i := (identities (contract svc) i)\<lparr>isVerified := True\<rparr>) \<and>
      verificationQueue (snd (verifyDigitalIdentity svc1 bt2 now2 i v2))
        = (case verificationQueue svc i of
             None \<Rightarrow> verificationQueue svc
           | Some q \<Rightarrow> (verificationQueue svc)(i := Some (q\<lparr>status := ''approved'',
                         verifierAddress := v2, verificationDate := now2\<rparr>)))"
    if first: "verifyDigitalIdentity svc bt1 now1 i v1 = (Inr h1, svc1)"
  proof -
    from first obtain c' where c': "verifyIdentity (contract svc) (wallet svc) bt1 i = Inr c'"
      by (cases "verifyIdentity (contract svc) (wallet svc) bt1 i")
         (simp_all add: verifyDigitalIdentity_def)
    from c' have ok: "onlyOwner (contract svc) (wallet svc) = None"
      "identityExists (contract svc) i = None"
      by (simp_all add: verifyIdentity_def split: option.splits)
    from c' ok have c'_eq: "c' = (contract svc)\<lparr>identities := (identities (contract svc))
          (i := (identities (contract svc) i)\<lparr>isVerified := True\<rparr>),
        events := events (contract svc) @ [IdentityVerified i (wallet svc) bt1]\<rparr>"
      by (simp add: verifyIdentity_def)
    from first c' have h1: "h1 = receipt_hash c'"
      and svc1: "svc1 = svc\<lparr>contract := c',
               verificationQueue :=
                 (case verificationQueue svc i of
                    None \<Rightarrow> verificationQueue svc
                  | Some verification \<Rightarrow>
                      (verificationQueue svc)(i := Some (verification\<lparr>status := ''approved'',
                         verifierAddress := v1, verificationDate := now1\<rparr>)))\<rparr>"
      by (simp_all add: verifyDigitalIdentity_def)
    from ok have ok': "onlyOwner c' (wallet svc) = None" "identityExists c' i = None"
      by (simp_all add: c'_eq onlyOwner_def identityExists_def split: if_splits)
    show ?thesis
      by (cases "verificationQueue svc i")
         (simp_all add: verifyDigitalIdentity_def verifyIdentity_def svc1 ok' h1 receipt_hash_def,
          simp_all add: c'_eq)
  qed
  from a c verifyDigitalID_idem show ?thesis by blast
qed

text \<open>The first call on the example service returns.\<close>

lemma first_verify:
  "fst (verifyDigitalIdentity service_created 1700000100 1700000100000 1 ''0xV1'') = Inr 2"
  by (simp add: service_created_eq verifyDigitalIdentity_def verifyIdentity_def onlyOwner_def
      identityExists_def receipt_hash_def wallet_admin_def address0_def)

theorem verify_twice_witness:
  "verifyDigitalIdentity service_created 1700000100 1700000100000 1 ''0xV1''
     = (Inr 2, snd (verifyDigitalIdentity service_created 1700000100 1700000100000 1 ''0xV1'')) \<and>
   fst (verifyDigitalIdentity
          (snd (verifyDigitalIdentity service_created 1700000100 1700000100000 1 ''0xV1''))
          1700000200 1700000200000 1 ''0xV2'') = Inr 3 \<and>
   events (contract (snd (verifyDigitalIdentity
          (snd (verifyDigitalIdentity service_created 1700000100 1700000100000 1 ''0xV1''))
          1700000200 1700000200000 1 ''0xV2'')))
     = [IdentityCreated 1 wallet_admin ''Admin'' ''admin@x.com'' 1700000000,
        IdentityVerified 1 wallet_admin 1700000100, IdentityVerified 1 wallet_admin 1700000200] \<and>
   verificationQueue (snd (verifyDigitalIdentity
          (snd (verifyDigitalIdentity service_created 1700000100 1700000100000 1 ''0xV1''))
          1700000200 1700000200000 1 ''0xV2'')) 1
     = Some \<lparr>identityId = 1, verifierAddress = ''0xV2'', verificationDate = 1700000200000,
             status = ''approved''\<rparr>"
  using verify_twice [of service_created 1700000100 1700000100000 1 "''0xV1''" 2
      "snd (verifyDigitalIdentity service_created 1700000100 1700000100000 1 ''0xV1'')"
      1700000200 1700000200000 "''0xV2''"]
    first_verify
  by (simp add: prod_eq_iff) (simp add: service_created_eq)

text \<open>
  Claim C6, as stated, fails. Verifying Asha's record twice on the ledger service returns
  the verified record both times and mints no block; verifying twice through a service
  whose queue has no entry for the identity succeeds both times and keeps neither verifier
  nor date.
\<close>

theorem verify_records_nothing_counterexample:
  "fst (verifyDigitalID registry_asha (did_hash asha_record))
     = Some (asha_record\<lparr>did_verified := True\<rparr>) \<and>
   fst (verifyDigitalID (snd (verifyDigitalID registry_asha (did_hash asha_record)))
          (did_hash asha_record))
     = Some (asha_record\<lparr>did_verified := True\<rparr>) \<and>
   sb_chain (snd (verifyDigitalID (snd (verifyDigitalID registry_asha (did_hash asha_record)))
          (did_hash asha_record)))
     = [ledger_g, asha_block] \<and>
   fst (verifyDigitalIdentity service_restarted 1700000100 1700000100000 1 ''0xV1'') = Inr 2 \<and>
   fst (verifyDigitalIdentity
          (snd (verifyDigitalIdentity service_restarted 1700000100 1700000100000 1 ''0xV1''))
          1700000200 1700000200000 1 ''0xV2'') = Inr 3 \<and>
   verificationQueue (snd (verifyDigitalIdentity
          (snd (verifyDigitalIdentity service_restarted 1700000100 1700000100000 1 ''0xV1''))
          1700000200 1700000200000 1 ''0xV2'')) 1 = None"
  by (simp add: verifyDigitalID_def registry_asha_def verifyDigitalIdentity_def
      verifyIdentity_def onlyOwner_def identityExists_def receipt_hash_def service_restarted_def
      asha_created_def asha_Identity_def wallet_A_def address0_def)

section \<open>Digital IDs of the ledger service\<close>

subsection \<open>The two branches of \<open>createDigitalID\<close>\<close>

text \<open>
  A block that needs no second nonce is appended as it is; the memory branch stores the
  record of the request unchanged; the durable branch stores what \<open>DigitalID.create\<close>
  accepts and stops at what it refuses.
\<close>

lemma addBlock_first_try:
  assumes "c \<noteq> []" and "index b = index (last c) + 1" and "previousHash b = hash (last c)"
    and "nonce b = 0" and "block_hash b = hash b"
    and "take difficulty (hash b) = replicate difficulty (CHR ''0'')"
  shows "addBlock difficulty c (data b) (timestamp b) = Some (Inr (c @ [b], b))"
proof -
  have new: "\<lparr>index = index (last c) + 1, timestamp = timestamp b, data = data b,
       previousHash = hash (last c),
       hash = calculateHash (index (last c) + 1) (timestamp b) (data b) (hash (last c)) 0,
       nonce = 0\<rparr> = b"
    using assms(2-5) by (simp add: block_hash_def)
  have "mineBlock difficulty b = Some b"
    using assms(6) by (subst mineBlock.simps) simp
  with new assms(1) show ?thesis
    by (simp add: addBlock_def Let_def last_conv_nth)
qed

lemma createDigitalID_memory:
  "createDigitalID lower st db 0 t1 t2 t3 newId u =
     (case addBlock difficulty (sb_chain st) (digitalID_block (new_document u t1 t2 newId)) t3 of
        None \<Rightarrow> None
      | Some (Inl e) \<Rightarrow>
          Some (Inl (Error ''Failed to create digital ID''),
                st\<lparr>sb_digitalIDs := sb_digitalIDs st @ [new_document u t1 t2 newId]\<rparr>, db)
      | Some (Inr (chain', b)) \<Rightarrow>
          Some (Inr (new_document u t1 t2 newId),
                \<lparr>sb_chain = chain', sb_digitalIDs = sb_digitalIDs st @ [new_document u t1 t2 newId]\<rparr>,
                db))"
  by (simp add: createDigitalID_def Let_def)

lemma createDigitalID_durable_stored:
  assumes "DigitalID_create lower db newId (new_document u t1 t2 newId) = Inr (doc, db')"
  shows "createDigitalID lower st db 1 t1 t2 t3 newId u =
     (case addBlock difficulty (sb_chain st) (digitalID_block doc) t3 of
        None \<Rightarrow> None
      | Some (Inl e) \<Rightarrow>
          Some (Inl (Error ''Failed to create digital ID''),
                st\<lparr>sb_digitalIDs := sb_digitalIDs st @ [doc]\<rparr>, db')
      | Some (Inr (chain', b)) \<Rightarrow>
          Some (Inr doc, \<lparr>sb_chain = chain', sb_digitalIDs = sb_digitalIDs st @ [doc]\<rparr>, db'))"
  using assms by (simp add: createDigitalID_def Let_def)

lemma createDigitalID_durable_refused:
  assumes "DigitalID_create lower db newId (new_document u t1 t2 newId) = Inl e"
  shows "createDigitalID lower st db 1 t1 t2 t3 newId u
     = Some (Inl (Error ''Failed to create digital ID''), st, db)"
  using assms by (simp add: createDigitalID_def Let_def)

text \<open>A role outside the schema's list is refused whatever else the request holds.\<close>

lemma DigitalID_create_role:
  assumes "did_role doc \<notin> set [''admin'', ''police'', ''tourism'', ''tourist'']"
  shows "DigitalID_create lower db oid doc = Inl (Error ''DigitalID validation failed'')"
  using assms by (simp add: DigitalID_create_def Let_def schema_valid_def)

subsection \<open>The example registry, computed\<close>

text \<open>The hashes of the three records and of their blocks.\<close>

lemma asha_record_hash:
  "digitalID_hash asha_request 1700000001000 = did_hash asha_record"
  by (simp add: digitalID_hash_def asha_request_def asha_record_def wallet_A_def hash_eval)

lemma asha_block_hash: "block_hash asha_block = hash asha_block"
  by (simp add: block_hash_def asha_block_def digitalID_block_def asha_record_def hash_eval)

lemma twin_record_hash:
  "digitalID_hash twin_request 1700000002000 = did_hash twin_record"
  by (simp add: digitalID_hash_def twin_request_def twin_record_def wallet_B_def hash_eval)

lemma twin_block_hash: "block_hash twin_block = hash twin_block"
  by (simp add: block_hash_def twin_block_def digitalID_block_def twin_record_def hash_eval)

lemma twin_stored_block_hash: "block_hash twin_stored_block = hash twin_stored_block"
  by (simp add: block_hash_def twin_stored_block_def digitalID_block_def twin_stored_def
      twin_record_def hash_eval)

lemma guide_record_hash:
  "digitalID_hash guide_request 1700000003000 = did_hash guide_record"
  by (simp add: digitalID_hash_def guide_request_def guide_record_def wallet_B_def hash_eval)

lemma guide_block_hash: "block_hash guide_block = hash guide_block"
  by (simp add: block_hash_def guide_block_def digitalID_block_def guide_record_def hash_eval)

text \<open>The records, the blocks and the calls that produce them.\<close>

lemma asha_document:
  "new_document asha_request 1700000001000 1700000001000 ''1b4e28ba-2fa1-4d3b-a3f5-ef19b5a7633b''
     = asha_record"
  using asha_record_hash by (simp add: new_document_def asha_request_def asha_record_def)

lemma twin_document:
  "new_document twin_request 1700000002000 1700000002000 ''6fa459ea-ee8a-4ca4-894e-db77e160355e''
     = twin_record"
  using twin_record_hash by (simp add: new_document_def twin_request_def twin_record_def)

lemma twin_stored_document:
  "new_document twin_request 1700000002000 1700000002000 ''65540d62f1a2b3c4d5e6f708''
     = twin_stored"
  using twin_record_hash
  by (simp add: new_document_def twin_request_def twin_record_def twin_stored_def)

lemma guide_document:
  "new_document guide_request 1700000003000 1700000003000 ''16fd2706-8baf-433b-82eb-8c7fada847da''
     = guide_record"
  using guide_record_hash by (simp add: new_document_def guide_request_def guide_record_def)

lemma asha_added:
  "addBlock difficulty [ledger_g] (digitalID_block asha_record) 1700000001449
     = Some (Inr ([ledger_g, asha_block], asha_block))"
  using addBlock_first_try [of "[ledger_g]" asha_block] asha_block_hash
  by (simp add: ledger_g_hash) (simp add: asha_block_def difficulty_def replicate_numeral
      ledger_g_def createGenesisBlock_def)

lemma twin_added:
  "addBlock difficulty [ledger_g, asha_block] (digitalID_block twin_record) 1700000002554
     = Some (Inr ([ledger_g, asha_block, twin_block], twin_block))"
  using addBlock_first_try [of "[ledger_g, asha_block]" twin_block] twin_block_hash
  by (simp add: twin_block_def asha_block_def difficulty_def replicate_numeral)

lemma twin_stored_added:
  "addBlock difficulty [ledger_g, asha_block] (digitalID_block twin_stored) 1700000002072
     = Some (Inr ([ledger_g, asha_block, twin_stored_block], twin_stored_block))"
  using addBlock_first_try [of "[ledger_g, asha_block]" twin_stored_block]
    twin_stored_block_hash
  by (simp add: twin_stored_block_def asha_block_def difficulty_def replicate_numeral)

lemma guide_added:
  "addBlock difficulty [ledger_g] (digitalID_block guide_record) 1700000003110
     = Some (Inr ([ledger_g, guide_block], guide_block))"
  using addBlock_first_try [of "[ledger_g]" guide_block] guide_block_hash
  by (simp add: ledger_g_hash) (simp add: guide_block_def difficulty_def replicate_numeral
      ledger_g_def createGenesisBlock_def)

lemma create_asha_memory:
  "createDigitalID lower registry_fresh [] 0 1700000001000 1700000001000 1700000001449
       ''1b4e28ba-2fa1-4d3b-a3f5-ef19b5a7633b'' asha_request
     = Some (Inr asha_record, registry_asha, [])"
  by (simp add: createDigitalID_memory asha_document registry_fresh_def asha_added
      registry_asha_def)

lemma create_twin_memory:
  "createDigitalID lower registry_asha [] 0 1700000002000 1700000002000 1700000002554
       ''6fa459ea-ee8a-4ca4-894e-db77e160355e'' twin_request
     = Some (Inr twin_record, registry_twin, [])"
  by (simp add: createDigitalID_memory twin_document registry_asha_def twin_added
      registry_twin_def)

lemma create_guide_memory:
  "createDigitalID lower registry_fresh [] 0 1700000003000 1700000003000 1700000003110
       ''16fd2706-8baf-433b-82eb-8c7fada847da'' guide_request
     = Some (Inr guide_record, registry_guide, [])"
  by (simp add: createDigitalID_memory guide_document registry_fresh_def guide_added
      registry_guide_def)

text \<open>The schema accepts the second request as it stands.\<close>

lemma strip_nothing: "space_ahead spaces s = 0 \<Longrightarrow> strip spaces s = s"
  by (subst strip.simps) simp

lemma twin_stored_accepted:
  "DigitalID_create toLowerCase_ascii [asha_record] ''65540d62f1a2b3c4d5e6f708'' twin_stored
     = Inr (twin_stored, [asha_record, twin_stored])"
proof -
  have ahead: "space_ahead white_space ''Asha'' = 0"
    "space_ahead white_space ''asha@x.com'' = 0"
    by (simp_all add: space_ahead_def white_space_def)
  have behind: "space_ahead (map rev white_space) (rev ''Asha'') = 0"
    "space_ahead (map rev white_space) (rev ''asha@x.com'') = 0"
    by (simp_all add: space_ahead_def white_space_def)
  have t: "trim ''Asha'' = ''Asha''" "trim ''asha@x.com'' = ''asha@x.com''"
    using ahead behind by (simp_all add: trim_def strip_nothing del: rev.simps)
  have l: "toLowerCase_ascii ''asha@x.com'' = ''asha@x.com''"
    by (simp add: toLowerCase_ascii_def)
  have v: "schema_valid twin_stored"
    by (simp add: twin_stored_def twin_record_def wallet_B_def schema_valid_def
        email_pattern_def some_def opt_def is_word_def wallet_format_def is_hex_def
        string_length_def Let_def)
  have same: "twin_stored\<lparr>did_id := ''65540d62f1a2b3c4d5e6f708'',
      did_name := trim (did_name twin_stored),
      did_email := toLowerCase_ascii (trim (did_email twin_stored))\<rparr> = twin_stored"
    using t l by (simp add: twin_stored_def twin_record_def)
  have new: "did_hash twin_stored \<notin> set (map did_hash [asha_record])"
    by (simp add: twin_stored_def twin_record_def asha_record_def)
  from v same new show ?thesis
    by (simp add: DigitalID_create_def Let_def)
qed

lemma create_twin_durable:
  "createDigitalID toLowerCase_ascii registry_asha [asha_record] 1 1700000002000 1700000002000
       1700000002072 ''65540d62f1a2b3c4d5e6f708'' twin_request
     = Some (Inr twin_stored, registry_twin_stored, [asha_record, twin_stored])"
  using createDigitalID_durable_stored [of toLowerCase_ascii "[asha_record]"
      "''65540d62f1a2b3c4d5e6f708''" twin_request 1700000002000 1700000002000 twin_stored
      "[asha_record, twin_stored]" registry_asha 1700000002072]
    twin_stored_accepted
  by (simp add: twin_stored_document registry_asha_def twin_stored_added
      registry_twin_stored_def)

text \<open>
  Claim C9, at a failing input. The claim holds the two backends to the same results and
  the same enforcement, chosen once at construction. A request with the role "guide",
  which the schema's list does not hold, is stored and mined by a fresh instance while the
  connection state is 0, and refused with "Failed to create digital ID" by the same fresh
  instance while the state is 1; the instance that stored it refuses the same request once
  the state has become 1, so the branch is chosen at each call.
\<close>

theorem guide_request_backends_differ:
  "createDigitalID toLowerCase_ascii registry_fresh [] 0 1700000003000 1700000003000
       1700000003110 ''16fd2706-8baf-433b-82eb-8c7fada847da'' guide_request
     = Some (Inr guide_record, registry_guide, []) \<and>
   createDigitalID toLowerCase_ascii registry_fresh [] 1 1700000003000 1700000003000
       1700000003110 ''65540d63f1a2b3c4d5e6f709'' guide_request
     = Some (Inl (Error ''Failed to create digital ID''), registry_fresh, []) \<and>
   createDigitalID toLowerCase_ascii registry_guide [] 1 1700000004000 1700000004000
       1700000004100 ''65540d64f1a2b3c4d5e6f70a'' guide_request
     = Some (Inl (Error ''Failed to create digital ID''), registry_guide, [])"
proof -
  have "DigitalID_create toLowerCase_ascii [] oid (new_document guide_request t1 t2 oid)
      = Inl (Error ''DigitalID validation failed'')" for oid t1 t2
    by (rule DigitalID_create_role) (simp add: new_document_def guide_request_def)
  then have "createDigitalID toLowerCase_ascii st [] 1 t1 t2 t3 oid guide_request
     = Some (Inl (Error ''Failed to create digital ID''), st, [])" for st t1 t2 t3 oid
    by (rule createDigitalID_durable_refused)
  with create_guide_memory show ?thesis by simp
qed

text \<open>
  Claim C3, as stated, fails on the ledger service. After Asha's record is created, a second
  request with her email and another wallet is accepted by both branches: the instance then
  holds two records with the same email.
\<close>

theorem duplicate_email_accepted_counterexample:
  "createDigitalID toLowerCase_ascii registry_fresh [] 0 1700000001000 1700000001000
       1700000001449 ''1b4e28ba-2fa1-4d3b-a3f5-ef19b5a7633b'' asha_request
     = Some (Inr asha_record, registry_asha, []) \<and>
   createDigitalID toLowerCase_ascii registry_asha [] 0 1700000002000 1700000002000
       1700000002554 ''6fa459ea-ee8a-4ca4-894e-db77e160355e'' twin_request
     = Some (Inr twin_record, registry_twin, []) \<and>
   createDigitalID toLowerCase_ascii registry_asha [asha_record] 1 1700000002000 1700000002000
       1700000002072 ''65540d62f1a2b3c4d5e6f708'' twin_request
     = Some (Inr twin_stored, registry_twin_stored, [asha_record, twin_stored]) \<and>
   did_email twin_record = did_email asha_record \<and>
   did_email twin_stored = did_email asha_record \<and>
   sb_digitalIDs registry_twin = [asha_record, twin_record] \<and>
   sb_digitalIDs registry_twin_stored = [asha_record, twin_stored]"
  using create_asha_memory create_twin_memory create_twin_durable
  by (simp add: twin_record_def twin_stored_def asha_record_def registry_twin_def
      registry_twin_stored_def)

end
